theory Spec2Isabelle
  imports Complex_Main "HOL-Library.AList"
begin

section \<open>Python values used by guardowl/protocols.py\<close>

text \<open>
  The exceptions that protocols.py raises itself, or that the Python interpreter raises
  while running its statements. \<^verbatim>\<open>open(path, "w")\<close> raises FileNotFoundError when the
  folder of the path does not exist. Failures inside the simulation engine (OpenMM) are not
  modelled: an engine call is recorded as an event and returns.
\<close>

datatype py_error =
    AssertionError
  | RuntimeError
  | NameError
  | AttributeError
  | ValueError
  | IndexError
  | FileNotFoundError
  | OpenMMException

subsection \<open>Formatting an int in an f-string\<close>

text \<open>
  \<^verbatim>\<open>f"{temperature}"\<close> of a Python int is \<^verbatim>\<open>str(temperature)\<close>: the decimal digits
  without leading zeros, and a leading minus sign for a negative number.
\<close>

definition digit_char :: "nat \<Rightarrow> char" where
  "digit_char d = char_of (48 + d)"

fun str_nat :: "nat \<Rightarrow> string" where
  "str_nat n = (if n < 10 then [digit_char n] else str_nat (n div 10) @ [digit_char (n mod 10)])"

declare str_nat.simps [simp del]

definition str_int :: "int \<Rightarrow> string" where
  "str_int i = (if i < 0 then CHR ''-'' # str_nat (nat (- i)) else str_nat (nat i))"

subsection \<open>Indexing a sequence\<close>

text \<open>
  \<^verbatim>\<open>xs[i]\<close> on a sequence of length \<open>n\<close>: a negative index counts from the end, and an
  index outside \<open>-n .. n-1\<close> raises IndexError.
\<close>

definition norm_index :: "nat \<Rightarrow> int \<Rightarrow> py_error + nat" where
  "norm_index n i =
     (let j = (if i < 0 then i + int n else i)
      in if 0 \<le> j \<and> j < int n then Inr (nat j) else Inl IndexError)"

definition py_index :: "'a list \<Rightarrow> int \<Rightarrow> py_error + 'a" where
  "py_index xs i = (case norm_index (length xs) i of Inl e \<Rightarrow> Inl e | Inr k \<Rightarrow> Inr (xs ! k))"

section \<open>Binary64 numbers\<close>

text \<open>
  A Python float and a numpy float64 are IEEE 754 binary64 numbers. A finite binary64 number
  is modelled by its exact value, a rational number, and every arithmetic operation returns
  the exact result rounded to the nearest number with a 53 bit significand, ties to even.
  The exponent range is not bounded: overflow to infinity, subnormal numbers and the sign of
  zero are outside the model. Not-a-number arises in protocols.py only from 0/0, when a zero
  vector is divided by its norm, and is modelled where it arises.
\<close>

subsection \<open>Rounding a rational number\<close>

text \<open>
  \<open>binade x\<close> is the exponent \<open>e\<close> with \<open>2^e \<le> |x| < 2^(e+1)\<close>; \<open>fl x\<close> is the multiple of
  \<open>2^(e-52)\<close> nearest to \<open>x\<close>. \<open>sqrt_nearest x\<close> is the binary64 number nearest to the square
  root of \<open>x\<close>: the square root of \<open>x * 4^k\<close>, scaled into \<open>[2^52, 2^53)\<close>, is rounded to an
  integer by comparing \<open>x * 4^k\<close> with the square of the midpoint. \<open>py_int\<close> is Python's
  \<^verbatim>\<open>int(x)\<close> on a float, which truncates towards zero.
\<close>

function floor_log2 :: "int \<Rightarrow> int" where
  "floor_log2 n = (if n < 2 then 0 else 1 + floor_log2 (n div 2))"
  by pat_completeness auto
termination
  by (relation "measure nat") auto

declare floor_log2.simps [simp del]

definition pow2 :: "int \<Rightarrow> rat" where
  "pow2 e = (if 0 \<le> e then 2 ^ nat e else 1 / 2 ^ nat (- e))"

definition binade :: "rat \<Rightarrow> int" where
  "binade x =
     (let (a, b) = quotient_of \<bar>x\<bar>;
          e0 = floor_log2 a - floor_log2 b
      in if pow2 e0 \<le> \<bar>x\<bar> then e0 else e0 - 1)"

definition round_half_even :: "rat \<Rightarrow> int" where
  "round_half_even q =
     (let f = \<lfloor>q\<rfloor>; r = q - of_int f
      in if r < 1 / 2 then f
         else if 1 / 2 < r then f + 1
         else if even f then f else f + 1)"

definition fl :: "rat \<Rightarrow> rat" where
  "fl x =
     (if x = 0 then 0
      else let ulp = pow2 (binade x - 52) in of_int (round_half_even (x / ulp)) * ulp)"

function floor_sqrt :: "int \<Rightarrow> int" where
  "floor_sqrt n =
     (if n < 1 then 0
      else let r = 2 * floor_sqrt (n div 4) in if (r + 1) * (r + 1) \<le> n then r + 1 else r)"
  by pat_completeness auto
termination
  by (relation "measure nat") auto

declare floor_sqrt.simps [simp del]

definition sqrt_nearest :: "rat \<Rightarrow> rat" where
  "sqrt_nearest x =
     (if x \<le> 0 then 0
      else let k = 52 - binade x div 2;
               q = x * pow2 (2 * k);
               m = floor_sqrt \<lfloor>q\<rfloor>;
               h = (of_int m + 1 / 2) * (of_int m + 1 / 2)
           in of_int (if q < h then m else if h < q then m + 1 else if even m then m else m + 1)
                * pow2 (- k))"

definition py_int :: "rat \<Rightarrow> int" where
  "py_int x = (if 0 \<le> x then \<lfloor>x\<rfloor> else \<lceil>x\<rceil>)"

subsection \<open>Properties of the rounding\<close>

lemma floor_log2_nonneg: "0 \<le> floor_log2 n"
  by (induction n rule: floor_log2.induct) (subst floor_log2.simps, simp)

lemma floor_log2_bounds:
  "1 \<le> n \<Longrightarrow> 2 ^ nat (floor_log2 n) \<le> n \<and> n < 2 * 2 ^ nat (floor_log2 n)"
proof (induction n rule: floor_log2.induct)
  case (1 n)
  show ?case
  proof (cases "n < 2")
    case True
    then have "n = 1" using "1.prems" by simp
    then show ?thesis by (subst (1 2) floor_log2.simps) simp
  next
    case False
    then have h: "1 \<le> n div 2" by simp
    note ih = "1.IH"[OF False h]
    have e: "nat (floor_log2 n) = Suc (nat (floor_log2 (n div 2)))"
      using False floor_log2_nonneg[of "n div 2"] by (subst floor_log2.simps) (simp add: nat_add_distrib)
    have "2 * (n div 2) \<le> n" by simp
    moreover have "n < 2 * (n div 2) + 2" by simp
    ultimately show ?thesis unfolding e using ih by simp
  qed
qed

lemma pow2_powi: "pow2 e = 2 powi e"
  by (simp add: pow2_def power_int_def field_simps)

lemma pow2_pos [simp]: "0 < pow2 e"
  by (simp add: pow2_powi)

lemma pow2_add: "pow2 (a + b) = pow2 a * pow2 b"
  by (simp add: pow2_powi power_int_add)

lemma pow2_strict_mono: "a < b \<Longrightarrow> pow2 a < pow2 b"
  by (simp add: pow2_powi power_int_strict_increasing)

lemma pow2_mono: "a \<le> b \<Longrightarrow> pow2 a \<le> pow2 b"
  by (simp add: pow2_powi power_int_increasing)

lemma pow2_less_iff [simp]: "pow2 a < pow2 b \<longleftrightarrow> a < b"
  using pow2_strict_mono[of a b] pow2_mono[of b a] by (cases "a < b") auto

lemma pow2_le_iff [simp]: "pow2 a \<le> pow2 b \<longleftrightarrow> a \<le> b"
  unfolding linorder_not_less[symmetric] by simp

lemma pow2_nat: "0 \<le> e \<Longrightarrow> pow2 e = 2 ^ nat e"
  by (simp add: pow2_def)

lemma pow2_0 [simp]: "pow2 0 = 1"
  by (simp add: pow2_def)

lemma pow2_1 [simp]: "pow2 1 = 2"
  by (simp add: pow2_def)

lemma pow2_Suc: "pow2 (e + 1) = 2 * pow2 e"
  by (simp add: pow2_add)

lemma pow2_minus: "pow2 (- e) = 1 / pow2 e"
  by (simp add: pow2_powi power_int_minus field_simps)

lemma pow2_diff: "pow2 (a - b) = pow2 a / pow2 b"
  using pow2_add[of a "- b"] by (simp add: pow2_minus)

lemma binade_bounds:
  assumes "x \<noteq> 0"
  shows "pow2 (binade x) \<le> \<bar>x\<bar>" and "\<bar>x\<bar> < pow2 (binade x + 1)"
proof -
  obtain a b where q: "quotient_of \<bar>x\<bar> = (a, b)"
    by (cases "quotient_of \<bar>x\<bar>")
  have b: "0 < b" using quotient_of_denom_pos[OF q] .
  have x: "\<bar>x\<bar> = of_int a / of_int b" using quotient_of_div[OF q] .
  have "0 < \<bar>x\<bar>" using assms by simp
  then have a: "0 < a" using b unfolding x by (simp add: zero_less_divide_iff)
  define la lb where "la = floor_log2 a" and "lb = floor_log2 b"
  have la: "0 \<le> la" and lb: "0 \<le> lb"
    by (simp_all add: la_def lb_def floor_log2_nonneg)
  have "2 ^ nat la \<le> a \<and> a < 2 * 2 ^ nat la"
    unfolding la_def using floor_log2_bounds[of a] a by simp
  then have "(of_int (2 ^ nat la) :: rat) \<le> of_int a" and "(of_int a :: rat) < of_int (2 * 2 ^ nat la)"
    unfolding of_int_le_iff of_int_less_iff by simp_all
  then have A: "pow2 la \<le> of_int a" "of_int a < 2 * pow2 la"
    using la by (simp_all add: pow2_nat)
  have "2 ^ nat lb \<le> b \<and> b < 2 * 2 ^ nat lb"
    unfolding lb_def using floor_log2_bounds[of b] b by simp
  then have "(of_int (2 ^ nat lb) :: rat) \<le> of_int b" and "(of_int b :: rat) < of_int (2 * 2 ^ nat lb)"
    unfolding of_int_le_iff of_int_less_iff by simp_all
  then have B: "pow2 lb \<le> of_int b" "of_int b < 2 * pow2 lb"
    using lb by (simp_all add: pow2_nat)
  have b': "(0 :: rat) < of_int b" using b by simp
  have up: "\<bar>x\<bar> < pow2 (la - lb + 1)"
  proof -
    have "of_int a * pow2 lb < 2 * pow2 la * of_int b"
    proof -
      have "of_int a * pow2 lb < 2 * pow2 la * pow2 lb"
        using A(2) by simp
      also have "\<dots> \<le> 2 * pow2 la * of_int b"
        using B(1) by simp
      finally show ?thesis .
    qed
    then have "of_int a / of_int b < 2 * pow2 la / pow2 lb"
      using b' by (simp add: field_simps)
    then show ?thesis unfolding x by (simp add: pow2_Suc pow2_diff)
  qed
  have low: "pow2 (la - lb - 1) < \<bar>x\<bar>"
  proof -
    have "pow2 la * of_int b < of_int a * (2 * pow2 lb)"
    proof -
      have "pow2 la * of_int b < pow2 la * (2 * pow2 lb)"
        using B(2) by simp
      also have "\<dots> \<le> of_int a * (2 * pow2 lb)"
        using A(1) by simp
      finally show ?thesis .
    qed
    then have "pow2 la / (2 * pow2 lb) < of_int a / of_int b"
      using b' by (simp add: field_simps)
    moreover have "pow2 (la - lb - 1) = pow2 la / (2 * pow2 lb)"
      using pow2_Suc[of "la - lb - 1"] by (simp add: pow2_diff)
    ultimately show ?thesis unfolding x by simp
  qed
  have e: "binade x = (if pow2 (la - lb) \<le> \<bar>x\<bar> then la - lb else la - lb - 1)"
    by (simp add: binade_def q la_def lb_def)
  show "pow2 (binade x) \<le> \<bar>x\<bar>"
    unfolding e using low by auto
  show "\<bar>x\<bar> < pow2 (binade x + 1)"
    unfolding e using up by auto
qed

lemma binade_unique:
  assumes "pow2 e \<le> \<bar>x\<bar>" and "\<bar>x\<bar> < pow2 (e + 1)"
  shows "binade x = e"
proof -
  have "0 < \<bar>x\<bar>" using assms(1) pow2_pos[of e] by linarith
  then have x: "x \<noteq> 0" by simp
  note b = binade_bounds[OF x]
  have "pow2 e < pow2 (binade x + 1)" using assms(1) b(2) by linarith
  moreover have "pow2 (binade x) < pow2 (e + 1)" using assms(2) b(1) by linarith
  ultimately show ?thesis by simp
qed

lemma binade_uminus [simp]: "binade (- x) = binade x"
  by (simp add: binade_def)

lemma round_half_even_of_int [simp]: "round_half_even (of_int n) = n"
  by (simp add: round_half_even_def)

lemma round_half_even_cases:
  "round_half_even q = \<lfloor>q\<rfloor> \<and> q - of_int \<lfloor>q\<rfloor> \<le> 1 / 2
   \<or> round_half_even q = \<lfloor>q\<rfloor> + 1 \<and> 1 / 2 \<le> q - of_int \<lfloor>q\<rfloor>"
  unfolding round_half_even_def Let_def by auto

lemma round_half_even_bounds:
  "q - 1 / 2 \<le> of_int (round_half_even q)" "of_int (round_half_even q) \<le> q + 1 / 2"
proof -
  define f where "f = \<lfloor>q\<rfloor>"
  have lo: "of_int f \<le> q" and hi: "q < of_int f + 1" unfolding f_def by linarith+
  have c: "round_half_even q = f \<and> q - of_int f \<le> 1 / 2
         \<or> round_half_even q = f + 1 \<and> 1 / 2 \<le> q - of_int f"
    unfolding f_def by (rule round_half_even_cases)
  show "q - 1 / 2 \<le> of_int (round_half_even q)"
    using c lo hi by (elim disjE conjE) simp_all
  show "of_int (round_half_even q) \<le> q + 1 / 2"
    using c lo hi by (elim disjE conjE) simp_all
qed

lemma round_half_even_mono:
  assumes "q \<le> q'"
  shows "round_half_even q \<le> round_half_even q'"
proof (cases "\<lfloor>q\<rfloor> = \<lfloor>q'\<rfloor>")
  case True
  then show ?thesis using assms by (auto simp: round_half_even_def Let_def)
next
  case False
  then have "\<lfloor>q\<rfloor> < \<lfloor>q'\<rfloor>" using floor_mono[OF assms] by simp
  moreover have "round_half_even q \<le> \<lfloor>q\<rfloor> + 1" by (simp add: round_half_even_def Let_def)
  moreover have "\<lfloor>q'\<rfloor> \<le> round_half_even q'" by (simp add: round_half_even_def Let_def)
  ultimately show ?thesis by linarith
qed

lemma round_half_even_uminus: "round_half_even (- q) = - round_half_even q"
proof (cases "q = of_int \<lfloor>q\<rfloor>")
  case True
  then obtain n where "q = of_int n" ..
  then have "- q = of_int (- n)" by simp
  then show ?thesis unfolding \<open>q = of_int n\<close> by (simp only: round_half_even_of_int)
next
  case False
  define n where "n = \<lfloor>q\<rfloor>"
  have ne: "q \<noteq> of_int n" using False by (simp add: n_def)
  have "of_int n \<le> q" and hi: "q < of_int n + 1" unfolding n_def by linarith+
  then have lo: "of_int n < q" using ne by simp
  have f: "\<lfloor>- q\<rfloor> = - n - 1"
    using lo hi by (intro floor_unique) simp_all
  have r: "round_half_even q =
     (if q - of_int n < 1 / 2 then n else if 1 / 2 < q - of_int n then n + 1
      else if even n then n else n + 1)"
    by (simp add: round_half_even_def Let_def n_def)
  have r': "round_half_even (- q) =
     (if - q - of_int (- n - 1) < 1 / 2 then - n - 1 else if 1 / 2 < - q - of_int (- n - 1) then - n
      else if even (- n - 1) then - n - 1 else - n)"
    by (simp add: round_half_even_def Let_def f)
  show ?thesis
    unfolding r r' by auto
qed

lemma pow2_mult_eq: "a + b = c \<Longrightarrow> pow2 a * pow2 b = pow2 c"
  by (auto simp: pow2_add)

lemma abs_pow2 [simp]: "\<bar>pow2 e\<bar> = pow2 e"
  by (simp add: abs_of_pos)

lemma pow2_neq_0 [simp]: "pow2 e \<noteq> 0"
  by (simp add: pow2_powi)

lemma pow2_nonneg [simp]: "0 \<le> pow2 e"
  by (simp add: pow2_powi)

lemma fl_0 [simp]: "fl 0 = 0"
  by (simp add: fl_def)

lemma fl_uminus: "fl (- x) = - fl x"
  by (simp add: fl_def Let_def round_half_even_uminus)

lemma pow2_52: "pow2 52 = of_int (2 ^ 52)" and pow2_53: "pow2 53 = of_int (2 ^ 53)"
  by (simp_all add: pow2_def)

lemma scaled_bounds:
  assumes "0 < x"
  shows "pow2 52 \<le> x / pow2 (binade x - 52)" and "x / pow2 (binade x - 52) < pow2 53"
proof -
  have x: "x \<noteq> 0" using assms by simp
  have lo: "pow2 (binade x) \<le> x" and hi: "x < 2 * pow2 (binade x)"
    using binade_bounds[OF x] assms by (simp_all add: pow2_Suc)
  have u: "x / pow2 (binade x - 52) = x * pow2 52 / pow2 (binade x)"
    by (simp add: pow2_diff)
  have p: "0 < pow2 (binade x)" by simp
  have q: "0 < pow2 52" by simp
  show "pow2 52 \<le> x / pow2 (binade x - 52)"
    unfolding u using lo p q by (simp add: pos_le_divide_eq mult.commute)
  have "pow2 53 = 2 * pow2 52" using pow2_Suc[of 52] by simp
  moreover have "x * pow2 52 < 2 * pow2 52 * pow2 (binade x)"
    using hi q by simp
  ultimately show "x / pow2 (binade x - 52) < pow2 53"
    unfolding u using p by (simp add: pos_divide_less_eq)
qed

lemma mantissa_bounds:
  assumes "0 < x"
  shows "2 ^ 52 \<le> round_half_even (x / pow2 (binade x - 52))"
    and "round_half_even (x / pow2 (binade x - 52)) \<le> 2 ^ 53"
proof -
  note s = scaled_bounds[OF assms]
  have "round_half_even (of_int (2 ^ 52)) \<le> round_half_even (x / pow2 (binade x - 52))"
    by (rule round_half_even_mono) (use s(1) in \<open>simp only: pow2_52\<close>)
  then show "2 ^ 52 \<le> round_half_even (x / pow2 (binade x - 52))"
    by (simp only: round_half_even_of_int)
  have "round_half_even (x / pow2 (binade x - 52)) \<le> round_half_even (of_int (2 ^ 53))"
    by (rule round_half_even_mono) (use s(2) in \<open>simp only: pow2_53 less_imp_le\<close>)
  then show "round_half_even (x / pow2 (binade x - 52)) \<le> 2 ^ 53"
    by (simp only: round_half_even_of_int)
qed

lemma fl_pos_eq:
  "0 < x \<Longrightarrow> fl x = of_int (round_half_even (x / pow2 (binade x - 52))) * pow2 (binade x - 52)"
  by (simp add: fl_def Let_def)

lemma fl_pos_bounds:
  assumes "0 < x"
  shows "pow2 (binade x) \<le> fl x" and "fl x \<le> pow2 (binade x + 1)"
proof -
  let ?u = "pow2 (binade x - 52)"
  let ?m = "round_half_even (x / ?u)"
  note m = mantissa_bounds[OF assms]
  have m1: "pow2 52 \<le> of_int ?m" unfolding pow2_52 of_int_le_iff by (rule m(1))
  have m2: "of_int ?m \<le> pow2 53" unfolding pow2_53 of_int_le_iff by (rule m(2))
  have a: "pow2 (binade x) = pow2 52 * ?u"
    by (rule pow2_mult_eq[symmetric]) simp
  have b: "pow2 (binade x + 1) = pow2 53 * ?u"
    by (rule pow2_mult_eq[symmetric]) simp
  show "pow2 (binade x) \<le> fl x"
    unfolding fl_pos_eq[OF assms] a using m1 by simp
  show "fl x \<le> pow2 (binade x + 1)"
    unfolding fl_pos_eq[OF assms] b using m2 by simp
qed

lemma fl_pos: "0 < x \<Longrightarrow> 0 < fl x"
  using fl_pos_bounds(1)[of x] pow2_pos[of "binade x"] by linarith

lemma fl_neg: "x < 0 \<Longrightarrow> fl x < 0"
  using fl_pos[of "- x"] by (simp add: fl_uminus)

lemma fl_eq_0_iff [simp]: "fl x = 0 \<longleftrightarrow> x = 0"
  using fl_pos[of x] fl_neg[of x] by (cases "x = 0"; cases "0 < x") auto

lemma fl_representable:
  assumes "2 ^ 52 \<le> m" and "m \<le> 2 ^ 53"
  shows "fl (of_int m * pow2 k) = of_int m * pow2 k"
proof -
  let ?x = "of_int m * pow2 k :: rat"
  have m0: "(0 :: rat) < of_int m" using assms(1) by simp
  have x0: "0 < ?x" using m0 by simp
  have m1: "pow2 52 \<le> of_int m" unfolding pow2_52 of_int_le_iff by (rule assms(1))
  show ?thesis
  proof (cases "m = 2 ^ 53")
    case True
    have x: "?x = pow2 (k + 53)"
      unfolding True pow2_53[symmetric] by (rule pow2_mult_eq) simp
    have b: "binade ?x = k + 53"
      unfolding x by (rule binade_unique) simp_all
    have k1: "pow2 52 * pow2 (k + 1) = pow2 (k + 53)"
      by (rule pow2_mult_eq) simp
    have bb: "binade ?x - 52 = k + 1" unfolding b by simp
    have "?x / pow2 (binade ?x - 52) = of_int (2 ^ 52)"
      unfolding bb unfolding x pow2_52[symmetric] k1[symmetric] by simp
    then have "fl ?x = of_int (2 ^ 52) * pow2 (k + 1)"
      unfolding fl_pos_eq[OF x0] bb by (simp only: round_half_even_of_int)
    also have "\<dots> = pow2 (k + 53)"
      unfolding pow2_52[symmetric] by (rule k1)
    finally show ?thesis unfolding x .
  next
    case False
    then have "m < 2 ^ 53" using assms(2) by simp
    then have m2: "of_int m < pow2 53" unfolding pow2_53 of_int_less_iff .
    have b: "binade ?x = k + 52"
    proof (rule binade_unique)
      have e1: "pow2 52 * pow2 k = pow2 (k + 52)" and e2: "pow2 53 * pow2 k = pow2 (k + 52 + 1)"
        by (rule pow2_mult_eq, simp)+
      have ax: "\<bar>?x\<bar> = of_int m * pow2 k"
        using m0 by (simp add: abs_mult)
      show "pow2 (k + 52) \<le> \<bar>?x\<bar>"
        unfolding ax e1[symmetric] using m1 by simp
      show "\<bar>?x\<bar> < pow2 (k + 52 + 1)"
        unfolding ax e2[symmetric] using m2 by simp
    qed
    have bb: "binade ?x - 52 = k" unfolding b by simp
    have "?x / pow2 (binade ?x - 52) = of_int m"
      unfolding bb by simp
    then show ?thesis
      unfolding fl_pos_eq[OF x0] bb by (simp only: round_half_even_of_int)
  qed
qed

lemma fl_idem [simp]: "fl (fl x) = fl x"
proof -
  have pos: "fl (fl y) = fl y" if "0 < y" for y
    unfolding fl_pos_eq[OF that]
    by (rule fl_representable) (rule mantissa_bounds[OF that])+
  show ?thesis
  proof (cases "0 < x")
    case True
    then show ?thesis by (rule pos)
  next
    case False
    show ?thesis
    proof (cases "x = 0")
      case True
      then show ?thesis by simp
    next
      case False
      then have "0 < - x" using \<open>\<not> 0 < x\<close> by simp
      from pos[OF this] show ?thesis by (simp add: fl_uminus)
    qed
  qed
qed

lemma fl_mono_pos:
  assumes "0 < x" and "x \<le> y"
  shows "fl x \<le> fl y"
proof -
  have y0: "0 < y" using assms by simp
  have bx: "pow2 (binade x) \<le> x" "x < pow2 (binade x + 1)"
    using binade_bounds[of x] assms(1) by simp_all
  have yb: "pow2 (binade y) \<le> y" "y < pow2 (binade y + 1)"
    using binade_bounds[of y] y0 by simp_all
  have "pow2 (binade x) < pow2 (binade y + 1)"
    using bx(1) yb(2) assms(2) by linarith
  then have le: "binade x \<le> binade y" by simp
  show ?thesis
  proof (cases "binade x = binade y")
    case True
    let ?u = "pow2 (binade y - 52)"
    have "x / ?u \<le> y / ?u" by (rule divide_right_mono[OF assms(2)]) simp
    then have "round_half_even (x / ?u) \<le> round_half_even (y / ?u)"
      by (rule round_half_even_mono)
    then have "(of_int (round_half_even (x / ?u)) :: rat) \<le> of_int (round_half_even (y / ?u))"
      by simp
    then show ?thesis
      unfolding fl_pos_eq[OF assms(1)] fl_pos_eq[OF y0] True
      by (simp add: mult_right_mono)
  next
    case False
    then have "binade x + 1 \<le> binade y" using le by simp
    then have "pow2 (binade x + 1) \<le> pow2 (binade y)" by simp
    then show ?thesis
      using fl_pos_bounds(2)[OF assms(1)] fl_pos_bounds(1)[OF y0] by linarith
  qed
qed

lemma fl_mono:
  assumes "x \<le> y"
  shows "fl x \<le> fl y"
proof (cases "0 < x")
  case True
  then show ?thesis using assms by (rule fl_mono_pos)
next
  case nx: False
  show ?thesis
  proof (cases "0 \<le> y")
    case True
    have "fl x \<le> 0"
      using fl_neg[of x] nx by (cases "x = 0") auto
    moreover have "0 \<le> fl y"
      using fl_pos[of y] True by (cases "y = 0") auto
    ultimately show ?thesis by simp
  next
    case False
    then have "0 < - y" "- y \<le> - x" using assms by simp_all
    then have "fl (- y) \<le> fl (- x)" by (rule fl_mono_pos)
    then show ?thesis by (simp add: fl_uminus)
  qed
qed

lemma fl_error_pos:
  assumes "0 < x"
  shows "\<bar>fl x - x\<bar> \<le> x / 2 ^ 53"
proof -
  let ?u = "pow2 (binade x - 52)"
  let ?m = "round_half_even (x / ?u)"
  have u0: "0 < ?u" by simp
  have "\<bar>of_int ?m - x / ?u\<bar> \<le> 1 / 2"
    using round_half_even_bounds[of "x / ?u"] by linarith
  then have "\<bar>of_int ?m - x / ?u\<bar> * ?u \<le> 1 / 2 * ?u"
    using u0 by (simp only: mult_right_mono less_imp_le)
  moreover have "\<bar>of_int ?m - x / ?u\<bar> * ?u = \<bar>fl x - x\<bar>"
  proof -
    have "\<bar>of_int ?m - x / ?u\<bar> * ?u = \<bar>(of_int ?m - x / ?u) * ?u\<bar>"
      using u0 by (simp add: abs_mult)
    also have "(of_int ?m - x / ?u) * ?u = fl x - x"
      unfolding fl_pos_eq[OF assms] using u0 by (simp add: left_diff_distrib)
    finally show ?thesis .
  qed
  ultimately have e: "\<bar>fl x - x\<bar> \<le> ?u / 2" by simp
  have "pow2 (binade x) \<le> x"
    using binade_bounds(1)[of x] assms by simp
  then have "?u \<le> x / pow2 52"
    by (simp add: pow2_diff divide_right_mono)
  then have "?u / 2 \<le> x / 2 ^ 53"
    by (simp add: pow2_def)
  with e show ?thesis by linarith
qed

lemma fl_exact_pos:
  assumes "0 < m" and "m \<le> 2 ^ 53"
  shows "fl (of_int m * pow2 k) = of_int m * pow2 k"
  using assms
proof (induction "nat (2 ^ 52 - m)" arbitrary: m k rule: less_induct)
  case less
  show ?case
  proof (cases "2 ^ 52 \<le> m")
    case True
    then show ?thesis using less.prems(2) by (rule fl_representable)
  next
    case False
    then have lt: "m < 2 ^ 52" by simp
    have d: "nat (2 ^ 52 - 2 * m) < nat (2 ^ 52 - m)"
      using lt less.prems(1) by simp
    have "fl (of_int (2 * m) * pow2 (k - 1)) = of_int (2 * m) * pow2 (k - 1)"
      by (rule less.hyps[OF d]) (use lt less.prems(1) in simp_all)
    moreover have "of_int (2 * m) * pow2 (k - 1) = (of_int m * pow2 k :: rat)"
    proof -
      have "pow2 k = 2 * pow2 (k - 1)" using pow2_Suc[of "k - 1"] by simp
      then show ?thesis by simp
    qed
    ultimately show ?thesis by (simp only:)
  qed
qed

lemma fl_exact:
  assumes "\<bar>m\<bar> \<le> 2 ^ 53"
  shows "fl (of_int m * pow2 k) = of_int m * pow2 k"
proof (cases "0 < m")
  case True
  then show ?thesis using assms by (intro fl_exact_pos) simp_all
next
  case False
  show ?thesis
  proof (cases "m = 0")
    case True
    then show ?thesis by simp
  next
    case False
    then have "0 < - m" "- m \<le> 2 ^ 53" using \<open>\<not> 0 < m\<close> assms by simp_all
    then have "fl (of_int (- m) * pow2 k) = of_int (- m) * pow2 k"
      by (rule fl_exact_pos)
    then show ?thesis by (simp add: fl_uminus)
  qed
qed

lemma fl_of_int: "\<bar>n\<bar> \<le> 2 ^ 53 \<Longrightarrow> fl (of_int n) = of_int n"
  using fl_exact[of n 0] by simp

lemma fl_of_nat: "n \<le> 2 ^ 53 \<Longrightarrow> fl (of_nat n) = of_nat n"
  using fl_of_int[of "int n"] by simp

lemma fl_1 [simp]: "fl 1 = 1"
  using fl_of_int[of 1] by simp

lemma fl_abs: "fl \<bar>x\<bar> = \<bar>fl x\<bar>"
proof (cases "0 \<le> x")
  case True
  then have "0 \<le> fl x" using fl_mono[of 0 x] by simp
  then show ?thesis using True by simp
next
  case False
  then have "fl x < 0" using fl_neg[of x] by simp
  then show ?thesis using False by (simp add: fl_uminus)
qed

lemma floor_sqrt_bounds:
  "0 \<le> n \<Longrightarrow> 0 \<le> floor_sqrt n \<and> floor_sqrt n * floor_sqrt n \<le> n
     \<and> n < (floor_sqrt n + 1) * (floor_sqrt n + 1)"
proof (induction n rule: floor_sqrt.induct)
  case (1 n)
  show ?case
  proof (cases "n < 1")
    case True
    then have "n = 0" using "1.prems" by simp
    then show ?thesis by (subst (1 2 3 4 5) floor_sqrt.simps) simp
  next
    case False
    define s where "s = floor_sqrt (n div 4)"
    have h: "0 \<le> n div 4" using "1.prems" by simp
    have ih: "0 \<le> s" "s * s \<le> n div 4" "n div 4 < (s + 1) * (s + 1)"
      using "1.IH"[OF False h] by (simp_all add: s_def)
    have e: "floor_sqrt n = (if (2 * s + 1) * (2 * s + 1) \<le> n then 2 * s + 1 else 2 * s)"
      using False by (subst floor_sqrt.simps) (simp add: Let_def s_def)
    have lo: "4 * (n div 4) \<le> n" and hi: "n \<le> 4 * (n div 4) + 3" by simp_all
    have a: "(2 * s) * (2 * s) \<le> n"
    proof -
      have "(2 * s) * (2 * s) = 4 * (s * s)" by simp
      then show ?thesis using ih(2) lo by linarith
    qed
    have b: "n < (2 * s + 2) * (2 * s + 2)"
    proof -
      have "(2 * s + 2) * (2 * s + 2) = 4 * ((s + 1) * (s + 1))" by (simp add: algebra_simps)
      moreover have "n div 4 + 1 \<le> (s + 1) * (s + 1)" using ih(3) by simp
      ultimately show ?thesis using hi by linarith
    qed
    show ?thesis
    proof (cases "(2 * s + 1) * (2 * s + 1) \<le> n")
      case True
      then show ?thesis unfolding e using ih(1) b by (simp add: add.commute)
    next
      case False
      then show ?thesis unfolding e using ih(1) a by simp
    qed
  qed
qed

lemma sqrt_nearest_form:
  assumes "0 < x"
  shows "\<exists>m k. sqrt_nearest x = of_int m * pow2 k \<and> 2 ^ 52 \<le> m \<and> m \<le> 2 ^ 53"
proof -
  define e where "e = binade x"
  define k where "k = 52 - e div 2"
  define q where "q = x * pow2 (2 * k)"
  define m where "m = floor_sqrt \<lfloor>q\<rfloor>"
  define h where "h = (of_int m + 1 / 2) * (of_int m + 1 / 2 :: rat)"
  define m' where "m' = (if q < h then m else if h < q then m + 1 else if even m then m else m + 1)"
  have x0: "x \<noteq> 0" using assms by simp
  have lo: "pow2 e \<le> x" and hi: "x < pow2 (e + 1)"
    using binade_bounds[OF x0] assms by (simp_all add: e_def)
  have q1: "pow2 104 \<le> q"
  proof -
    have "pow2 104 \<le> pow2 (e + 2 * k)" by (simp add: k_def)
    also have "\<dots> = pow2 e * pow2 (2 * k)" by (rule pow2_mult_eq[symmetric]) simp
    also have "\<dots> \<le> q" unfolding q_def using lo by simp
    finally show ?thesis .
  qed
  have q2: "q < pow2 106"
  proof -
    have "q < pow2 (e + 1) * pow2 (2 * k)" unfolding q_def using hi by simp
    also have "\<dots> = pow2 (e + 1 + 2 * k)" by (rule pow2_mult_eq) simp
    also have "\<dots> \<le> pow2 106" by (simp add: k_def)
    finally show ?thesis .
  qed
  have p104: "pow2 104 = of_int (2 ^ 104)" and p106: "pow2 106 = of_int (2 ^ 106)"
    by (simp_all add: pow2_def)
  define n where "n = \<lfloor>q\<rfloor>"
  have f1: "2 ^ 104 \<le> n"
    using q1 unfolding p104 n_def by (simp add: le_floor_iff)
  have f2: "n < 2 ^ 106"
    using q2 unfolding p106 n_def by (simp add: floor_less_iff)
  have f0: "0 \<le> n" using f1 by simp
  have mn: "m = floor_sqrt n" by (simp add: m_def n_def)
  have b: "0 \<le> m" "m * m \<le> n" "n < (m + 1) * (m + 1)"
    using floor_sqrt_bounds[OF f0] unfolding mn by simp_all
  have c1: "(2 :: int) ^ 52 * 2 ^ 52 = 2 ^ 104" and c2: "(2 :: int) ^ 53 * 2 ^ 53 = 2 ^ 106"
    by simp_all
  have m1: "2 ^ 52 \<le> m"
  proof (rule ccontr)
    assume "\<not> 2 ^ 52 \<le> m"
    then have "m + 1 \<le> 2 ^ 52" by simp
    then have "(m + 1) * (m + 1) \<le> 2 ^ 52 * 2 ^ 52"
      using b(1) by (intro mult_mono) simp_all
    then show False using b(3) f1 unfolding c1 by linarith
  qed
  have m2: "m < 2 ^ 53"
  proof (rule ccontr)
    assume "\<not> m < 2 ^ 53"
    then have "2 ^ 53 \<le> m" by simp
    then have "2 ^ 53 * 2 ^ 53 \<le> m * m"
      by (intro mult_mono) simp_all
    then show False using b(2) f2 unfolding c2 by linarith
  qed
  have "2 ^ 52 \<le> m'" "m' \<le> 2 ^ 53"
    using m1 m2 by (simp_all add: m'_def)
  moreover have "sqrt_nearest x = of_int m' * pow2 (- k)"
    using assms
    by (simp add: sqrt_nearest_def Let_def m'_def h_def m_def q_def k_def e_def)
  ultimately show ?thesis by blast
qed

lemma fl_sqrt_nearest [simp]: "fl (sqrt_nearest x) = sqrt_nearest x"
proof (cases "0 < x")
  case True
  from sqrt_nearest_form[OF True] obtain m k where
    "sqrt_nearest x = of_int m * pow2 k" "2 ^ 52 \<le> m" "m \<le> 2 ^ 53" by blast
  then show ?thesis by (simp add: fl_representable)
next
  case False
  then show ?thesis by (simp add: sqrt_nearest_def)
qed

lemma sqrt_nearest_pos: "0 < x \<Longrightarrow> 0 < sqrt_nearest x"
proof -
  assume "0 < x"
  from sqrt_nearest_form[OF this] obtain m k where
    s: "sqrt_nearest x = of_int m * pow2 k" and m: "2 ^ 52 \<le> m" by blast
  have "(0 :: rat) < of_int m" using m by simp
  then show ?thesis unfolding s by simp
qed

lemma sqrt_nearest_eq_0_iff: "sqrt_nearest x = 0 \<longleftrightarrow> x \<le> 0"
  using sqrt_nearest_pos[of x] by (cases "0 < x") (auto simp: sqrt_nearest_def)

subsection \<open>The type of binary64 numbers\<close>

text \<open>
  The numbers that rounding leaves unchanged. \<open>val\<close> is the exact value of a number and
  \<open>float_of\<close> the number nearest to a rational, which is what Python does to a literal and
  to an int that meets a float. The operations \<open>+\<close>, \<open>-\<close>, \<open>*\<close>, \<open>/\<close> on this type round their
  exact result; negation, the absolute value and the comparisons are exact. \<open>x / 0\<close> is 0
  here: the model never divides by zero, the one division whose divisor can be zero is
  guarded where it is made.
\<close>

typedef float64 = "{x :: rat. fl x = x}"
  morphisms val Abs_float64
  by (rule exI[of _ 0]) simp

setup_lifting type_definition_float64

lift_definition float_of :: "rat \<Rightarrow> float64" is fl
  by simp

lift_definition fsqrt :: "float64 \<Rightarrow> float64" is sqrt_nearest
  by simp

instantiation float64 :: "{zero, one, plus, minus, uminus, times, inverse, abs, linorder}"
begin

lift_definition zero_float64 :: float64 is 0
  by simp

lift_definition one_float64 :: float64 is 1
  by simp

lift_definition plus_float64 :: "float64 \<Rightarrow> float64 \<Rightarrow> float64" is "\<lambda>x y. fl (x + y)"
  by simp

lift_definition minus_float64 :: "float64 \<Rightarrow> float64 \<Rightarrow> float64" is "\<lambda>x y. fl (x - y)"
  by simp

lift_definition uminus_float64 :: "float64 \<Rightarrow> float64" is uminus
  by (simp add: fl_uminus)

lift_definition times_float64 :: "float64 \<Rightarrow> float64 \<Rightarrow> float64" is "\<lambda>x y. fl (x * y)"
  by simp

lift_definition divide_float64 :: "float64 \<Rightarrow> float64 \<Rightarrow> float64" is "\<lambda>x y. fl (x / y)"
  by simp

lift_definition inverse_float64 :: "float64 \<Rightarrow> float64" is "\<lambda>x. fl (1 / x)"
  by simp

lift_definition abs_float64 :: "float64 \<Rightarrow> float64" is abs
  by (simp add: fl_abs)

lift_definition less_eq_float64 :: "float64 \<Rightarrow> float64 \<Rightarrow> bool" is "(\<le>)" .

lift_definition less_float64 :: "float64 \<Rightarrow> float64 \<Rightarrow> bool" is "(<)" .

instance
  by standard (transfer; auto)+

end

instantiation float64 :: equal
begin

lift_definition equal_float64 :: "float64 \<Rightarrow> float64 \<Rightarrow> bool" is "(=)" .

instance
  by standard (transfer, simp)

end

lemma fl_val [simp]: "fl (val x) = val x"
  using val[of x] by simp

lemma val_float_of [simp]: "val (float_of x) = fl x"
  by (rule float_of.rep_eq)

lemma val_0 [simp]: "val 0 = 0"
  by (rule zero_float64.rep_eq)

lemma float_of_val [simp]: "float_of (val x) = x"
  by transfer simp

lemma float_of_0 [simp]: "float_of 0 = 0"
  by transfer simp

lemma val_eq_0_iff [simp]: "val x = 0 \<longleftrightarrow> x = 0"
  by transfer simp

lemma float_of_eq_0_iff [simp]: "float_of x = 0 \<longleftrightarrow> x = 0"
  by transfer simp

lemma float64_add_0 [simp]: "x + 0 = (x :: float64)" "0 + x = x"
  by (transfer, simp)+

lemma float64_diff_0 [simp]: "x - 0 = (x :: float64)"
  by transfer simp

lemma float64_mult_0 [simp]: "x * 0 = (0 :: float64)" "0 * x = 0"
  by (transfer, simp)+

lemma float64_divide_0 [simp]: "0 / x = (0 :: float64)"
  by transfer simp

lemma float64_diff_eq_0_iff [simp]: "x - y = 0 \<longleftrightarrow> x = (y :: float64)"
  by transfer simp

lemma float64_mult_eq_0_iff [simp]: "x * y = 0 \<longleftrightarrow> x = 0 \<or> y = (0 :: float64)"
  by transfer simp

lemma float64_divide_eq_0_iff [simp]: "x / y = 0 \<longleftrightarrow> x = 0 \<or> y = (0 :: float64)"
  by transfer simp

lemma float64_neg_0 [simp]: "- 0 = (0 :: float64)"
  by transfer simp

lemma float64_neg_neg [simp]: "- (- x) = (x :: float64)"
  by transfer simp

lemma float64_mult_neg: "x * (- y) = - (x * y :: float64)" "(- x) * y = - (x * y)"
  by (transfer, simp add: fl_uminus)+

lemma float64_divide_neg: "(- x) / y = - (x / y :: float64)"
  by transfer (simp add: fl_uminus)

lemma float64_neg_le_iff: "- x \<le> - y \<longleftrightarrow> y \<le> (x :: float64)"
  by transfer simp

lemma float64_neg_nonneg: "0 \<le> - x \<longleftrightarrow> x \<le> (0 :: float64)"
  by transfer simp

subsection \<open>numpy.linspace\<close>

text \<open>
  \<^verbatim>\<open>np.linspace(start, stop, num)\<close> with the default \<^verbatim>\<open>endpoint=True\<close>, as numpy computes it:
  \<^verbatim>\<open>delta = stop - start\<close>, \<^verbatim>\<open>step = delta / (num - 1)\<close>, the samples are
  \<^verbatim>\<open>arange(0, num) * step + start\<close> (or \<^verbatim>\<open>arange(0, num) / (num - 1) * delta + start\<close> when a
  step is zero), and the last sample is overwritten with \<open>stop\<close> itself. Every operation is
  rounded. \<open>linspace\<close> is the call with a number for \<open>stop\<close>, \<open>linspace_rows\<close> the call with a
  list for \<open>stop\<close>, which returns one row per sample and tests all the steps for zero at
  once.
\<close>

definition linspace :: "float64 \<Rightarrow> float64 \<Rightarrow> nat \<Rightarrow> float64 list" where
  "linspace start stop num =
     (let divisor = float_of (of_int (int num - 1));
          delta = stop - start;
          y = map (\<lambda>i. float_of (of_nat i)) [0..<num];
          y = (if 1 < num
               then (let step = delta / divisor
                     in if step = 0 then map (\<lambda>v. v / divisor * delta) y else map (\<lambda>v. v * step) y)
               else map (\<lambda>v. v * delta) y);
          y = map (\<lambda>v. v + start) y
      in if 1 < num then y[num - 1 := stop] else y)"

definition linspace_rows :: "float64 \<Rightarrow> float64 list \<Rightarrow> nat \<Rightarrow> float64 list list" where
  "linspace_rows start stop num =
     (let divisor = float_of (of_int (int num - 1));
          delta = map (\<lambda>s. s - start) stop;
          y = map (\<lambda>i. float_of (of_nat i)) [0..<num];
          y = (if 1 < num
               then (let step = map (\<lambda>d. d / divisor) delta
                     in if list_ex (\<lambda>s. s = 0) step
                        then map (\<lambda>v. map (\<lambda>d. v / divisor * d) delta) y
                        else map (\<lambda>v. map (\<lambda>s. v * s) step) y)
               else map (\<lambda>v. map (\<lambda>d. v * d) delta) y);
          y = map (map (\<lambda>v. v + start)) y
      in if 1 < num then y[num - 1 := stop] else y)"

lemma length_linspace [simp]: "length (linspace a b n) = n"
  by (simp add: linspace_def Let_def)

lemma length_linspace_rows [simp]: "length (linspace_rows a bs n) = n"
  by (simp add: linspace_rows_def Let_def)

lemma float_of_99 [simp]: "float_of 99 \<noteq> 0"
  by simp

lemma linspace_100_nth:
  assumes "i < 100"
  shows "linspace 0 M 100 ! i = (if i = 99 then M else float_of (of_nat i) * (M / float_of 99))"
proof (cases "i = 99")
  case True
  then show ?thesis by (simp add: linspace_def Let_def)
next
  case False
  then have i: "i < 99" using assms by simp
  show ?thesis
  proof (cases "M = 0")
    case True
    then show ?thesis using i by (simp add: linspace_def Let_def)
  next
    case False
    then show ?thesis using i by (simp add: linspace_def Let_def)
  qed
qed

lemma linspace_10_nth:
  assumes "i < 10"
  shows "linspace 0 M 10 ! i = (if i = 9 then M else float_of (of_nat i) * (M / float_of 9))"
proof (cases "i = 9")
  case True
  then show ?thesis by (simp add: linspace_def Let_def)
next
  case False
  then have i: "i < 9" using assms by simp
  show ?thesis
  proof (cases "M = 0")
    case True
    then show ?thesis using i by (simp add: linspace_def Let_def)
  next
    case False
    then show ?thesis using i by (simp add: linspace_def Let_def)
  qed
qed

lemma val_linspace_sample:
  assumes "i < 99"
  shows "val (float_of (of_nat i) * (M / float_of 99)) = fl (of_nat i * fl (val M / 99))"
proof -
  have "fl (of_nat i) = (of_nat i :: rat)"
    by (rule fl_of_nat) (use assms in simp)
  moreover have "fl 99 = (99 :: rat)"
    using fl_of_nat[of 99] by simp
  ultimately show ?thesis
    by (simp add: times_float64.rep_eq divide_float64.rep_eq)
qed

lemma step_bound:
  assumes "0 \<le> x"
  shows "0 \<le> fl (x / 99)" and "98 * fl (x / 99) \<le> x"
proof -
  show "0 \<le> fl (x / 99)"
    using fl_mono[of 0 "x / 99"] assms by simp
  show "98 * fl (x / 99) \<le> x"
  proof (cases "x = 0")
    case True
    then show ?thesis by simp
  next
    case False
    then have p: "0 < x / 99" using assms by simp
    have "\<bar>fl (x / 99) - x / 99\<bar> \<le> x / 99 / 2 ^ 53"
      by (rule fl_error_pos[OF p])
    then have "fl (x / 99) \<le> x / 99 + x / 99 / 2 ^ 53" by linarith
    then show ?thesis using assms by simp
  qed
qed

lemma linspace_100_mono:
  assumes "0 \<le> M" and "i \<le> j" and "j < 100"
  shows "linspace 0 M 100 ! i \<le> linspace 0 M 100 ! j"
proof -
  define s where "s = fl (val M / 99)"
  have m: "0 \<le> val M" using assms(1) by (simp add: less_eq_float64.rep_eq)
  have s0: "0 \<le> s" and s98: "98 * s \<le> val M"
    unfolding s_def using step_bound[OF m] by simp_all
  have v: "val (linspace 0 M 100 ! k) = (if k = 99 then val M else fl (of_nat k * s))" if "k < 100" for k
    using that by (simp add: linspace_100_nth val_linspace_sample s_def)
  have i: "i < 100" using assms by simp
  have "val (linspace 0 M 100 ! i) \<le> val (linspace 0 M 100 ! j)"
  proof (cases "j = 99")
    case False
    then have "i \<noteq> 99" using assms by simp
    have "(of_nat i :: rat) \<le> of_nat j" using assms(2) by simp
    then have "of_nat i * s \<le> of_nat j * s" using s0 by (rule mult_right_mono)
    then have "fl (of_nat i * s) \<le> fl (of_nat j * s)" by (rule fl_mono)
    then show ?thesis using v[OF i] v[OF assms(3)] False \<open>i \<noteq> 99\<close> by simp
  next
    case True
    show ?thesis
    proof (cases "i = 99")
      case True
      then show ?thesis using \<open>j = 99\<close> by simp
    next
      case False
      then have "i \<le> 98" using assms True by simp
      then have "(of_nat i :: rat) \<le> 98" by simp
      then have "of_nat i * s \<le> 98 * s" using s0 by (rule mult_right_mono)
      then have "of_nat i * s \<le> val M" using s98 by simp
      then have "fl (of_nat i * s) \<le> fl (val M)" by (rule fl_mono)
      then show ?thesis using v[OF i] v[OF assms(3)] True False by simp
    qed
  qed
  then show ?thesis by (simp add: less_eq_float64.rep_eq)
qed

lemma linspace_100_sorted: "0 \<le> M \<Longrightarrow> sorted (linspace 0 M 100)"
  by (simp add: sorted_iff_nth_mono linspace_100_mono)

lemma linspace_100_uminus: "linspace 0 (- M) 100 = map uminus (linspace 0 M 100)"
  by (rule nth_equalityI)
     (simp_all add: linspace_100_nth float64_mult_neg float64_divide_neg)

lemma linspace_100_antimono:
  assumes "M \<le> 0" and "i \<le> j" and "j < 100"
  shows "linspace 0 M 100 ! j \<le> linspace 0 M 100 ! i"
proof -
  have "0 \<le> - M" using assms(1) by (simp add: float64_neg_nonneg)
  from linspace_100_mono[OF this assms(2,3)] assms(2,3)
  have "- (linspace 0 M 100 ! i) \<le> - (linspace 0 M 100 ! j)"
    by (simp add: linspace_100_uminus)
  then show ?thesis by (simp add: float64_neg_le_iff)
qed

lemma linspace_100_rev_sorted: "M \<le> 0 \<Longrightarrow> sorted (rev (linspace 0 M 100))"
  by (simp add: sorted_iff_nth_mono rev_nth linspace_100_antimono)


section \<open>Coordinates\<close>

text \<open>
  A position is a triple of binary64 coordinates, lengths in Angstrom: the positions of a
  testsystem are taken to be held in Angstrom, so that \<^verbatim>\<open>value_in_unit(unit.angstrom)\<close> returns
  the numbers as they are. \<open>None\<close> stands for the triple \<^verbatim>\<open>[nan, nan, nan]\<close>, which numpy
  produces without raising when a zero vector is divided by its norm; any arithmetic with it
  yields it again. The operations on triples work entry by entry, each entry rounded.
  \<^verbatim>\<open>np.linalg.norm\<close> of a triple is the square root of its dot product with itself, the
  products summed from left to right.
\<close>

type_synonym vec = "float64 \<times> float64 \<times> float64"
type_synonym pos = "vec option"

definition vsub :: "vec \<Rightarrow> vec \<Rightarrow> vec" where
  "vsub a b = (case (a, b) of ((ax, ay, az), (bx, by, bz)) \<Rightarrow> (ax - bx, ay - by, az - bz))"

definition vadd :: "vec \<Rightarrow> vec \<Rightarrow> vec" where
  "vadd a b = (case (a, b) of ((ax, ay, az), (bx, by, bz)) \<Rightarrow> (ax + bx, ay + by, az + bz))"

definition vscale :: "vec \<Rightarrow> float64 \<Rightarrow> vec" where
  "vscale a c = (case a of (ax, ay, az) \<Rightarrow> (ax * c, ay * c, az * c))"

definition vdiv :: "vec \<Rightarrow> float64 \<Rightarrow> vec" where
  "vdiv a c = (case a of (ax, ay, az) \<Rightarrow> (ax / c, ay / c, az / c))"

definition vnorm :: "vec \<Rightarrow> float64" where
  "vnorm a = (case a of (ax, ay, az) \<Rightarrow> fsqrt (ax * ax + ay * ay + az * az))"

definition pos_sub :: "pos \<Rightarrow> pos \<Rightarrow> pos" where
  "pos_sub a b = (case (a, b) of (Some u, Some v) \<Rightarrow> Some (vsub u v) | _ \<Rightarrow> None)"

definition pos_add :: "pos \<Rightarrow> pos \<Rightarrow> pos" where
  "pos_add a b = (case (a, b) of (Some u, Some v) \<Rightarrow> Some (vadd u v) | _ \<Rightarrow> None)"

definition pos_scale :: "pos \<Rightarrow> float64 \<Rightarrow> pos" where
  "pos_scale a c = (case a of Some u \<Rightarrow> Some (vscale u c) | None \<Rightarrow> None)"

text \<open>\<^verbatim>\<open>diff / np.linalg.norm(diff)\<close>: every component of a zero vector becomes 0/0.\<close>

definition normalized :: "pos \<Rightarrow> pos" where
  "normalized d =
     (case d of
        None \<Rightarrow> None
      | Some v \<Rightarrow> if vnorm v = 0 then None else Some (vdiv v (vnorm v)))"

section \<open>BondProfileProtocol.set\_bond\_length\<close>

text \<open>
  The positions are copied, and the entry of \<open>atom2\<close> in the copy is overwritten with
  \<^verbatim>\<open>position[atom1] + normalized_diff * length\<close>.
\<close>

definition set_bond_length :: "pos list \<Rightarrow> int \<Rightarrow> int \<Rightarrow> float64 \<Rightarrow> py_error + pos list" where
  "set_bond_length positions atom1 atom2 len =
     (case py_index positions atom2 of
        Inl e \<Rightarrow> Inl e
      | Inr p2 \<Rightarrow>
         (case py_index positions atom1 of
            Inl e \<Rightarrow> Inl e
          | Inr p1 \<Rightarrow>
             (let diff = pos_sub p2 p1;
                  normalized_diff = normalized diff;
                  new_positions = positions
              in case norm_index (length new_positions) atom2 of
                   Inl e \<Rightarrow> Inl e
                 | Inr k \<Rightarrow> Inr (new_positions[k := pos_add p1 (pos_scale normalized_diff len)]))))"

section \<open>Parameters, simulation engine and recorded effects\<close>

type_synonym handle = nat
type_synonym ref = nat

text \<open>
  \<^verbatim>\<open>parameters.temperature\<close>: a Python int, a Python float (by its value), or a list of
  ints (\<^verbatim>\<open>Union[int, List[int]]\<close> in the signatures of protocols.py).
\<close>

datatype temperature = TInt int | TFloat float64 | TList "int list"

record testsystem =
  topology :: handle
  positions :: "pos list"

text \<open>
  Modelled from the spec: the parameter classes of guardowl/parameters.py
  (StabilityTestParameters, MinimizationTestParameters) are not among the sources. The
  record has the attributes that protocols.py reads from a parameters object.
  \<open>simulated_annealing = None\<close> is an object without that attribute, which
  \<^verbatim>\<open>getattr(parameters, "simulated_annealing", False)\<close> reads as False. The system, the
  platform and the topology are opaque handles; \<open>state_data_reporter\<close> refers to a
  reporter object, which is shared by every copy of the parameters.
\<close>

record test_parameters =
  system :: handle
  platform :: handle
  testsystem :: testsystem
  output_folder :: string
  log_file_name :: string
  temperature :: temperature
  ensemble :: "string option"
  env :: string
  device_index :: int
  protocol_length :: int
  simulated_annealing :: "bool option"
  state_data_reporter :: ref
  convergence_criteria :: float64

text \<open>
  Modelled from the spec: DOFTestParameters is not among the sources either; the bond
  scan reads \<open>bond\<close>, \<open>bond_length_max\<close> and the positions of the testsystem.
\<close>

record dof_test_parameters =
  dof_testsystem :: testsystem
  bond :: "int list"
  bond_length_max :: float64

text \<open>The attributes of OpenMM's StateDataReporter that \<^verbatim>\<open>_run_simulation\<close> touches.\<close>

record reporter =
  rep_out :: "string option"
  rep_step :: bool
  rep_reportInterval :: int

text \<open>The arguments of \<^verbatim>\<open>SimulationFactory.create_simulation\<close>.\<close>

record sim_spec =
  spec_system :: handle
  spec_topology :: handle
  spec_platform :: handle
  spec_temperature :: temperature
  spec_env :: string
  spec_device_index :: int
  spec_ensemble :: "string option"

text \<open>\<^verbatim>\<open>unit.Quantity(temp, unit.kelvin)\<close> for a stage of \<^verbatim>\<open>np.linspace(0, temperature, 10)\<close>:
  a number for a scalar temperature, a row of numbers for a list.\<close>

datatype kelvin = Kelvin float64 | KelvinRow "float64 list"

datatype sim_reporter =
    DCDReporter string int
  | StateDataReporter ref
  | ContinuousProgressReporter int int

text \<open>
  Every call into the engine or the file system is recorded, in order, with the simulation
  it acts on and its arguments. \<open>SetBarostatDefaultTemperature\<close> is the call
  \<^verbatim>\<open>barostat.setDefaultTemperature(temp)\<close>, and \<open>WritePDB\<close> a structure file that was opened
  and written.
\<close>

datatype event =
    CreateSimulation ref sim_spec
  | SetPositions ref "pos list"
  | MinimizeEnergy ref float64 nat
  | Step ref int
  | SetIntegratorTemperature ref kelvin
  | SetBarostatDefaultTemperature ref kelvin
  | GetState ref bool bool
  | AddReporter ref sim_reporter
  | Mkdir string
  | WritePDB string handle "pos list"

text \<open>
  The engine is an external collaborator. Its numerical answers are parameters of the
  model; each may depend on everything that has been done so far (the events).
\<close>

record engine =
  potential_energy :: "event list \<Rightarrow> pos list \<Rightarrow> float64"
  minimized :: "event list \<Rightarrow> pos list \<Rightarrow> pos list"
  propagated :: "event list \<Rightarrow> pos list \<Rightarrow> pos list"

text \<open>
  The objects that protocols.py shares by reference live in stores: parameters objects,
  reporter objects, and the current positions of each simulation. \<open>next_ref\<close> is the
  first reference that no object has yet. \<open>folders\<close> are the folders that exist in the file
  system, by the path they are named with.
\<close>

record world =
  events :: "event list"
  params_heap :: "ref \<Rightarrow> test_parameters"
  reporter_heap :: "ref \<Rightarrow> reporter"
  sim_positions :: "ref \<Rightarrow> pos list"
  next_ref :: ref
  folders :: "string set"

record state =
  state_positions :: "pos list option"
  state_energy :: "float64 option"

definition emit :: "event \<Rightarrow> world \<Rightarrow> world" where
  "emit e w = w\<lparr>events := events w @ [e]\<rparr>"

text \<open>\<^verbatim>\<open>Path(folder).mkdir(parents=True, exist_ok=True)\<close>: the folder exists afterwards.\<close>

definition mkdir :: "string \<Rightarrow> world \<Rightarrow> world" where
  "mkdir folder w = (emit (Mkdir folder) w)\<lparr>folders := insert folder (folders w)\<rparr>"

definition update_params :: "ref \<Rightarrow> (test_parameters \<Rightarrow> test_parameters) \<Rightarrow> world \<Rightarrow> world" where
  "update_params r f w = w\<lparr>params_heap := (params_heap w)(r := f (params_heap w r))\<rparr>"

definition update_reporter :: "ref \<Rightarrow> (reporter \<Rightarrow> reporter) \<Rightarrow> world \<Rightarrow> world" where
  "update_reporter r f w = w\<lparr>reporter_heap := (reporter_heap w)(r := f (reporter_heap w r))\<rparr>"

text \<open>
  Modelled from the spec: \<^verbatim>\<open>SimulationFactory.create_simulation\<close> (guardowl/simulation.py)
  is not among the sources; it builds a new simulation handle from its arguments.
\<close>

definition create_simulation :: "sim_spec \<Rightarrow> world \<Rightarrow> ref \<times> world" where
  "create_simulation spec w =
     (next_ref w, (emit (CreateSimulation (next_ref w) spec) w)\<lparr>next_ref := Suc (next_ref w)\<rparr>)"

definition setPositions :: "ref \<Rightarrow> pos list \<Rightarrow> world \<Rightarrow> world" where
  "setPositions sim ps w =
     (emit (SetPositions sim ps) w)\<lparr>sim_positions := (sim_positions w)(sim := ps)\<rparr>"

definition minimizeEnergy :: "engine \<Rightarrow> ref \<Rightarrow> float64 \<Rightarrow> nat \<Rightarrow> world \<Rightarrow> world" where
  "minimizeEnergy eng sim tolerance maxIterations w =
     (let w1 = emit (MinimizeEnergy sim tolerance maxIterations) w
      in w1\<lparr>sim_positions :=
              (sim_positions w1)(sim := minimized eng (events w1) (sim_positions w1 sim))\<rparr>)"

definition sim_step :: "engine \<Rightarrow> ref \<Rightarrow> int \<Rightarrow> world \<Rightarrow> world" where
  "sim_step eng sim n w =
     (let w1 = emit (Step sim n) w
      in w1\<lparr>sim_positions :=
              (sim_positions w1)(sim := propagated eng (events w1) (sim_positions w1 sim))\<rparr>)"

definition getState :: "engine \<Rightarrow> ref \<Rightarrow> bool \<Rightarrow> bool \<Rightarrow> world \<Rightarrow> state \<times> world" where
  "getState eng sim getPositions getEnergy w =
     (\<lparr>state_positions = (if getPositions then Some (sim_positions w sim) else None),
       state_energy =
         (if getEnergy then Some (potential_energy eng (events w) (sim_positions w sim)) else None)\<rparr>,
      emit (GetState sim getPositions getEnergy) w)"

section \<open>StabilityTest\<close>

subsection \<open>\_setup\_simulation\<close>

text \<open>
  The stages of \<^verbatim>\<open>np.linspace(0, parameters.temperature, 10)\<close>; numpy converts an int
  temperature to a float first.
\<close>

fun annealing_temperatures :: "temperature \<Rightarrow> kelvin list" where
  "annealing_temperatures (TInt t) = map Kelvin (linspace 0 (float_of (of_int t)) 10)"
| "annealing_temperatures (TFloat x) = map Kelvin (linspace 0 x 10)"
| "annealing_temperatures (TList ts) =
     map KelvinRow (linspace_rows 0 (map (\<lambda>t. float_of (of_int t)) ts) 10)"

text \<open>
  The body of the annealing loop, once per stage. The name \<^verbatim>\<open>barostate_force_id\<close> is bound
  nowhere in protocols.py, so evaluating the argument of \<^verbatim>\<open>getForce\<close> raises NameError
  before the barostat is reached.
\<close>

fun anneal :: "engine \<Rightarrow> test_parameters \<Rightarrow> ref \<Rightarrow> kelvin list \<Rightarrow> world \<Rightarrow> (py_error + unit) \<times> world" where
  "anneal eng parameters sim [] w = (Inr (), w)"
| "anneal eng parameters sim (temp # temps) w =
     (let w1 = sim_step eng sim 100 w;
          w2 = emit (SetIntegratorTemperature sim temp) w1
      in if ensemble parameters = Some ''npt''
         then (Inl NameError, w2)
         else anneal eng parameters sim temps w2)"

definition setup_simulation ::
  "engine \<Rightarrow> ref \<Rightarrow> float64 \<Rightarrow> bool \<Rightarrow> world \<Rightarrow> (py_error + ref) \<times> world" where
  "setup_simulation eng pr minimization_tolerance minimize w =
     (let parameters = params_heap w pr;
          (sim, w1) = create_simulation
             \<lparr>spec_system = system parameters,
              spec_topology = topology (testsystem parameters),
              spec_platform = platform parameters,
              spec_temperature = temperature parameters,
              spec_env = env parameters,
              spec_device_index = device_index parameters,
              spec_ensemble = ensemble parameters\<rparr> w;
          w2 = setPositions sim (positions (testsystem parameters)) w1;
          w3 = (if minimize then minimizeEnergy eng sim minimization_tolerance 1000 w2 else w2)
      in if simulated_annealing parameters = Some True
         then (case anneal eng parameters sim (annealing_temperatures (temperature parameters)) w3 of
                 (Inl e, w4) \<Rightarrow> (Inl e, w4)
               | (Inr u, w4) \<Rightarrow> (Inr sim, w4))
         else (Inr sim, w3))"

subsection \<open>\_run\_simulation\<close>

text \<open>The output folder is created first, so the files that follow are opened in a folder
  that exists.\<close>

definition run_simulation :: "engine \<Rightarrow> ref \<Rightarrow> ref \<Rightarrow> world \<Rightarrow> world" where
  "run_simulation eng pr sim w =
     (let parameters = params_heap w pr;
          w1 = mkdir (output_folder parameters) w;
          output_file_name = output_folder parameters @ ''/'' @ log_file_name parameters;
          w2 = emit (WritePDB (output_file_name @ ''.pdb'') (topology (testsystem parameters))
                       (positions (testsystem parameters))) w1;
          rr = state_data_reporter parameters;
          w3 = update_reporter rr (\<lambda>r. r\<lparr>rep_out := Some (output_file_name @ ''.csv'')\<rparr>) w2;
          w4 = (if \<not> rep_step (reporter_heap w3 rr)
                then update_reporter rr (\<lambda>r. r\<lparr>rep_step := True\<rparr>) w3 else w3);
          w5 = emit (AddReporter sim
                  (DCDReporter (output_file_name @ ''.dcd'') (rep_reportInterval (reporter_heap w4 rr)))) w4;
          w6 = emit (AddReporter sim (StateDataReporter rr)) w5;
          w7 = emit (AddReporter sim (ContinuousProgressReporter 100 (protocol_length parameters))) w6
      in sim_step eng sim (protocol_length parameters) w7)"

section \<open>The protocols\<close>

subsection \<open>PropagationProtocol.perform\_stability\_test\<close>

text \<open>The assignment to \<^verbatim>\<open>parms.log_file_name\<close> writes to the caller's object.\<close>

definition PropagationProtocol_perform_stability_test ::
  "engine \<Rightarrow> ref \<Rightarrow> world \<Rightarrow> (py_error + unit) \<times> world" where
  "PropagationProtocol_perform_stability_test eng parms w =
     (case temperature (params_heap w parms) of
        TInt t \<Rightarrow>
          (let w1 = update_params parms
                      (\<lambda>p. p\<lparr>log_file_name := log_file_name p @ ''_'' @ str_int t\<rparr>) w
           in case setup_simulation eng parms 1 True w1 of
                (Inl e, w2) \<Rightarrow> (Inl e, w2)
              | (Inr sim, w2) \<Rightarrow> (Inr (), run_simulation eng parms sim w2))
      | _ \<Rightarrow> (Inl AssertionError, w))"

subsection \<open>MinimizationProtocol.perform\_stability\_test\<close>

text \<open>
  The state is read, and then the structure file is opened in the output folder. This method
  does not create the folder: when it does not exist, \<^verbatim>\<open>open\<close> raises FileNotFoundError, after
  the state was read and before anything is written or returned.
\<close>

definition MinimizationProtocol_perform_stability_test ::
  "engine \<Rightarrow> ref \<Rightarrow> bool \<Rightarrow> world \<Rightarrow> (py_error + state) \<times> world" where
  "MinimizationProtocol_perform_stability_test eng parms minimize w =
     (case setup_simulation eng parms (convergence_criteria (params_heap w parms)) minimize w of
        (Inl e, w1) \<Rightarrow> (Inl e, w1)
      | (Inr sim, w1) \<Rightarrow>
          (let p = params_heap w1 parms;
               output_file_name = output_folder p @ ''/'' @ log_file_name p;
               (st, w2) = getState eng sim True True w1
           in case state_positions st of
                None \<Rightarrow> (Inl OpenMMException, w2)
              | Some ps \<Rightarrow>
                  if output_folder p \<in> folders w2
                  then (Inr st,
                        emit (WritePDB (output_file_name @ ''.pdb'') (topology (testsystem p)) ps) w2)
                  else (Inl FileNotFoundError, w2)))"

subsection \<open>MultiTemperatureProtocol.perform\_stability\_test\<close>

text \<open>
  \<^verbatim>\<open>dataclasses.replace(parms)\<close> makes a new object with the same attribute values; the two
  assignments that follow write to the new object.
\<close>

definition dataclasses_replace :: "ref \<Rightarrow> world \<Rightarrow> ref \<times> world" where
  "dataclasses_replace r w =
     (next_ref w,
      w\<lparr>params_heap := (params_heap w)(next_ref w := params_heap w r),
        next_ref := Suc (next_ref w)\<rparr>)"

text \<open>The first three statements of the loop body: the copy, and the two assignments.\<close>

definition clone_parameters :: "ref \<Rightarrow> int \<Rightarrow> world \<Rightarrow> ref \<times> world" where
  "clone_parameters parms t w =
     (let (c, w1) = dataclasses_replace parms w;
          w2 = update_params c (\<lambda>p. p\<lparr>temperature := TInt t\<rparr>) w1;
          w3 = update_params c
                 (\<lambda>p. p\<lparr>log_file_name :=
                        log_file_name (params_heap w2 parms) @ ''_'' @ str_int t @ ''K''\<rparr>) w2
      in (c, w3))"

fun multi_temperature_loop ::
  "engine \<Rightarrow> ref \<Rightarrow> int list \<Rightarrow> world \<Rightarrow> (py_error + unit) \<times> world" where
  "multi_temperature_loop eng parms [] w = (Inr (), w)"
| "multi_temperature_loop eng parms (t # ts) w =
     (let (c, w3) = clone_parameters parms t w
      in case setup_simulation eng c 1 False w3 of
           (Inl e, w4) \<Rightarrow> (Inl e, w4)
         | (Inr qsim, w4) \<Rightarrow> multi_temperature_loop eng parms ts (run_simulation eng c qsim w4))"

definition MultiTemperatureProtocol_perform_stability_test ::
  "engine \<Rightarrow> ref \<Rightarrow> world \<Rightarrow> (py_error + unit) \<times> world" where
  "MultiTemperatureProtocol_perform_stability_test eng parms w =
     (case temperature (params_heap w parms) of
        TList ts \<Rightarrow> multi_temperature_loop eng parms ts w
      | _ \<Rightarrow> (Inl RuntimeError, w))"

subsection \<open>BondProfileProtocol.perform\_DOF\_scan\<close>

fun dof_scan_loop ::
  "engine \<Rightarrow> ref \<Rightarrow> pos list \<Rightarrow> int \<Rightarrow> int \<Rightarrow> float64 list \<Rightarrow>
   float64 list \<times> pos list list \<times> float64 list \<Rightarrow> world \<Rightarrow>
   (py_error + float64 list \<times> pos list list \<times> float64 list) \<times> world" where
  "dof_scan_loop eng sim initial_pos bond_atom1 bond_atom2 [] acc w = (Inr acc, w)"
| "dof_scan_loop eng sim initial_pos bond_atom1 bond_atom2 (len # lens)
      (potential_energy_acc, conformations, bond_length) w =
     (case set_bond_length initial_pos bond_atom1 bond_atom2 len of
        Inl e \<Rightarrow> (Inl e, w)
      | Inr new_pos \<Rightarrow>
          (let w1 = setPositions sim new_pos w;
               (st, w2) = getState eng sim True True w1
           in case (state_energy st, state_positions st) of
                (Some energy, Some ps) \<Rightarrow>
                  dof_scan_loop eng sim initial_pos bond_atom1 bond_atom2 lens
                    (potential_energy_acc @ [energy], conformations @ [ps], bond_length @ [len]) w2
              | _ \<Rightarrow> (Inl OpenMMException, w2)))"

text \<open>
  \<^verbatim>\<open>assert parameters.bond\<close> fails on an empty bond, and unpacking
  \<^verbatim>\<open>bond_atom1, bond_atom2 = parameters.bond\<close> raises ValueError unless it has two entries.
\<close>

definition perform_DOF_scan ::
  "engine \<Rightarrow> ref \<Rightarrow> dof_test_parameters \<Rightarrow> world \<Rightarrow>
   (py_error + float64 list \<times> pos list list \<times> float64 list) \<times> world" where
  "perform_DOF_scan eng sim parameters w =
     (case bond parameters of
        [] \<Rightarrow> (Inl AssertionError, w)
      | [bond_atom1, bond_atom2] \<Rightarrow>
          dof_scan_loop eng sim (positions (dof_testsystem parameters)) bond_atom1 bond_atom2
            (linspace 0 (bond_length_max parameters) 100) ([], [], []) w
      | _ \<Rightarrow> (Inl ValueError, w))"

section \<open>run\_detect\_minimum\<close>

text \<open>
  What the collaborators return for one entry of the shuffled file listing:
  \<open>mol\<close> is the result of \<^verbatim>\<open>generate_molecule_from_sdf(sdf_file)\<close>, the atomic numbers of its
  atoms, or \<open>None\<close> when no molecule was generated; \<open>testsystem_error\<close> is the message of
  the ValueError that \<^verbatim>\<open>generate_testsystem\<close> raises, or \<open>None\<close> when it returns; the last
  three are the RMSD and the two potential energies that the engine and mdtraj compute for
  the molecule.
\<close>

record molecule_input =
  start_file :: string
  mol :: "nat list option"
  testsystem_error :: "string option"
  rmsd_value :: float64
  reference_energy :: float64
  minimized_energy :: float64

record file_list =
  total_number_of_systems :: nat
  inputs :: "molecule_input list"

datatype log_entry =
    InfoMinimizationTest int int
  | DebugNoMolecule string
  | DebugSkippingHeavy string int nat
  | DebugUsing string int nat
  | DebugUnknownElements string
  | DebugSdfFile string
  | WarningSkipping string string
  | DebugRMSD float64 float64

record pipeline =
  score :: "(string \<times> float64 \<times> float64) list"
  counter :: int
  messages :: "log_entry list"

definition say :: "log_entry \<Rightarrow> pipeline \<Rightarrow> pipeline" where
  "say m st = st\<lparr>messages := messages st @ [m]\<rparr>"

text \<open>\<^verbatim>\<open>start_file.split("/")[-1]\<close>, \<^verbatim>\<open>s.removesuffix(".xyz")\<close> and
  \<^verbatim>\<open>start_file.split(".")[0] + ".sdf"\<close>.\<close>

definition last_component :: "string \<Rightarrow> string" where
  "last_component s = rev (takeWhile (\<lambda>c. c \<noteq> CHR ''/'') (rev s))"

definition removesuffix :: "string \<Rightarrow> string \<Rightarrow> string" where
  "removesuffix s suf =
     (if suf \<noteq> [] \<and> length suf \<le> length s \<and> drop (length s - length suf) s = suf
      then take (length s - length suf) s else s)"

definition molecule_name :: "string \<Rightarrow> string" where
  "molecule_name file = removesuffix (last_component file) ''.xyz''"

definition sdf_file_of :: "string \<Rightarrow> string" where
  "sdf_file_of file = takeWhile (\<lambda>c. c \<noteq> CHR ''.'') file @ ''.sdf''"

text \<open>The two nested helpers. \<open>implemented_elements\<close> is \<^verbatim>\<open>_IMPLEMENTED_ELEMENTS\<close> of
  guardowl/utils.py, which is not among the sources and so is a parameter.\<close>

definition heavy_atoms :: "nat list \<Rightarrow> nat" where
  "heavy_atoms atoms = length (filter (\<lambda>a. a \<noteq> 1) atoms)"

definition above_threshold :: "int \<Rightarrow> nat list \<Rightarrow> bool" where
  "above_threshold skip_molecules_above_heavy_atom_threshold atoms =
     (skip_molecules_above_heavy_atom_threshold < int (heavy_atoms atoms))"

definition contains_unknown_elements :: "nat list \<Rightarrow> nat list \<Rightarrow> bool" where
  "contains_unknown_elements implemented_elements atoms =
     list_ex (\<lambda>a. a \<notin> set implemented_elements) atoms"

text \<open>
  \<^verbatim>\<open>int(nr_of_molecules * (percentage / 100))\<close> is evaluated in binary64: the quotient is
  rounded, the product is rounded, and \<^verbatim>\<open>int\<close> truncates towards zero. \<open>percentage\<close> is the
  exact value of the Python number passed.
\<close>

definition nr_of_molecules_to_test :: "nat \<Rightarrow> rat \<Rightarrow> int" where
  "nr_of_molecules_to_test nr_of_molecules percentage =
     py_int (fl (fl (of_nat nr_of_molecules) * fl (percentage / 100)))"

text \<open>
  The loop over the file listing. When no molecule was generated the code only logs, and
  \<^verbatim>\<open>_above_threshold(mol)\<close> then calls \<^verbatim>\<open>mol.GetAtoms()\<close> on \<^verbatim>\<open>None\<close>, which raises
  AttributeError outside every \<^verbatim>\<open>try\<close>.
\<close>

fun detect_minimum_loop ::
  "nat list \<Rightarrow> int \<Rightarrow> int \<Rightarrow> molecule_input list \<Rightarrow> pipeline \<Rightarrow> (py_error + unit) \<times> pipeline" where
  "detect_minimum_loop implemented_elements threshold nr_to_test [] st = (Inr (), st)"
| "detect_minimum_loop implemented_elements threshold nr_to_test (f # fs) st =
     (let st1 = say (InfoMinimizationTest (counter st) nr_to_test) st;
          name = molecule_name (start_file f);
          sdf_file = sdf_file_of (start_file f)
      in case mol f of
           None \<Rightarrow> (Inl AttributeError, say (DebugNoMolecule sdf_file) st1)
         | Some atoms \<Rightarrow>
             if above_threshold threshold atoms
             then detect_minimum_loop implemented_elements threshold nr_to_test fs
                    (say (DebugSkippingHeavy name threshold (heavy_atoms atoms)) st1)
             else
               (let st2 = say (DebugUsing name threshold (heavy_atoms atoms)) st1
                in if contains_unknown_elements implemented_elements atoms
                   then detect_minimum_loop implemented_elements threshold nr_to_test fs
                          (say (DebugUnknownElements name) st2)
                   else
                     (let st3 = say (DebugSdfFile sdf_file) st2
                      in case testsystem_error f of
                           Some e \<Rightarrow>
                             detect_minimum_loop implemented_elements threshold nr_to_test fs
                               (say (WarningSkipping name e) st3)
                         | None \<Rightarrow>
                             (let d_energy = \<bar>reference_energy f - minimized_energy f\<bar>;
                                  st4 = say (DebugRMSD (rmsd_value f) d_energy) st3;
                                  st5 = st4\<lparr>score := AList.update name (rmsd_value f, d_energy) (score st4)\<rparr>;
                                  st6 = st5\<lparr>counter := counter st5 + 1\<rparr>
                              in if nr_to_test \<le> counter st6
                                 then (Inr (), st6)
                                 else detect_minimum_loop implemented_elements threshold nr_to_test fs st6))))"

definition run_detect_minimum ::
  "nat list \<Rightarrow> file_list \<Rightarrow> rat \<Rightarrow> int \<Rightarrow> (py_error + (string \<times> float64 \<times> float64) list) \<times> pipeline" where
  "run_detect_minimum implemented_elements files percentage skip_molecules_above_heavy_atom_threshold =
     (let nr_of_molecules = total_number_of_systems files;
          nr_to_test = nr_of_molecules_to_test nr_of_molecules percentage
      in case detect_minimum_loop implemented_elements skip_molecules_above_heavy_atom_threshold
                nr_to_test (inputs files) \<lparr>score = [], counter = 0, messages = []\<rparr> of
           (Inl e, st) \<Rightarrow> (Inl e, st)
         | (Inr u, st) \<Rightarrow> (Inr (score st), st))"

section \<open>Vocabulary of the properties\<close>

text \<open>
  \<^verbatim>\<open>isinstance(x, int)\<close> and \<^verbatim>\<open>isinstance(x, list)\<close> on a temperature; whether a parameters
  object enables simulated annealing; and the events that one set-up, one annealing stage
  and one run record, written out as lists.
\<close>

fun isinstance_int :: "temperature \<Rightarrow> bool" where
  "isinstance_int (TInt t) = True"
| "isinstance_int _ = False"

fun isinstance_list :: "temperature \<Rightarrow> bool" where
  "isinstance_list (TList ts) = True"
| "isinstance_list _ = False"

definition anneals :: "test_parameters \<Rightarrow> bool" where
  "anneals p = (simulated_annealing p = Some True)"

definition setup_events :: "test_parameters \<Rightarrow> ref \<Rightarrow> float64 \<Rightarrow> bool \<Rightarrow> event list" where
  "setup_events p sim tol minimize =
     [CreateSimulation sim
        \<lparr>spec_system = system p, spec_topology = topology (testsystem p),
         spec_platform = platform p, spec_temperature = temperature p, spec_env = env p,
         spec_device_index = device_index p, spec_ensemble = ensemble p\<rparr>,
      SetPositions sim (positions (testsystem p))]
     @ (if minimize then [MinimizeEnergy sim tol 1000] else [])"

definition stage_events :: "ref \<Rightarrow> kelvin \<Rightarrow> event list" where
  "stage_events sim temp = [Step sim 100, SetIntegratorTemperature sim temp]"

fun is_Step :: "event \<Rightarrow> bool" where
  "is_Step (Step sim n) = True"
| "is_Step _ = False"

fun is_MinimizeEnergy :: "event \<Rightarrow> bool" where
  "is_MinimizeEnergy (MinimizeEnergy sim tol k) = True"
| "is_MinimizeEnergy _ = False"

fun is_barostat_update :: "event \<Rightarrow> bool" where
  "is_barostat_update (SetBarostatDefaultTemperature sim temp) = True"
| "is_barostat_update _ = False"

definition new_events :: "world \<Rightarrow> world \<Rightarrow> event list" where
  "new_events w w' = drop (length (events w)) (events w')"

definition run_events :: "test_parameters \<Rightarrow> int \<Rightarrow> ref \<Rightarrow> event list" where
  "run_events p interval sim =
     [Mkdir (output_folder p),
      WritePDB (output_folder p @ ''/'' @ log_file_name p @ ''.pdb'') (topology (testsystem p))
        (positions (testsystem p)),
      AddReporter sim (DCDReporter (output_folder p @ ''/'' @ log_file_name p @ ''.dcd'') interval),
      AddReporter sim (StateDataReporter (state_data_reporter p)),
      AddReporter sim (ContinuousProgressReporter 100 (protocol_length p)),
      Step sim (protocol_length p)]"

text \<open>The attribute values of the copy that the multi-temperature loop makes for the
  temperature \<open>t\<close>.\<close>

definition cloned :: "test_parameters \<Rightarrow> int \<Rightarrow> test_parameters" where
  "cloned p t = p\<lparr>temperature := TInt t, log_file_name := log_file_name p @ ''_'' @ str_int t @ ''K''\<rparr>"


text \<open>
  What a trace says about the runs: the temperature and the handle of each simulation that
  was created, and the name of each structure snapshot that was written. \<open>one_run_events\<close>
  is the trace of one set-up without minimization followed by one run, and \<open>multi_events\<close>
  the trace of one such run per temperature, each with its own copy of the parameters
  (reference \<open>n\<close>, \<open>n + 2\<close>, ...) and its own simulation (\<open>n + 1\<close>, \<open>n + 3\<close>, ...).
\<close>

fun created_temperature :: "event \<Rightarrow> temperature list" where
  "created_temperature (CreateSimulation sim spec) = [spec_temperature spec]"
| "created_temperature _ = []"

fun created_simulation :: "event \<Rightarrow> ref list" where
  "created_simulation (CreateSimulation sim spec) = [sim]"
| "created_simulation _ = []"

fun written_pdb :: "event \<Rightarrow> string list" where
  "written_pdb (WritePDB file topo ps) = [file]"
| "written_pdb _ = []"

definition one_run_events :: "test_parameters \<Rightarrow> int \<Rightarrow> ref \<Rightarrow> event list" where
  "one_run_events p interval sim =
     setup_events p sim 1 False
     @ (if anneals p then concat (map (stage_events sim) (annealing_temperatures (temperature p)))
        else [])
     @ run_events p interval sim"

fun multi_events :: "test_parameters \<Rightarrow> int \<Rightarrow> ref \<Rightarrow> int list \<Rightarrow> event list" where
  "multi_events p interval n [] = []"
| "multi_events p interval n (t # ts) =
     one_run_events (cloned p t) interval (Suc n) @ multi_events p interval (Suc (Suc n)) ts"


text \<open>
  The minimization protocol: the events of its set-up (with the annealing stages when
  annealing is enabled), and the positions that a simulation has after a list of events,
  which the engine determines: a minimization and every integration step replace them by
  what the engine computes from everything that has happened so far.
\<close>

definition minimization_events :: "test_parameters \<Rightarrow> ref \<Rightarrow> bool \<Rightarrow> event list" where
  "minimization_events p sim minimize =
     setup_events p sim (convergence_criteria p) minimize
     @ (if anneals p then concat (map (stage_events sim) (annealing_temperatures (temperature p)))
        else [])"

fun replay :: "engine \<Rightarrow> event list \<Rightarrow> event list \<Rightarrow> pos list \<Rightarrow> pos list" where
  "replay eng history [] ps = ps"
| "replay eng history (e # es) ps =
     replay eng (history @ [e]) es
       (case e of
          SetPositions sim q \<Rightarrow> q
        | MinimizeEnergy sim tol k \<Rightarrow> minimized eng (history @ [e]) ps
        | Step sim n \<Rightarrow> propagated eng (history @ [e]) ps
        | _ \<Rightarrow> ps)"

text \<open>
  The bond scan: the difference of the two atoms of the bond divided by its norm, the
  geometry in which entry \<open>k2\<close> is replaced by \<open>p1 + u * len\<close>, the two engine calls of one
  sample, the energies that the engine reports for the samples in turn, and the lengths that
  a scan returned (none when it raised).
\<close>

definition direction :: "vec \<Rightarrow> vec \<Rightarrow> vec" where
  "direction p1 p2 = vdiv (vsub p2 p1) (vnorm (vsub p2 p1))"

definition stretched :: "pos list \<Rightarrow> nat \<Rightarrow> vec \<Rightarrow> vec \<Rightarrow> float64 \<Rightarrow> pos list" where
  "stretched ps k2 p1 u len = ps[k2 := Some (vadd p1 (vscale u len))]"

definition sample_events :: "ref \<Rightarrow> pos list \<Rightarrow> event list" where
  "sample_events sim ps = [SetPositions sim ps, GetState sim True True]"

fun scan_energies ::
  "engine \<Rightarrow> ref \<Rightarrow> (float64 \<Rightarrow> pos list) \<Rightarrow> event list \<Rightarrow> float64 list \<Rightarrow> float64 list" where
  "scan_energies eng sim f history [] = []"
| "scan_energies eng sim f history (len # lens) =
     potential_energy eng (history @ [SetPositions sim (f len)]) (f len)
       # scan_energies eng sim f (history @ sample_events sim (f len)) lens"

fun scan_lengths :: "py_error + float64 list \<times> pos list list \<times> float64 list \<Rightarrow> float64 list" where
  "scan_lengths (Inr (energies, conformations, lengths)) = lengths"
| "scan_lengths (Inl e) = []"


text \<open>
  The benchmark pipeline: a file is scored when a molecule was generated for it and none of
  the three reasons to skip applies; the number of files the loop has started on is the
  number of its progress messages; and \<open>halted_at\<close> says that the loop, started in \<open>st\<close> with
  the target \<open>t\<close>, ended in \<open>st'\<close> after starting on the first \<open>k\<close> files: the counter grew
  by the number of scored files among them, does not exceed the target, and the loop ended
  before the end of the list only with the counter at the target, on a file that was scored.
\<close>

definition scored :: "nat list \<Rightarrow> int \<Rightarrow> molecule_input \<Rightarrow> bool" where
  "scored implemented_elements threshold f =
     (case mol f of
        None \<Rightarrow> False
      | Some atoms \<Rightarrow>
          \<not> above_threshold threshold atoms
          \<and> \<not> contains_unknown_elements implemented_elements atoms
          \<and> testsystem_error f = None)"

fun is_progress :: "log_entry \<Rightarrow> bool" where
  "is_progress (InfoMinimizationTest c t) = True"
| "is_progress _ = False"

definition visited :: "pipeline \<Rightarrow> nat" where
  "visited st = length (filter is_progress (messages st))"


definition halted_at ::
  "nat list \<Rightarrow> int \<Rightarrow> int \<Rightarrow> molecule_input list \<Rightarrow> pipeline \<Rightarrow> pipeline \<Rightarrow> nat \<Rightarrow> bool" where
  "halted_at impl thr t fs st st' k =
     (visited st' = visited st + k \<and> k \<le> length fs
      \<and> counter st' = counter st + int (length (filter (scored impl thr) (take k fs)))
      \<and> counter st' \<le> t
      \<and> (counter st' < t \<longrightarrow> k = length fs)
      \<and> (counter st' = t \<longrightarrow> 0 < k \<and> scored impl thr (fs ! (k - 1))))"


section \<open>Fixtures\<close>

text \<open>
  The inputs of guardowl/tests/test\_stability\_protocol.py: the multi-temperature vacuum
  test (temperatures 300 and 400, five steps), the waterbox test at 300, and the bond scan
  with \<^verbatim>\<open>bond=[0, 3]\<close> on a four-atom geometry. The engine of the fixtures leaves
  positions where they are and reports the energy 0.
\<close>

definition test_reporter :: reporter where
  "test_reporter = \<lparr>rep_out = None, rep_step = True, rep_reportInterval = 1\<rparr>"

definition test_positions :: "pos list" where
  "test_positions =
     [Some (0, 0, 0), Some (1, 0, 0), Some (0, 1, 0), Some (float_of 3, float_of 4, 0)]"

definition vacuum_parameters :: test_parameters where
  "vacuum_parameters =
     \<lparr>system = 0, platform = 0,
      testsystem = \<lparr>topology = 0, positions = test_positions\<rparr>,
      output_folder = ''test_stability_protocol'',
      log_file_name = ''vacuum_ZINC00107550'',
      temperature = TList [300, 400],
      ensemble = Some ''NVT'',
      env = ''vacuum'',
      device_index = 0,
      protocol_length = 5,
      simulated_annealing = Some False,
      state_data_reporter = 0,
      convergence_criteria = float_of (1 / 2)\<rparr>"

definition waterbox_parameters :: test_parameters where
  "waterbox_parameters =
     vacuum_parameters\<lparr>log_file_name := ''waterbox_5A_NVT_300K'', temperature := TInt 300,
       env := ''solution''\<rparr>"

definition test_engine :: engine where
  "test_engine =
     \<lparr>potential_energy = (\<lambda>history ps. 0), minimized = (\<lambda>history ps. ps),
      propagated = (\<lambda>history ps. ps)\<rparr>"

text \<open>A world in which the caller's parameters object has reference 0 and no output
  folder exists yet.\<close>

definition test_world :: "test_parameters \<Rightarrow> world" where
  "test_world p =
     \<lparr>events = [], params_heap = (\<lambda>r. p), reporter_heap = (\<lambda>r. test_reporter),
      sim_positions = (\<lambda>r. []), next_ref = 1, folders = {}\<rparr>"

definition ethanol_scan :: dof_test_parameters where
  "ethanol_scan =
     \<lparr>dof_testsystem = \<lparr>topology = 0, positions = test_positions\<rparr>,
      bond = [0, 3], bond_length_max = float_of 10\<rparr>"

text \<open>The waterbox parameters with simulated annealing switched on, in the npt ensemble
  and in the ensemble of the test.\<close>

definition annealing_npt_parameters :: test_parameters where
  "annealing_npt_parameters =
     waterbox_parameters\<lparr>simulated_annealing := Some True, ensemble := Some ''npt''\<rparr>"

definition annealing_nvt_parameters :: test_parameters where
  "annealing_nvt_parameters = waterbox_parameters\<lparr>simulated_annealing := Some True\<rparr>"



definition negative_scan :: dof_test_parameters where
  "negative_scan = ethanol_scan\<lparr>bond_length_max := - 1\<rparr>"


text \<open>
  Inputs of the benchmark pipeline: the elements of ANI-2x as the implemented ones, two small
  molecules, one with 21 heavy atoms, and one for which no molecule is generated.
\<close>

definition ani2x_elements :: "nat list" where
  "ani2x_elements = [1, 6, 7, 8, 9, 16, 17]"

definition methane_input :: molecule_input where
  "methane_input =
     \<lparr>start_file = ''drugbank/owl/49957/methane.xyz'', mol = Some [6, 1, 1, 1, 1],
      testsystem_error = None, rmsd_value = float_of (1 / 100), reference_energy = float_of (- 5),
      minimized_energy = float_of (- 6)\<rparr>"

definition water_input :: molecule_input where
  "water_input = methane_input\<lparr>start_file := ''drugbank/owl/50001/water.xyz'', mol := Some [8, 1, 1]\<rparr>"

definition large_input :: molecule_input where
  "large_input = methane_input\<lparr>start_file := ''drugbank/owl/50002/large.xyz'', mol := Some (replicate 21 6)\<rparr>"

definition no_molecule_input :: molecule_input where
  "no_molecule_input = methane_input\<lparr>start_file := ''drugbank/owl/50003/broken.xyz'', mol := None\<rparr>"

definition benchmark_files :: file_list where
  "benchmark_files = \<lparr>total_number_of_systems = 3, inputs = [large_input, methane_input, water_input]\<rparr>"


section \<open>Basic facts about the recorded effects\<close>

lemma emit_sel [simp]:
  "events (emit e w) = events w @ [e]"
  "params_heap (emit e w) = params_heap w"
  "reporter_heap (emit e w) = reporter_heap w"
  "sim_positions (emit e w) = sim_positions w"
  "next_ref (emit e w) = next_ref w"
  "folders (emit e w) = folders w"
  by (simp_all add: emit_def)

lemma mkdir_sel [simp]:
  "events (mkdir d w) = events w @ [Mkdir d]"
  "params_heap (mkdir d w) = params_heap w"
  "reporter_heap (mkdir d w) = reporter_heap w"
  "sim_positions (mkdir d w) = sim_positions w"
  "next_ref (mkdir d w) = next_ref w"
  "folders (mkdir d w) = insert d (folders w)"
  by (simp_all add: mkdir_def)

lemma update_params_sel [simp]:
  "events (update_params r f w) = events w"
  "params_heap (update_params r f w) = (params_heap w)(r := f (params_heap w r))"
  "reporter_heap (update_params r f w) = reporter_heap w"
  "sim_positions (update_params r f w) = sim_positions w"
  "next_ref (update_params r f w) = next_ref w"
  "folders (update_params r f w) = folders w"
  by (simp_all add: update_params_def)

lemma update_reporter_sel [simp]:
  "events (update_reporter r f w) = events w"
  "params_heap (update_reporter r f w) = params_heap w"
  "reporter_heap (update_reporter r f w) = (reporter_heap w)(r := f (reporter_heap w r))"
  "sim_positions (update_reporter r f w) = sim_positions w"
  "next_ref (update_reporter r f w) = next_ref w"
  "folders (update_reporter r f w) = folders w"
  by (simp_all add: update_reporter_def)

lemma sim_step_sel [simp]:
  "events (sim_step eng sim n w) = events w @ [Step sim n]"
  "params_heap (sim_step eng sim n w) = params_heap w"
  "reporter_heap (sim_step eng sim n w) = reporter_heap w"
  "next_ref (sim_step eng sim n w) = next_ref w"
  "folders (sim_step eng sim n w) = folders w"
  by (simp_all add: sim_step_def Let_def)

lemma minimizeEnergy_sel [simp]:
  "events (minimizeEnergy eng sim tol k w) = events w @ [MinimizeEnergy sim tol k]"
  "params_heap (minimizeEnergy eng sim tol k w) = params_heap w"
  "reporter_heap (minimizeEnergy eng sim tol k w) = reporter_heap w"
  "next_ref (minimizeEnergy eng sim tol k w) = next_ref w"
  "folders (minimizeEnergy eng sim tol k w) = folders w"
  by (simp_all add: minimizeEnergy_def Let_def)

lemma setPositions_sel [simp]:
  "events (setPositions sim ps w) = events w @ [SetPositions sim ps]"
  "params_heap (setPositions sim ps w) = params_heap w"
  "reporter_heap (setPositions sim ps w) = reporter_heap w"
  "sim_positions (setPositions sim ps w) = (sim_positions w)(sim := ps)"
  "next_ref (setPositions sim ps w) = next_ref w"
  "folders (setPositions sim ps w) = folders w"
  by (simp_all add: setPositions_def)

lemma create_simulation_sel [simp]:
  "fst (create_simulation spec w) = next_ref w"
  "events (snd (create_simulation spec w)) = events w @ [CreateSimulation (next_ref w) spec]"
  "params_heap (snd (create_simulation spec w)) = params_heap w"
  "reporter_heap (snd (create_simulation spec w)) = reporter_heap w"
  "next_ref (snd (create_simulation spec w)) = Suc (next_ref w)"
  "folders (snd (create_simulation spec w)) = folders w"
  by (simp_all add: create_simulation_def)

lemma getState_sel [simp]:
  "state_positions (fst (getState eng sim gp ge w)) = (if gp then Some (sim_positions w sim) else None)"
  "state_energy (fst (getState eng sim gp ge w)) =
     (if ge then Some (potential_energy eng (events w) (sim_positions w sim)) else None)"
  "events (snd (getState eng sim gp ge w)) = events w @ [GetState sim gp ge]"
  "params_heap (snd (getState eng sim gp ge w)) = params_heap w"
  "reporter_heap (snd (getState eng sim gp ge w)) = reporter_heap w"
  "sim_positions (snd (getState eng sim gp ge w)) = sim_positions w"
  "next_ref (snd (getState eng sim gp ge w)) = next_ref w"
  "folders (snd (getState eng sim gp ge w)) = folders w"
  by (simp_all add: getState_def)

lemma anneal_frame [simp]:
  "params_heap (snd (anneal eng p sim temps w)) = params_heap w"
  "reporter_heap (snd (anneal eng p sim temps w)) = reporter_heap w"
  "next_ref (snd (anneal eng p sim temps w)) = next_ref w"
  "folders (snd (anneal eng p sim temps w)) = folders w"
  by (induction temps arbitrary: w; simp add: Let_def)+

lemma anneal_ok:
  assumes "ensemble p \<noteq> Some ''npt''"
  shows "fst (anneal eng p sim temps w) = Inr ()"
    and "events (snd (anneal eng p sim temps w)) = events w @ concat (map (stage_events sim) temps)"
  using assms by (induction temps arbitrary: w; simp add: Let_def stage_events_def)+

lemma anneal_npt:
  assumes "ensemble p = Some ''npt''"
  shows "anneal eng p sim (temp # temps) w =
           (Inl NameError, emit (SetIntegratorTemperature sim temp) (sim_step eng sim 100 w))"
  using assms by (simp add: Let_def)

lemma length_annealing_temperatures [simp]: "length (annealing_temperatures T) = 10"
  by (cases T) simp_all

lemma annealing_temperatures_Cons:
  "annealing_temperatures T = hd (annealing_temperatures T) # tl (annealing_temperatures T)"
  using length_annealing_temperatures[of T] by (cases "annealing_temperatures T") simp_all

lemma setup_simulation_frame [simp]:
  "params_heap (snd (setup_simulation eng pr tol m w)) = params_heap w"
  "reporter_heap (snd (setup_simulation eng pr tol m w)) = reporter_heap w"
  "next_ref (snd (setup_simulation eng pr tol m w)) = Suc (next_ref w)"
  "folders (snd (setup_simulation eng pr tol m w)) = folders w"
  by (simp_all add: setup_simulation_def Let_def split_beta create_simulation_def split: prod.splits sum.splits)

lemma setup_simulation_plain:
  assumes "\<not> anneals (params_heap w pr)"
  shows "fst (setup_simulation eng pr tol m w) = Inr (next_ref w)"
    and "events (snd (setup_simulation eng pr tol m w)) =
           events w @ setup_events (params_heap w pr) (next_ref w) tol m"
  using assms
  by (simp_all add: setup_simulation_def anneals_def Let_def split_beta setup_events_def create_simulation_def)

lemma setup_simulation_anneal:
  assumes "anneals (params_heap w pr)" "ensemble (params_heap w pr) \<noteq> Some ''npt''"
  shows "fst (setup_simulation eng pr tol m w) = Inr (next_ref w)"
    and "events (snd (setup_simulation eng pr tol m w)) =
           events w @ setup_events (params_heap w pr) (next_ref w) tol m
             @ concat (map (stage_events (next_ref w)) (annealing_temperatures (temperature (params_heap w pr))))"
  using assms anneal_ok[of "params_heap w pr" eng]
  by (simp_all add: setup_simulation_def anneals_def Let_def split_beta setup_events_def create_simulation_def
      split: prod.splits sum.splits)

lemma run_simulation_frame [simp]:
  "params_heap (run_simulation eng pr sim w) = params_heap w"
  "next_ref (run_simulation eng pr sim w) = next_ref w"
  "folders (run_simulation eng pr sim w) = insert (output_folder (params_heap w pr)) (folders w)"
  by (simp_all add: run_simulation_def Let_def)

lemma run_simulation_events:
  "events (run_simulation eng pr sim w) =
     events w @ run_events (params_heap w pr)
                  (rep_reportInterval (reporter_heap w (state_data_reporter (params_heap w pr)))) sim"
  by (simp add: run_simulation_def Let_def run_events_def)

lemma run_simulation_reporter:
  "reporter_heap (run_simulation eng pr sim w) (state_data_reporter (params_heap w pr)) =
     (reporter_heap w (state_data_reporter (params_heap w pr)))
       \<lparr>rep_out := Some (output_folder (params_heap w pr) @ ''/'' @ log_file_name (params_heap w pr) @ ''.csv''),
        rep_step := True\<rparr>"
  by (simp add: run_simulation_def Let_def)


lemma filter_Step_stages:
  "filter is_Step (concat (map (stage_events sim) temps)) = map (\<lambda>T. Step sim 100) temps"
  by (induction temps) (simp_all add: stage_events_def)

lemma filter_Step_setup [simp]: "filter is_Step (setup_events p sim tol m) = []"
  by (simp add: setup_events_def)

lemma filter_Minimize_stages [simp]:
  "filter is_MinimizeEnergy (concat (map (stage_events sim) temps)) = []"
  by (induction temps) (simp_all add: stage_events_def)

lemma filter_Minimize_setup [simp]:
  "filter is_MinimizeEnergy (setup_events p sim tol m) = (if m then [MinimizeEnergy sim tol 1000] else [])"
  by (simp add: setup_events_def)

lemma setup_simulation_error:
  "fst (setup_simulation eng pr tol m w) = Inl e \<Longrightarrow> e = NameError"
proof (cases "anneals (params_heap w pr)")
  case False
  then show "fst (setup_simulation eng pr tol m w) = Inl e \<Longrightarrow> e = NameError"
    using setup_simulation_plain(1)[of w pr eng tol m] by simp
next
  case True
  assume e: "fst (setup_simulation eng pr tol m w) = Inl e"
  show "e = NameError"
  proof (cases "ensemble (params_heap w pr) = Some ''npt''")
    case False
    then show ?thesis using e setup_simulation_anneal(1)[OF True False, of eng tol m] by simp
  next
    case npt: True
    obtain T Ts where "annealing_temperatures (temperature (params_heap w pr)) = T # Ts"
      using annealing_temperatures_Cons by blast
    then show ?thesis using e True npt
      by (simp add: setup_simulation_def anneals_def Let_def split_beta)
  qed
qed

lemma setup_simulation_error':
  "setup_simulation eng pr tol m w = (Inl e, w') \<Longrightarrow> e = NameError"
  using setup_simulation_error[of eng pr tol m w e] by simp


lemma test_world_sel [simp]:
  "events (test_world p) = []"
  "params_heap (test_world p) r = p"
  "reporter_heap (test_world p) r = test_reporter"
  "sim_positions (test_world p) r = []"
  "next_ref (test_world p) = 1"
  "folders (test_world p) = {}"
  by (simp_all add: test_world_def)




lemma anneal_npt_events:
  assumes "ensemble p = Some ''npt''"
  shows "fst (anneal eng p sim (temp # temps) w) = Inl NameError"
    and "events (snd (anneal eng p sim (temp # temps) w)) = events w @ stage_events sim temp"
  using assms by (simp_all add: Let_def stage_events_def)

lemma setup_simulation_npt:
  assumes "anneals (params_heap w pr)" "ensemble (params_heap w pr) = Some ''npt''"
  shows "fst (setup_simulation eng pr tol m w) = Inl NameError"
    and "events (snd (setup_simulation eng pr tol m w)) =
           events w @ setup_events (params_heap w pr) (next_ref w) tol m
             @ stage_events (next_ref w) (hd (annealing_temperatures (temperature (params_heap w pr))))"
proof -
  obtain T Ts where c: "annealing_temperatures (temperature (params_heap w pr)) = T # Ts"
    using annealing_temperatures_Cons by blast
  show "fst (setup_simulation eng pr tol m w) = Inl NameError"
    using assms c anneal_npt_events(1)[OF assms(2), of eng]
    by (simp add: setup_simulation_def anneals_def Let_def split_beta del: anneal.simps
        split: prod.splits sum.splits)
  show "events (snd (setup_simulation eng pr tol m w)) =
           events w @ setup_events (params_heap w pr) (next_ref w) tol m
             @ stage_events (next_ref w) (hd (annealing_temperatures (temperature (params_heap w pr))))"
    using assms c anneal_npt_events[OF assms(2), of eng]
    by (simp add: setup_simulation_def anneals_def Let_def split_beta setup_events_def
        create_simulation_def del: anneal.simps split: prod.splits sum.splits)
qed

lemma linspace_neq_Nil:
  assumes "0 < n"
  shows "linspace a b n \<noteq> []"
proof
  assume "linspace a b n = []"
  then have "length (linspace a b n) = 0" by (simp only: list.size(3))
  then show False using assms by simp
qed

lemma hd_linspace_10 [simp]: "hd (linspace 0 M 10) = 0"
  using linspace_10_nth[of 0 M] linspace_neq_Nil[of 10 0 M] by (simp add: hd_conv_nth)

lemma hd_annealing_temperatures_int [simp]: "hd (annealing_temperatures (TInt t)) = Kelvin 0"
  using linspace_neq_Nil[of 10 0 "float_of (of_int t)"] by (simp add: hd_map)

lemma filter_barostat_setup [simp]: "filter is_barostat_update (setup_events p sim tol m) = []"
  by (simp add: setup_events_def)

lemma filter_barostat_stage [simp]: "filter is_barostat_update (stage_events sim temp) = []"
  by (simp add: stage_events_def)




lemma setup_simulation_positions:
  assumes "\<not> anneals (params_heap w pr)"
  shows "sim_positions (snd (setup_simulation eng pr tol False w)) (next_ref w)
           = positions (testsystem (params_heap w pr))"
  using assms
  by (simp add: setup_simulation_def anneals_def Let_def split_beta create_simulation_def)

lemma setup_simulation_completes:
  assumes "\<not> (anneals (params_heap w pr) \<and> ensemble (params_heap w pr) = Some ''npt'')"
  shows "fst (setup_simulation eng pr tol m w) = Inr (next_ref w)"
    and "events (snd (setup_simulation eng pr tol m w)) =
           events w @ setup_events (params_heap w pr) (next_ref w) tol m
             @ (if anneals (params_heap w pr)
                then concat (map (stage_events (next_ref w))
                       (annealing_temperatures (temperature (params_heap w pr))))
                else [])"
  using assms setup_simulation_plain[of w pr eng tol m] setup_simulation_anneal[of w pr eng tol m]
  by auto

lemma filter_Step_annealing:
  "filter is_Step (concat (map (stage_events sim) (annealing_temperatures T)))
     = replicate 10 (Step sim 100)"
  by (simp add: filter_Step_stages map_replicate_const)


section \<open>The parameters objects\<close>

lemma clone_parameters_sel [simp]:
  "fst (clone_parameters parms t w) = next_ref w"
  "events (snd (clone_parameters parms t w)) = events w"
  "reporter_heap (snd (clone_parameters parms t w)) = reporter_heap w"
  "next_ref (snd (clone_parameters parms t w)) = Suc (next_ref w)"
  "params_heap (snd (clone_parameters parms t w)) =
     (params_heap w)(next_ref w := cloned (params_heap w parms) t)"
  by (auto simp: clone_parameters_def dataclasses_replace_def Let_def cloned_def fun_eq_iff)

lemma multi_temperature_loop_Cons:
  "multi_temperature_loop eng parms (t # ts) w =
     (case setup_simulation eng (next_ref w) 1 False (snd (clone_parameters parms t w)) of
        (Inl e, w4) \<Rightarrow> (Inl e, w4)
      | (Inr qsim, w4) \<Rightarrow>
          multi_temperature_loop eng parms ts (run_simulation eng (next_ref w) qsim w4))"
proof -
  obtain c w3 where cw: "clone_parameters parms t w = (c, w3)"
    by (cases "clone_parameters parms t w")
  have "c = next_ref w"
    using clone_parameters_sel(1)[of parms t w] cw by simp
  then show ?thesis using cw by simp
qed

declare multi_temperature_loop.simps(2) [simp del]

lemma multi_temperature_loop_frame:
  "r < next_ref w \<Longrightarrow> params_heap (snd (multi_temperature_loop eng parms ts w)) r = params_heap w r"
proof (induction ts arbitrary: w)
  case Nil
  then show ?case by simp
next
  case (Cons t ts)
  let ?w3 = "snd (clone_parameters parms t w)"
  obtain res w4 where s: "setup_simulation eng (next_ref w) 1 False ?w3 = (res, w4)"
    by (cases "setup_simulation eng (next_ref w) 1 False ?w3")
  have w4: "w4 = snd (setup_simulation eng (next_ref w) 1 False ?w3)"
    using s by simp
  have heap4: "params_heap w4 = params_heap ?w3" and next4: "next_ref w4 = Suc (next_ref ?w3)"
    unfolding w4 by simp_all
  have r4: "params_heap w4 r = params_heap w r"
    using Cons.prems heap4 by simp
  show ?case
  proof (cases res)
    case (Inl e)
    then show ?thesis using s r4 by (simp add: multi_temperature_loop_Cons)
  next
    case (Inr qsim)
    let ?w5 = "run_simulation eng (next_ref w) qsim w4"
    have "r < next_ref ?w5" using Cons.prems next4 by simp
    then have "params_heap (snd (multi_temperature_loop eng parms ts ?w5)) r = params_heap ?w5 r"
      by (rule Cons.IH)
    then show ?thesis using s Inr r4 by (simp add: multi_temperature_loop_Cons)
  qed
qed

lemma propagation_params_after:
  "params_heap (snd (PropagationProtocol_perform_stability_test eng parms w)) =
     (case temperature (params_heap w parms) of
        TInt t \<Rightarrow> (params_heap w)(parms := (params_heap w parms)
                     \<lparr>log_file_name := log_file_name (params_heap w parms) @ ''_'' @ str_int t\<rparr>)
      | _ \<Rightarrow> params_heap w)"
proof (cases "temperature (params_heap w parms)")
  case (TInt t)
  let ?w1 = "update_params parms (\<lambda>p. p\<lparr>log_file_name := log_file_name p @ ''_'' @ str_int t\<rparr>) w"
  obtain res w2 where s: "setup_simulation eng parms 1 True ?w1 = (res, w2)"
    by (cases "setup_simulation eng parms 1 True ?w1")
  have "w2 = snd (setup_simulation eng parms 1 True ?w1)"
    using s by simp
  then have "params_heap w2 = params_heap ?w1"
    by simp
  then show ?thesis using TInt s
    by (cases res) (simp_all add: PropagationProtocol_perform_stability_test_def Let_def)
qed (simp_all add: PropagationProtocol_perform_stability_test_def)

lemma str_int_300: "str_int 300 = ''300''"
  by code_simp

lemma str_int_400: "str_int 400 = ''400''"
  by code_simp


section \<open>Decimal formatting is injective\<close>

lemma of_char_digit_char: "d < 10 \<Longrightarrow> of_char (digit_char d) = 48 + d"
  by (simp add: digit_char_def)

lemma str_nat_value:
  "foldl (\<lambda>a c. 10 * a + (of_char c - 48)) 0 (str_nat n) = n"
proof (induction n rule: str_nat.induct)
  case (1 n)
  show ?case
  proof (cases "n < 10")
    case True
    then show ?thesis by (simp add: str_nat.simps[of n] of_char_digit_char)
  next
    case False
    then have "foldl (\<lambda>a c. 10 * a + (of_char c - 48)) 0 (str_nat (n div 10)) = n div 10"
      using "1.IH" by simp
    then show ?thesis using False
      by (simp add: str_nat.simps[of n] of_char_digit_char)
  qed
qed

lemma str_nat_inj: "str_nat m = str_nat n \<Longrightarrow> m = n"
  by (metis str_nat_value)

lemma digit_char_not_minus: "d < 10 \<Longrightarrow> digit_char d \<noteq> CHR ''-''"
proof
  assume "d < 10" and "digit_char d = CHR ''-''"
  then have "of_char (digit_char d) = (of_char (CHR ''-'') :: nat)" by simp
  then show False using \<open>d < 10\<close> by (simp add: of_char_digit_char)
qed

lemma str_nat_no_minus: "CHR ''-'' \<notin> set (str_nat n)"
proof (induction n rule: str_nat.induct)
  case (1 n)
  show ?case
  proof (cases "n < 10")
    case True
    then show ?thesis using digit_char_not_minus[of n] by (simp add: str_nat.simps[of n])
  next
    case False
    then show ?thesis using "1.IH" digit_char_not_minus[of "n mod 10"]
      by (simp add: str_nat.simps[of n])
  qed
qed

lemma str_nat_not_Nil: "str_nat n \<noteq> []"
  by (simp add: str_nat.simps[of n])

lemma str_nat_not_minus_Cons: "str_nat n \<noteq> CHR ''-'' # s"
  using str_nat_no_minus[of n] by (metis list.set_intros(1))

lemma str_int_inj: "str_int a = str_int b \<Longrightarrow> a = b"
proof -
  assume e: "str_int a = str_int b"
  consider "a < 0" "b < 0" | "a < 0" "0 \<le> b" | "0 \<le> a" "b < 0" | "0 \<le> a" "0 \<le> b"
    by linarith
  then show "a = b"
  proof cases
    case 1
    then have "nat (- a) = nat (- b)" using e str_nat_inj by (simp add: str_int_def)
    then show ?thesis using 1 by linarith
  next
    case 2
    then show ?thesis using e str_nat_not_minus_Cons[of "nat b" "str_nat (nat (- a))"]
      by (simp add: str_int_def)
  next
    case 3
    then show ?thesis using e str_nat_not_minus_Cons[of "nat a" "str_nat (nat (- b))"]
      by (simp add: str_int_def)
  next
    case 4
    then have "nat a = nat b" using e str_nat_inj by (simp add: str_int_def)
    then show ?thesis using 4 by linarith
  qed
qed

lemma cloned_name_inj:
  "log_file_name (cloned p a) = log_file_name (cloned p b) \<Longrightarrow> a = b"
  by (simp add: cloned_def str_int_inj)

lemma distinct_cloned_names:
  "distinct (map (\<lambda>t. log_file_name (cloned p t)) ts) = distinct ts"
  by (simp add: distinct_map inj_on_def cloned_name_inj)

section \<open>The trace of the multi-temperature loop\<close>

declare annealing_temperatures.simps [simp del]

lemma run_simulation_interval [simp]:
  "rep_reportInterval (reporter_heap (run_simulation eng pr sim w) r)
     = rep_reportInterval (reporter_heap w r)"
  by (simp add: run_simulation_def Let_def)

lemma cloned_sel [simp]:
  "anneals (cloned p t) = anneals p"
  "ensemble (cloned p t) = ensemble p"
  "state_data_reporter (cloned p t) = state_data_reporter p"
  "temperature (cloned p t) = TInt t"
  "output_folder (cloned p t) = output_folder p"
  "log_file_name (cloned p t) = log_file_name p @ ''_'' @ str_int t @ ''K''"
  by (simp_all add: cloned_def anneals_def)

lemma multi_temperature_loop_events:
  assumes "parms < next_ref w"
    and "params_heap w parms = p"
    and "\<not> (anneals p \<and> ensemble p = Some ''npt'')"
    and "rep_reportInterval (reporter_heap w (state_data_reporter p)) = interval"
  shows "fst (multi_temperature_loop eng parms ts w) = Inr ()
    \<and> events (snd (multi_temperature_loop eng parms ts w))
        = events w @ multi_events p interval (next_ref w) ts
    \<and> next_ref (snd (multi_temperature_loop eng parms ts w)) = next_ref w + 2 * length ts"
  using assms
proof (induction ts arbitrary: w)
  case Nil
  then show ?case by simp
next
  case (Cons t ts)
  let ?c = "next_ref w"
  let ?w3 = "snd (clone_parameters parms t w)"
  have c3: "params_heap ?w3 ?c = cloned p t"
    using Cons.prems(2) by simp
  have ok3: "\<not> (anneals (params_heap ?w3 ?c) \<and> ensemble (params_heap ?w3 ?c) = Some ''npt'')"
    using Cons.prems(3) c3 by simp
  obtain r w4 where s: "setup_simulation eng ?c 1 False ?w3 = (r, w4)"
    by (cases "setup_simulation eng ?c 1 False ?w3")
  have w4: "w4 = snd (setup_simulation eng ?c 1 False ?w3)"
    using s by simp
  have r: "r = Inr (Suc ?c)"
    using setup_simulation_completes(1)[OF ok3, of eng 1 False] s by simp
  have "events w4 = events ?w3 @ setup_events (params_heap ?w3 ?c) (next_ref ?w3) 1 False
               @ (if anneals (params_heap ?w3 ?c)
                  then concat (map (stage_events (next_ref ?w3))
                         (annealing_temperatures (temperature (params_heap ?w3 ?c))))
                  else [])"
    unfolding w4 by (rule setup_simulation_completes(2)[OF ok3])
  then have ev4: "events w4 = events w @ setup_events (cloned p t) (Suc ?c) 1 False
               @ (if anneals p
                  then concat (map (stage_events (Suc ?c)) (annealing_temperatures (TInt t)))
                  else [])"
    unfolding c3 by simp
  have heap4: "params_heap w4 = params_heap ?w3" and rep4: "reporter_heap w4 = reporter_heap w"
    and next4: "next_ref w4 = Suc (Suc ?c)"
    unfolding w4 by simp_all
  let ?w5 = "run_simulation eng ?c (Suc ?c) w4"
  have ev5: "events ?w5 = events w @ one_run_events (cloned p t) interval (Suc ?c)"
    using ev4 heap4 rep4 c3 Cons.prems(4)
    by (simp add: run_simulation_events one_run_events_def)
  have step: "multi_temperature_loop eng parms (t # ts) w = multi_temperature_loop eng parms ts ?w5"
    using s r by (simp add: multi_temperature_loop_Cons)
  have a5: "parms < next_ref ?w5"
    using Cons.prems(1) next4 by simp
  have p5: "params_heap ?w5 parms = p"
    using Cons.prems(1,2) heap4 by simp
  have i5: "rep_reportInterval (reporter_heap ?w5 (state_data_reporter p)) = interval"
    using Cons.prems(4) rep4 by simp
  have IH: "fst (multi_temperature_loop eng parms ts ?w5) = Inr ()
    \<and> events (snd (multi_temperature_loop eng parms ts ?w5))
        = events ?w5 @ multi_events p interval (next_ref ?w5) ts
    \<and> next_ref (snd (multi_temperature_loop eng parms ts ?w5)) = next_ref ?w5 + 2 * length ts"
    by (rule Cons.IH[OF a5 p5 Cons.prems(3) i5])
  show ?case
    unfolding step using IH ev5 next4 by simp
qed

lemma stages_project [simp]:
  "concat (map created_temperature (concat (map (stage_events sim) temps))) = []"
  "concat (map created_simulation (concat (map (stage_events sim) temps))) = []"
  "concat (map written_pdb (concat (map (stage_events sim) temps))) = []"
  by (induction temps; simp add: stage_events_def)+

lemma one_run_project [simp]:
  "concat (map created_temperature (one_run_events p interval sim)) = [temperature p]"
  "concat (map created_simulation (one_run_events p interval sim)) = [sim]"
  "concat (map written_pdb (one_run_events p interval sim))
     = [output_folder p @ ''/'' @ log_file_name p @ ''.pdb'']"
  "filter is_MinimizeEnergy (one_run_events p interval sim) = []"
  by (cases "anneals p"; simp add: one_run_events_def setup_events_def run_events_def)+

lemma multi_events_project:
  "concat (map created_temperature (multi_events p interval n ts)) = map TInt ts"
  "concat (map created_simulation (multi_events p interval n ts))
     = map (\<lambda>i. n + 2 * i + 1) [0..<length ts]"
  "concat (map written_pdb (multi_events p interval n ts))
     = map (\<lambda>t. output_folder p @ ''/'' @ log_file_name p @ ''_'' @ str_int t @ ''K'' @ ''.pdb'') ts"
  "filter is_MinimizeEnergy (multi_events p interval n ts) = []"
proof (induction ts arbitrary: n)
  case Nil
  {
    case 1 show ?case by simp
  next
    case 2 show ?case by simp
  next
    case 3 show ?case by simp
  next
    case 4 show ?case by simp
  }
next
  case (Cons t ts)
  {
    case 1 show ?case using Cons.IH(1) by simp
  next
    case 2
    have "map (\<lambda>i. n + 2 * i + 1) [0..<length (t # ts)]
            = (n + 1) # map (\<lambda>i. Suc (Suc n) + 2 * i + 1) [0..<length ts]"
      by (simp add: upt_conv_Cons map_Suc_upt[symmetric] del: upt_Suc)
    then show ?case using Cons.IH(2)[of "Suc (Suc n)"] by simp
  next
    case 3 show ?case using Cons.IH(3) by simp
  next
    case 4 show ?case using Cons.IH(4) by simp
  }
qed

lemma multi_temperature_protocol_events:
  assumes "parms < next_ref w"
    and "params_heap w parms = p"
    and "temperature p = TList ts"
    and "\<not> (anneals p \<and> ensemble p = Some ''npt'')"
  shows "fst (MultiTemperatureProtocol_perform_stability_test eng parms w) = Inr ()"
    and "new_events w (snd (MultiTemperatureProtocol_perform_stability_test eng parms w))
           = multi_events p (rep_reportInterval (reporter_heap w (state_data_reporter p)))
               (next_ref w) ts"
  using multi_temperature_loop_events[OF assms(1,2,4) refl, of eng ts] assms(2,3)
  by (simp_all add: MultiTemperatureProtocol_perform_stability_test_def new_events_def)

lemma distinct_names:
  "distinct (map (\<lambda>t. base @ ''_'' @ str_int t @ ''K'') ts) = distinct ts"
  by (simp add: distinct_map inj_on_def str_int_inj)


section \<open>Facts about the bond scan\<close>

lemma fl_le_0_iff [simp]: "fl x \<le> 0 \<longleftrightarrow> x \<le> 0"
  using fl_pos[of x] fl_mono[of x 0] by (cases "0 < x") auto

lemma fl_ge_0_iff [simp]: "0 \<le> fl x \<longleftrightarrow> 0 \<le> x"
  using fl_neg[of x] fl_mono[of 0 x] by (cases "x < 0") auto

lemma float64_square_nonneg [simp]: "0 \<le> x * (x :: float64)"
  by transfer simp

lemma float64_add_nonneg: "0 \<le> a \<Longrightarrow> 0 \<le> b \<Longrightarrow> 0 \<le> a + (b :: float64)"
  by transfer simp

lemma float64_add_le_0_iff:
  "0 \<le> a \<Longrightarrow> 0 \<le> b \<Longrightarrow> a + b \<le> 0 \<longleftrightarrow> a = 0 \<and> b = (0 :: float64)"
  by transfer auto

lemma fsqrt_eq_0_iff [simp]: "fsqrt a = 0 \<longleftrightarrow> a \<le> 0"
  by transfer (simp add: sqrt_nearest_eq_0_iff)

lemma vnorm_eq_0_iff: "vnorm v = 0 \<longleftrightarrow> v = (0, 0, 0)"
proof (cases v)
  case (fields x y z)
  have xy: "0 \<le> x * x + y * y"
    by (rule float64_add_nonneg) simp_all
  have "x * x + y * y + z * z \<le> 0 \<longleftrightarrow> x * x + y * y = 0 \<and> z * z = 0"
    by (rule float64_add_le_0_iff[OF xy]) simp
  also have "x * x + y * y = 0 \<longleftrightarrow> x * x = 0 \<and> y * y = 0"
    using float64_add_le_0_iff[of "x * x" "y * y"] xy by (auto simp: order_antisym_conv)
  finally show ?thesis using fields by (simp add: vnorm_def)
qed

lemma fsqrt_nonneg [simp]: "0 \<le> fsqrt a"
  by transfer (use sqrt_nearest_pos in \<open>force simp: sqrt_nearest_def less_imp_le\<close>)

lemma vnorm_pos: "v \<noteq> (0, 0, 0) \<Longrightarrow> 0 < vnorm v"
proof -
  assume "v \<noteq> (0, 0, 0)"
  then have "vnorm v \<noteq> 0" by (simp add: vnorm_eq_0_iff)
  moreover have "0 \<le> vnorm v" by (cases v) (simp add: vnorm_def)
  ultimately show ?thesis by simp
qed

lemma vsub_eq_0_iff: "vsub b a = (0, 0, 0) \<longleftrightarrow> a = b"
  by (cases a; cases b) (auto simp: vsub_def)

lemma set_bond_length_eq:
  assumes "norm_index (length ps) atom1 = Inr k1"
    and "norm_index (length ps) atom2 = Inr k2"
    and "ps ! k1 = Some p1" and "ps ! k2 = Some p2" and "p1 \<noteq> p2"
  shows "set_bond_length ps atom1 atom2 len = Inr (stretched ps k2 p1 (direction p1 p2) len)"
proof -
  have "vnorm (vsub p2 p1) \<noteq> 0"
    using assms(5) by (simp add: vnorm_eq_0_iff vsub_eq_0_iff)
  then show ?thesis
    using assms(1-4)
    by (simp add: set_bond_length_def py_index_def pos_sub_def normalized_def pos_scale_def
        pos_add_def stretched_def direction_def Let_def)
qed

lemma dof_scan_loop_eq:
  assumes "\<And>len. set_bond_length ip a1 a2 len = Inr (f len)"
  shows "fst (dof_scan_loop eng sim ip a1 a2 lens (pe, cf, bl) w)
           = Inr (pe @ scan_energies eng sim f (events w) lens, cf @ map f lens, bl @ lens)
       \<and> events (snd (dof_scan_loop eng sim ip a1 a2 lens (pe, cf, bl) w))
           = events w @ concat (map (\<lambda>len. sample_events sim (f len)) lens)"
proof (induction lens arbitrary: pe cf bl w)
  case Nil
  then show ?case by simp
next
  case (Cons len lens)
  let ?w1 = "setPositions sim (f len) w"
  let ?w2 = "snd (getState eng sim True True ?w1)"
  let ?e = "potential_energy eng (events w @ [SetPositions sim (f len)]) (f len)"
  have step: "dof_scan_loop eng sim ip a1 a2 (len # lens) (pe, cf, bl) w
     = dof_scan_loop eng sim ip a1 a2 lens (pe @ [?e], cf @ [f len], bl @ [len]) ?w2"
    by (simp add: assms Let_def split_beta)
  have ev2: "events ?w2 = events w @ sample_events sim (f len)"
    by (simp add: sample_events_def)
  show ?case
    unfolding step using Cons.IH[of "pe @ [?e]" "cf @ [f len]" "bl @ [len]" ?w2]
    by (simp add: ev2 sample_events_def)
qed

lemma length_scan_energies [simp]: "length (scan_energies eng sim f h lens) = length lens"
  by (induction lens arbitrary: h) simp_all

lemma filter_sample_events [simp]:
  "filter is_MinimizeEnergy (concat (map (\<lambda>len. sample_events sim (f len)) lens)) = []"
  "filter is_Step (concat (map (\<lambda>len. sample_events sim (f len)) lens)) = []"
  by (induction lens; simp add: sample_events_def)+

lemma perform_DOF_scan_eq:
  assumes "bond parameters = [atom1, atom2]"
    and "positions (dof_testsystem parameters) = ps"
    and "norm_index (length ps) atom1 = Inr k1"
    and "norm_index (length ps) atom2 = Inr k2"
    and "ps ! k1 = Some p1" and "ps ! k2 = Some p2" and "p1 \<noteq> p2"
  shows "fst (perform_DOF_scan eng sim parameters w)
           = Inr (scan_energies eng sim (stretched ps k2 p1 (direction p1 p2)) (events w)
                    (linspace 0 (bond_length_max parameters) 100),
                  map (stretched ps k2 p1 (direction p1 p2)) (linspace 0 (bond_length_max parameters) 100),
                  linspace 0 (bond_length_max parameters) 100)"
    and "new_events w (snd (perform_DOF_scan eng sim parameters w))
           = concat (map (\<lambda>len. sample_events sim (stretched ps k2 p1 (direction p1 p2) len))
                      (linspace 0 (bond_length_max parameters) 100))"
proof -
  have f: "\<And>len. set_bond_length ps atom1 atom2 len = Inr (stretched ps k2 p1 (direction p1 p2) len)"
    by (rule set_bond_length_eq[OF assms(3-7)])
  note loop = dof_scan_loop_eq[of ps atom1 atom2 "stretched ps k2 p1 (direction p1 p2)", OF f,
      of eng sim "linspace 0 (bond_length_max parameters) 100" "[]" "[]" "[]" w]
  show "fst (perform_DOF_scan eng sim parameters w)
           = Inr (scan_energies eng sim (stretched ps k2 p1 (direction p1 p2)) (events w)
                    (linspace 0 (bond_length_max parameters) 100),
                  map (stretched ps k2 p1 (direction p1 p2)) (linspace 0 (bond_length_max parameters) 100),
                  linspace 0 (bond_length_max parameters) 100)"
    using loop assms(1,2) by (simp add: perform_DOF_scan_def)
  show "new_events w (snd (perform_DOF_scan eng sim parameters w))
           = concat (map (\<lambda>len. sample_events sim (stretched ps k2 p1 (direction p1 p2) len))
                      (linspace 0 (bond_length_max parameters) 100))"
    using loop assms(1,2) by (simp add: perform_DOF_scan_def new_events_def)
qed

lemma stretched_other: "k \<noteq> k2 \<Longrightarrow> stretched ps k2 p1 u len ! k = ps ! k"
  by (simp add: stretched_def)

lemma stretched_atom2: "k2 < length ps \<Longrightarrow> stretched ps k2 p1 u len ! k2 = Some (vadd p1 (vscale u len))"
  by (simp add: stretched_def)

lemma norm_index_less: "norm_index n i = Inr k \<Longrightarrow> k < n"
  by (auto simp: norm_index_def Let_def split: if_splits)


lemma test_positions_sel [simp]:
  "length test_positions = 4"
  "test_positions ! 0 = Some (0, 0, 0)"
  "test_positions ! 3 = Some (float_of 3, float_of 4, 0)"
  by (simp_all add: test_positions_def)

lemma ethanol_scan_sel [simp]:
  "bond ethanol_scan = [0, 3]"
  "positions (dof_testsystem ethanol_scan) = test_positions"
  "bond_length_max ethanol_scan = float_of 10"
  by (simp_all add: ethanol_scan_def)

lemma norm_index_4 [simp]: "norm_index 4 0 = Inr 0" "norm_index 4 3 = Inr 3"
  by (simp_all add: norm_index_def)

lemma direction_test:
  "direction (0, 0, 0) (float_of 3, float_of 4, 0) = (float_of (3 / 5), float_of (4 / 5), 0)"
  by code_simp


lemma sample_33: "val (float_of 33 * (float_of 10 / float_of 99)) = 7505999378950827 / 2251799813685248"
  by code_simp

lemma stretched_33:
  "vadd (0, 0, 0) (vscale (float_of (3 / 5), float_of (4 / 5), 0)
      (float_of 33 * (float_of 10 / float_of 99)))
     = (float_of 2, float_of (3002399751580331 / 1125899906842624), 0)"
  by code_simp

lemma stretched_99:
  "vadd (0, 0, 0) (vscale (float_of (3 / 5), float_of (4 / 5), 0) (float_of 10))
     = (float_of 6, float_of 8, 0)"
  by code_simp

lemma test_atoms_differ: "(0 :: float64, 0 :: float64, 0 :: float64) \<noteq> (float_of 3, float_of 4, 0)"
  by simp


lemma vadd_vscale_0 [simp]: "vadd p (vscale u 0) = p"
  by (cases p; cases u) (simp add: vadd_def vscale_def)

lemma stretched_0 [simp]: "stretched ps k2 p1 u 0 = ps[k2 := Some p1]"
  by (simp add: stretched_def)


section \<open>Facts about the minimization protocol\<close>

lemma sim_step_positions:
  "sim_positions (sim_step eng sim n w) sim = propagated eng (events w @ [Step sim n]) (sim_positions w sim)"
  by (simp add: sim_step_def Let_def)

lemma minimizeEnergy_positions:
  "sim_positions (minimizeEnergy eng sim tol k w) sim
     = minimized eng (events w @ [MinimizeEnergy sim tol k]) (sim_positions w sim)"
  by (simp add: minimizeEnergy_def Let_def)

lemma replay_append:
  "replay eng h (es @ fs) ps = replay eng (h @ es) fs (replay eng h es ps)"
  by (induction es arbitrary: h ps) simp_all

lemma anneal_positions:
  assumes "ensemble p \<noteq> Some ''npt''"
  shows "sim_positions (snd (anneal eng p sim temps w)) sim
           = replay eng (events w) (concat (map (stage_events sim) temps)) (sim_positions w sim)"
  using assms
  by (induction temps arbitrary: w) (simp_all add: Let_def stage_events_def sim_step_positions)

lemma replay_setup_events:
  "replay eng h (setup_events p sim tol m) ps0
     = (if m then minimized eng (h @ setup_events p sim tol m) (positions (testsystem p))
        else positions (testsystem p))"
  by (simp add: setup_events_def)

lemma setup_simulation_replay:
  assumes "\<not> (anneals p \<and> ensemble p = Some ''npt'')" and "params_heap w pr = p"
  shows "sim_positions (snd (setup_simulation eng pr tol m w)) (next_ref w)
           = replay eng (events w)
               (setup_events p (next_ref w) tol m
                @ (if anneals p
                   then concat (map (stage_events (next_ref w)) (annealing_temperatures (temperature p)))
                   else [])) ps0"
proof -
  let ?sim = "next_ref w"
  let ?spec = "\<lparr>spec_system = system p, spec_topology = topology (testsystem p),
      spec_platform = platform p, spec_temperature = temperature p, spec_env = env p,
      spec_device_index = device_index p, spec_ensemble = ensemble p\<rparr>"
  let ?w2 = "setPositions ?sim (positions (testsystem p)) (snd (create_simulation ?spec w))"
  let ?w3 = "if m then minimizeEnergy eng ?sim tol 1000 ?w2 else ?w2"
  have ev3: "events ?w3 = events w @ setup_events p ?sim tol m"
    by (simp add: setup_events_def)
  have ps3: "sim_positions ?w3 ?sim = replay eng (events w) (setup_events p ?sim tol m) ps0"
    unfolding replay_setup_events by (simp add: minimizeEnergy_positions setup_events_def)
  show ?thesis
  proof (cases "anneals p")
    case False
    have "snd (setup_simulation eng pr tol m w) = ?w3"
      using False assms(2)
      by (simp add: setup_simulation_def anneals_def Let_def split_beta create_simulation_def)
    then show ?thesis using False ps3 by simp
  next
    case True
    then have npt: "ensemble p \<noteq> Some ''npt''" using assms(1) by simp
    let ?ts = "annealing_temperatures (temperature p)"
    have ok: "fst (anneal eng p ?sim ?ts ?w3) = Inr ()"
      by (rule anneal_ok(1)[OF npt])
    have "snd (setup_simulation eng pr tol m w) = snd (anneal eng p ?sim ?ts ?w3)"
      using True assms(2) ok
      by (simp add: setup_simulation_def anneals_def Let_def split_beta create_simulation_def
          split: prod.splits sum.splits)
    then have "sim_positions (snd (setup_simulation eng pr tol m w)) ?sim
        = replay eng (events ?w3) (concat (map (stage_events ?sim) ?ts)) (sim_positions ?w3 ?sim)"
      using anneal_positions[OF npt, of eng ?sim ?ts ?w3] by simp
    then show ?thesis
      unfolding ev3 ps3 using True by (simp add: replay_append)
  qed
qed

lemma filter_Step_minimization_events:
  "filter is_Step (minimization_events p sim minimize)
     = (if anneals p then replicate 10 (Step sim 100) else [])"
  by (simp add: minimization_events_def filter_Step_annealing)

lemma filter_Minimize_minimization_events:
  "filter is_MinimizeEnergy (minimization_events p sim minimize)
     = (if minimize then [MinimizeEnergy sim (convergence_criteria p) 1000] else [])"
  by (simp add: minimization_events_def)

lemma minimization_completes:
  assumes "\<not> (anneals p \<and> ensemble p = Some ''npt'')" and "params_heap w parms = p"
  shows "MinimizationProtocol_perform_stability_test eng parms minimize w =
     (if output_folder p \<in> folders w
      then (Inr \<lparr>state_positions = Some (replay eng (events w) (minimization_events p (next_ref w) minimize) []),
                 state_energy = Some (potential_energy eng
                    (events w @ minimization_events p (next_ref w) minimize)
                    (replay eng (events w) (minimization_events p (next_ref w) minimize) []))\<rparr>,
            emit (WritePDB (output_folder p @ ''/'' @ log_file_name p @ ''.pdb'') (topology (testsystem p))
                    (replay eng (events w) (minimization_events p (next_ref w) minimize) []))
              (snd (getState eng (next_ref w) True True
                      (snd (setup_simulation eng parms (convergence_criteria p) minimize w)))))
      else (Inl FileNotFoundError,
            snd (getState eng (next_ref w) True True
                   (snd (setup_simulation eng parms (convergence_criteria p) minimize w)))))"
    and "events (snd (setup_simulation eng parms (convergence_criteria p) minimize w))
           = events w @ minimization_events p (next_ref w) minimize"
proof -
  let ?tol = "convergence_criteria p"
  let ?sim = "next_ref w"
  let ?tr = "minimization_events p ?sim minimize"
  have ok: "\<not> (anneals (params_heap w parms) \<and> ensemble (params_heap w parms) = Some ''npt'')"
    using assms by simp
  obtain r w1 where s: "setup_simulation eng parms ?tol minimize w = (r, w1)"
    by (cases "setup_simulation eng parms ?tol minimize w")
  have r: "r = Inr ?sim"
    using setup_simulation_completes(1)[OF ok, of eng ?tol minimize] s by simp
  have w1: "w1 = snd (setup_simulation eng parms ?tol minimize w)"
    using s by simp
  show ev1: "events (snd (setup_simulation eng parms ?tol minimize w)) = events w @ ?tr"
    using setup_simulation_completes(2)[OF ok, of eng ?tol minimize] assms(2)
    by (simp add: minimization_events_def)
  have p1: "params_heap w1 parms = p" and f1: "folders w1 = folders w"
    unfolding w1 using assms(2) by simp_all
  have ps1: "sim_positions w1 ?sim = replay eng (events w) ?tr []"
    unfolding w1 minimization_events_def by (rule setup_simulation_replay[OF assms])
  have st: "fst (getState eng ?sim True True w1)
      = \<lparr>state_positions = Some (replay eng (events w) ?tr []),
         state_energy = Some (potential_energy eng (events w @ ?tr) (replay eng (events w) ?tr []))\<rparr>"
    using ps1 ev1 by (simp add: getState_def w1)
  show "MinimizationProtocol_perform_stability_test eng parms minimize w =
     (if output_folder p \<in> folders w
      then (Inr \<lparr>state_positions = Some (replay eng (events w) ?tr []),
                 state_energy = Some (potential_energy eng (events w @ ?tr)
                    (replay eng (events w) ?tr []))\<rparr>,
            emit (WritePDB (output_folder p @ ''/'' @ log_file_name p @ ''.pdb'') (topology (testsystem p))
                    (replay eng (events w) ?tr []))
              (snd (getState eng ?sim True True
                      (snd (setup_simulation eng parms ?tol minimize w)))))
      else (Inl FileNotFoundError,
            snd (getState eng ?sim True True
                   (snd (setup_simulation eng parms ?tol minimize w)))))"
    unfolding MinimizationProtocol_perform_stability_test_def
    using s r p1 f1 assms(2) st ps1 by (simp add: Let_def split_beta w1[symmetric])
qed

lemma minimization_npt:
  assumes "anneals p" and "ensemble p = Some ''npt''" and "params_heap w parms = p"
  shows "fst (MinimizationProtocol_perform_stability_test eng parms minimize w) = Inl NameError"
    and "events (snd (MinimizationProtocol_perform_stability_test eng parms minimize w))
           = events w @ setup_events p (next_ref w) (convergence_criteria p) minimize
               @ [Step (next_ref w) 100,
                  SetIntegratorTemperature (next_ref w) (hd (annealing_temperatures (temperature p)))]"
proof -
  let ?tol = "convergence_criteria p"
  have a: "anneals (params_heap w parms)" and n: "ensemble (params_heap w parms) = Some ''npt''"
    using assms by simp_all
  obtain r w1 where s: "setup_simulation eng parms ?tol minimize w = (r, w1)"
    by (cases "setup_simulation eng parms ?tol minimize w")
  have r: "r = Inl NameError"
    using setup_simulation_npt(1)[OF a n, of eng ?tol minimize] s by simp
  have w1: "w1 = snd (setup_simulation eng parms ?tol minimize w)"
    using s by simp
  have res: "MinimizationProtocol_perform_stability_test eng parms minimize w = (Inl NameError, w1)"
    unfolding MinimizationProtocol_perform_stability_test_def using s r assms(3) by simp
  show "fst (MinimizationProtocol_perform_stability_test eng parms minimize w) = Inl NameError"
    using res by simp
  show "events (snd (MinimizationProtocol_perform_stability_test eng parms minimize w))
           = events w @ setup_events p (next_ref w) ?tol minimize
               @ [Step (next_ref w) 100,
                  SetIntegratorTemperature (next_ref w) (hd (annealing_temperatures (temperature p)))]"
    unfolding res snd_conv w1
    using setup_simulation_npt(2)[OF a n, of eng ?tol minimize] assms(3)
    by (simp add: stage_events_def)
qed

section \<open>Facts about the benchmark loop\<close>

lemma say_sel [simp]:
  "counter (say m st) = counter st"
  "score (say m st) = score st"
  "messages (say m st) = messages st @ [m]"
  "visited (say m st) = visited st + (if is_progress m then 1 else 0)"
  by (simp_all add: say_def visited_def)

lemma visited_update [simp]:
  "visited (st\<lparr>score := s\<rparr>) = visited st"
  "visited (st\<lparr>counter := c\<rparr>) = visited st"
  by (simp_all add: visited_def)

lemma loop_abort:
  "mol f = None \<Longrightarrow>
   detect_minimum_loop impl thr t (f # fs) st
     = (Inl AttributeError,
        say (DebugNoMolecule (sdf_file_of (start_file f))) (say (InfoMinimizationTest (counter st) t) st))"
  by (simp add: Let_def)

lemma loop_skip:
  assumes "mol f = Some atoms" and "\<not> scored impl thr f"
  shows "\<exists>st1. detect_minimum_loop impl thr t (f # fs) st = detect_minimum_loop impl thr t fs st1
           \<and> counter st1 = counter st \<and> score st1 = score st \<and> visited st1 = Suc (visited st)"
proof -
  consider "above_threshold thr atoms"
    | "\<not> above_threshold thr atoms" "contains_unknown_elements impl atoms"
    | e where "\<not> above_threshold thr atoms" "\<not> contains_unknown_elements impl atoms"
        "testsystem_error f = Some e"
    using assms by (auto simp: scored_def)
  then show ?thesis
  proof cases
    case 1
    then show ?thesis using assms(1)
      by (intro exI[of _ "say (DebugSkippingHeavy (molecule_name (start_file f)) thr (heavy_atoms atoms))
            (say (InfoMinimizationTest (counter st) t) st)"]) (simp add: Let_def)
  next
    case 2
    then show ?thesis using assms(1)
      by (intro exI[of _ "say (DebugUnknownElements (molecule_name (start_file f)))
            (say (DebugUsing (molecule_name (start_file f)) thr (heavy_atoms atoms))
            (say (InfoMinimizationTest (counter st) t) st))"]) (simp add: Let_def)
  next
    case 3
    then show ?thesis using assms(1)
      by (intro exI[of _ "say (WarningSkipping (molecule_name (start_file f)) e)
            (say (DebugSdfFile (sdf_file_of (start_file f)))
            (say (DebugUsing (molecule_name (start_file f)) thr (heavy_atoms atoms))
            (say (InfoMinimizationTest (counter st) t) st)))"]) (simp add: Let_def)
  qed
qed

lemma loop_score:
  assumes "scored impl thr f"
  shows "\<exists>st6. counter st6 = counter st + 1 \<and> visited st6 = Suc (visited st)
           \<and> score st6 = AList.update (molecule_name (start_file f))
                 (rmsd_value f, \<bar>reference_energy f - minimized_energy f\<bar>) (score st)
           \<and> detect_minimum_loop impl thr t (f # fs) st
               = (if t \<le> counter st6 then (Inr (), st6) else detect_minimum_loop impl thr t fs st6)"
proof -
  obtain atoms where a: "mol f = Some atoms" "\<not> above_threshold thr atoms"
    "\<not> contains_unknown_elements impl atoms" "testsystem_error f = None"
    using assms by (auto simp: scored_def split: option.splits)
  let ?st4 = "say (DebugRMSD (rmsd_value f) \<bar>reference_energy f - minimized_energy f\<bar>)
            (say (DebugSdfFile (sdf_file_of (start_file f)))
            (say (DebugUsing (molecule_name (start_file f)) thr (heavy_atoms atoms))
            (say (InfoMinimizationTest (counter st) t) st)))"
  let ?st5 = "?st4\<lparr>score := AList.update (molecule_name (start_file f))
                 (rmsd_value f, \<bar>reference_energy f - minimized_energy f\<bar>) (score ?st4)\<rparr>"
  let ?st6 = "?st5\<lparr>counter := counter ?st5 + 1\<rparr>"
  show ?thesis using a
    by (intro exI[of _ ?st6]) (simp add: Let_def)
qed

declare detect_minimum_loop.simps(2) [simp del]

lemma halted_atD:
  assumes "halted_at impl thr t fs st st' k"
  shows "visited st' = visited st + k" and "k \<le> length fs"
    and "counter st' = counter st + int (length (filter (scored impl thr) (take k fs)))"
    and "counter st' \<le> t"
    and "counter st' < t \<longrightarrow> k = length fs"
    and "counter st' = t \<longrightarrow> 0 < k \<and> scored impl thr (fs ! (k - 1))"
  using assms unfolding halted_at_def by blast+

lemma halted_atI:
  assumes "visited st' = visited st + k" and "k \<le> length fs"
    and "counter st' = counter st + int (length (filter (scored impl thr) (take k fs)))"
    and "counter st' \<le> t"
    and "counter st' < t \<longrightarrow> k = length fs"
    and "counter st' = t \<longrightarrow> 0 < k \<and> scored impl thr (fs ! (k - 1))"
  shows "halted_at impl thr t fs st st' k"
  unfolding halted_at_def using assms by blast

lemma nth_Cons_pred: "0 < k \<Longrightarrow> (f # fs) ! (Suc k - 1) = fs ! (k - 1)"
  by (cases k) simp_all

lemma halted_at_skip:
  assumes "halted_at impl thr t fs st1 st' k"
    and "counter st1 = counter st" and "visited st1 = Suc (visited st)"
    and "\<not> scored impl thr f"
  shows "halted_at impl thr t (f # fs) st st' (Suc k)"
proof (rule halted_atI)
  note h = halted_atD[OF assms(1)]
  show "visited st' = visited st + Suc k" using h(1) assms(3) by simp
  show "Suc k \<le> length (f # fs)" using h(2) by simp
  show "counter st' = counter st + int (length (filter (scored impl thr) (take (Suc k) (f # fs))))"
    using h(3) assms(2,4) by simp
  show "counter st' \<le> t" by (rule h(4))
  show "counter st' < t \<longrightarrow> Suc k = length (f # fs)" using h(5) by simp
  show "counter st' = t \<longrightarrow> 0 < Suc k \<and> scored impl thr ((f # fs) ! (Suc k - 1))"
  proof
    assume "counter st' = t"
    then have "0 < k" and "scored impl thr (fs ! (k - 1))" using h(6) by blast+
    then show "0 < Suc k \<and> scored impl thr ((f # fs) ! (Suc k - 1))"
      by (simp only: nth_Cons_pred zero_less_Suc simp_thms)
  qed
qed

lemma halted_at_score:
  assumes "halted_at impl thr t fs st6 st' k"
    and "counter st6 = counter st + 1" and "visited st6 = Suc (visited st)"
    and "scored impl thr f"
  shows "halted_at impl thr t (f # fs) st st' (Suc k)"
proof (rule halted_atI)
  note h = halted_atD[OF assms(1)]
  show "visited st' = visited st + Suc k" using h(1) assms(3) by simp
  show "Suc k \<le> length (f # fs)" using h(2) by simp
  show "counter st' = counter st + int (length (filter (scored impl thr) (take (Suc k) (f # fs))))"
    using h(3) assms(2,4) by simp
  show "counter st' \<le> t" by (rule h(4))
  show "counter st' < t \<longrightarrow> Suc k = length (f # fs)" using h(5) by simp
  show "counter st' = t \<longrightarrow> 0 < Suc k \<and> scored impl thr ((f # fs) ! (Suc k - 1))"
  proof
    assume "counter st' = t"
    then have "0 < k" and "scored impl thr (fs ! (k - 1))" using h(6) by blast+
    then show "0 < Suc k \<and> scored impl thr ((f # fs) ! (Suc k - 1))"
      by (simp only: nth_Cons_pred zero_less_Suc simp_thms)
  qed
qed

lemma halted_at_stop:
  assumes "counter st6 = counter st + 1" and "visited st6 = Suc (visited st)"
    and "scored impl thr f" and "counter st < t" and "t \<le> counter st6"
  shows "halted_at impl thr t (f # fs) st st6 1"
proof (rule halted_atI)
  show "visited st6 = visited st + 1" using assms(2) by simp
  show "1 \<le> length (f # fs)" by simp
  show "counter st6 = counter st + int (length (filter (scored impl thr) (take 1 (f # fs))))"
    using assms(1,3) by simp
  show "counter st6 \<le> t" using assms(1,4) by simp
  show "counter st6 < t \<longrightarrow> 1 = length (f # fs)" using assms(5) by simp
  show "counter st6 = t \<longrightarrow> 0 < (1::nat) \<and> scored impl thr ((f # fs) ! (1 - 1))"
    using assms(3) by simp
qed

lemma detect_minimum_loop_halting:
  assumes "list_all (\<lambda>f. mol f \<noteq> None) fs" and "counter st < t"
  shows "\<exists>st' k. detect_minimum_loop impl thr t fs st = (Inr (), st')
           \<and> halted_at impl thr t fs st st' k"
  using assms
proof (induction fs arbitrary: st)
  case Nil
  have "halted_at impl thr t [] st st 0"
    by (rule halted_atI) (use Nil.prems(2) in simp_all)
  then show ?case by auto
next
  case (Cons f fs)
  from Cons.prems(1) obtain atoms where atoms: "mol f = Some atoms"
    and rest: "list_all (\<lambda>f. mol f \<noteq> None) fs"
    by auto
  show ?case
  proof (cases "scored impl thr f")
    case False
    obtain st1 where s1: "detect_minimum_loop impl thr t (f # fs) st = detect_minimum_loop impl thr t fs st1"
      and c1: "counter st1 = counter st" and v1: "visited st1 = Suc (visited st)"
      using loop_skip[OF atoms False] by blast
    have "counter st1 < t" using c1 Cons.prems(2) by simp
    from Cons.IH[OF rest this] obtain st' k where
      r: "detect_minimum_loop impl thr t fs st1 = (Inr (), st')"
      and h: "halted_at impl thr t fs st1 st' k"
      by blast
    have "detect_minimum_loop impl thr t (f # fs) st = (Inr (), st')"
      using s1 r by simp
    moreover have "halted_at impl thr t (f # fs) st st' (Suc k)"
      by (rule halted_at_skip[OF h c1 v1 False])
    ultimately show ?thesis by blast
  next
    case True
    obtain st6 where c6: "counter st6 = counter st + 1" and v6: "visited st6 = Suc (visited st)"
      and s6: "detect_minimum_loop impl thr t (f # fs) st
               = (if t \<le> counter st6 then (Inr (), st6) else detect_minimum_loop impl thr t fs st6)"
      using loop_score[OF True, of st t fs] by blast
    show ?thesis
    proof (cases "t \<le> counter st6")
      case stop: True
      have "detect_minimum_loop impl thr t (f # fs) st = (Inr (), st6)"
        using s6 stop by simp
      moreover have "halted_at impl thr t (f # fs) st st6 1"
        by (rule halted_at_stop[OF c6 v6 True Cons.prems(2) stop])
      ultimately show ?thesis by blast
    next
      case go: False
      then have lt: "counter st6 < t" by simp
      from Cons.IH[OF rest lt] obtain st' k where
        r: "detect_minimum_loop impl thr t fs st6 = (Inr (), st')"
        and h: "halted_at impl thr t fs st6 st' k"
        by blast
      have "detect_minimum_loop impl thr t (f # fs) st = (Inr (), st')"
        using s6 go r by simp
      moreover have "halted_at impl thr t (f # fs) st st' (Suc k)"
        by (rule halted_at_score[OF h c6 v6 True])
      ultimately show ?thesis by blast
    qed
  qed
qed

lemma run_detect_minimum_halting:
  assumes "list_all (\<lambda>f. mol f \<noteq> None) (inputs files)"
    and "nr_of_molecules_to_test (total_number_of_systems files) percentage = target"
    and "1 \<le> target"
  shows "\<exists>st. run_detect_minimum impl files percentage thr = (Inr (score st), st)
     \<and> visited st \<le> length (inputs files)
     \<and> counter st = int (length (filter (scored impl thr) (take (visited st) (inputs files))))
     \<and> counter st \<le> target
     \<and> (counter st < target \<longrightarrow> visited st = length (inputs files))
     \<and> (counter st = target \<longrightarrow> 0 < visited st \<and> scored impl thr (inputs files ! (visited st - 1)))"
proof -
  let ?st0 = "\<lparr>score = [], counter = 0, messages = []\<rparr>"
  have c0: "counter ?st0 < target" using assms(3) by simp
  have v0: "visited ?st0 = 0" by (simp add: visited_def)
  from detect_minimum_loop_halting[OF assms(1) c0, of impl thr] obtain st' k where
    r: "detect_minimum_loop impl thr target (inputs files) ?st0 = (Inr (), st')"
    and h: "halted_at impl thr target (inputs files) ?st0 st' k"
    by blast
  note hd = halted_atD[OF h]
  have vk: "visited st' = k" using hd(1) v0 by simp
  have run: "run_detect_minimum impl files percentage thr = (Inr (score st'), st')"
    using r assms(2) by (simp add: run_detect_minimum_def Let_def)
  have "visited st' \<le> length (inputs files)
     \<and> counter st' = int (length (filter (scored impl thr) (take (visited st') (inputs files))))
     \<and> counter st' \<le> target
     \<and> (counter st' < target \<longrightarrow> visited st' = length (inputs files))
     \<and> (counter st' = target \<longrightarrow> 0 < visited st' \<and> scored impl thr (inputs files ! (visited st' - 1)))"
  proof -
    have c: "counter st' = int (length (filter (scored impl thr) (take k (inputs files))))"
      using hd(3) by simp
    show ?thesis
      unfolding vk using hd(2) c hd(4) hd(5) hd(6) by (intro conjI)
  qed
  with run show ?thesis by (intro exI[of _ st'] conjI) blast+
qed

lemma targets:
  "nr_of_molecules_to_test 1 100 = 1"
  "nr_of_molecules_to_test 1 10 = 0"
  "nr_of_molecules_to_test 3 34 = 1"
  "nr_of_molecules_to_test 100 29 = 28"
  by code_simp+

lemma large_above: "above_threshold 20 (replicate 21 6)"
  by code_simp

lemma fixture_scored [simp]:
  "\<not> scored ani2x_elements 20 large_input"
  "scored ani2x_elements 20 methane_input"
  "scored ani2x_elements 20 water_input"
  by (simp_all add: scored_def large_input_def methane_input_def water_input_def large_above
      above_threshold_def heavy_atoms_def contains_unknown_elements_def ani2x_elements_def)

lemma fixture_mol [simp]:
  "mol large_input = Some (replicate 21 6)"
  "mol methane_input = Some [6, 1, 1, 1, 1]"
  "mol water_input = Some [8, 1, 1]"
  "mol no_molecule_input = None"
  by (simp_all add: large_input_def methane_input_def water_input_def no_molecule_input_def)

lemma run_detect_minimum_abort:
  assumes "inputs files = f # fs" and "mol f = None"
  shows "run_detect_minimum impl files percentage thr
           = (Inl AttributeError,
              \<lparr>score = [], counter = 0,
               messages =
                 [InfoMinimizationTest 0
                    (nr_of_molecules_to_test (total_number_of_systems files) percentage),
                  DebugNoMolecule (sdf_file_of (start_file f))]\<rparr>)"
  using assms(1) loop_abort[OF assms(2)]
  by (simp add: run_detect_minimum_def Let_def say_def)

lemma run_one_skipped:
  assumes "inputs files = [f]" and "mol f = Some atoms" and "\<not> scored impl thr f"
  shows "fst (run_detect_minimum impl files percentage thr) = Inr []"
    and "counter (snd (run_detect_minimum impl files percentage thr)) = 0"
proof -
  let ?t = "nr_of_molecules_to_test (total_number_of_systems files) percentage"
  let ?st0 = "\<lparr>score = [], counter = 0, messages = []\<rparr>"
  obtain st1 where s: "detect_minimum_loop impl thr ?t [f] ?st0 = detect_minimum_loop impl thr ?t [] st1"
    and c: "counter st1 = counter ?st0" and sc: "score st1 = score ?st0"
    using loop_skip[OF assms(2,3), of ?t "[]" ?st0] by blast
  have r: "run_detect_minimum impl files percentage thr = (Inr (score st1), st1)"
    using s assms(1) by (simp add: run_detect_minimum_def Let_def)
  show "fst (run_detect_minimum impl files percentage thr) = Inr []"
    using r sc by simp
  show "counter (snd (run_detect_minimum impl files percentage thr)) = 0"
    using r c by simp
qed

lemma run_one_scored_zero_target:
  assumes "inputs files = [f]" and "scored impl thr f"
    and "nr_of_molecules_to_test (total_number_of_systems files) percentage = 0"
  shows "counter (snd (run_detect_minimum impl files percentage thr)) = 1"
proof -
  let ?st0 = "\<lparr>score = [], counter = 0, messages = []\<rparr>"
  obtain st6 where c: "counter st6 = counter ?st0 + 1"
    and s: "detect_minimum_loop impl thr 0 [f] ?st0
               = (if 0 \<le> counter st6 then (Inr (), st6) else detect_minimum_loop impl thr 0 [] st6)"
    using loop_score[OF assms(2), of ?st0 0 "[]"] by blast
  have "detect_minimum_loop impl thr 0 [f] ?st0 = (Inr (), st6)"
    using s c by simp
  then have "run_detect_minimum impl files percentage thr = (Inr (score st6), st6)"
    using assms(1,3) by (simp add: run_detect_minimum_def Let_def)
  then show ?thesis using c by simp
qed


section \<open>Facts about the annealing stages\<close>

lemma linspace_10:
  "linspace 0 x 10
     = map (\<lambda>i. if i = 9 then x else float_of (of_nat i) * (x / float_of 9)) [0..<10]"
  by (rule nth_equalityI) (simp_all add: linspace_10_nth del: upt_Suc)

lemma annealing_temperatures_int:
  "annealing_temperatures (TInt t)
     = map (\<lambda>i. Kelvin (if i = 9 then float_of (of_int t)
                         else float_of (of_nat i) * (float_of (of_int t) / float_of 9))) [0..<10]"
  by (simp add: annealing_temperatures.simps linspace_10 del: upt_Suc)

lemma filter_barostat_stages [simp]:
  "filter is_barostat_update (concat (map (stage_events sim) temps)) = []"
  by (induction temps) (simp_all add: stage_events_def)

lemma stage_events_lambda:
  "stage_events sim = (\<lambda>temp. [Step sim 100, SetIntegratorTemperature sim temp])"
  by (simp add: fun_eq_iff stage_events_def)


section \<open>The temperature checks of the protocols\<close>

text \<open>
  Claim C5. When the temperature of the parameters passed to
  MultiTemperatureProtocol.perform\_stability\_test is not a list, the call raises
  RuntimeError and the world is the one it started in: no simulation was built, no position
  set, no step taken, and no object written to.
\<close>

theorem multi_temperature_scalar_is_fatal:
  assumes "\<not> isinstance_list (temperature (params_heap w parms))"
  shows "MultiTemperatureProtocol_perform_stability_test eng parms w = (Inl RuntimeError, w)"
  using assms
  by (cases "temperature (params_heap w parms)")
     (simp_all add: MultiTemperatureProtocol_perform_stability_test_def)

theorem multi_temperature_scalar_is_fatal_witness:
  "\<not> isinstance_list (temperature (params_heap (test_world waterbox_parameters) 0))
   \<and> MultiTemperatureProtocol_perform_stability_test test_engine 0 (test_world waterbox_parameters)
       = (Inl RuntimeError, test_world waterbox_parameters)"
proof -
  have h: "\<not> isinstance_list (temperature (params_heap (test_world waterbox_parameters) 0))"
    by (simp add: test_world_def waterbox_parameters_def)
  show ?thesis
    using h multi_temperature_scalar_is_fatal [OF h, of test_engine] by simp
qed

text \<open>
  Claim C10. PropagationProtocol.perform\_stability\_test raises AssertionError exactly when
  the temperature is not a Python int (a float such as 300.0 included), and then the world
  is the one it started in: the assertion is the first statement, before the log file name
  is suffixed and before any engine call.
\<close>

theorem propagation_accepts_only_int:
  "(\<not> isinstance_int (temperature (params_heap w parms)) \<longrightarrow>
      PropagationProtocol_perform_stability_test eng parms w = (Inl AssertionError, w))
   \<and> (isinstance_int (temperature (params_heap w parms)) \<longrightarrow>
      fst (PropagationProtocol_perform_stability_test eng parms w) \<noteq> Inl AssertionError)"
proof (cases "temperature (params_heap w parms)")
  case (TInt t)
  have "fst (PropagationProtocol_perform_stability_test eng parms w) \<noteq> Inl AssertionError"
    using TInt
    by (auto simp: PropagationProtocol_perform_stability_test_def Let_def
        split: prod.splits sum.splits dest: setup_simulation_error')
  then show ?thesis using TInt by simp
next
  case (TFloat x)
  then show ?thesis by (simp add: PropagationProtocol_perform_stability_test_def)
next
  case (TList ts)
  then show ?thesis by (simp add: PropagationProtocol_perform_stability_test_def)
qed

theorem propagation_accepts_only_int_witness:
  "PropagationProtocol_perform_stability_test test_engine 0
       (test_world (waterbox_parameters\<lparr>temperature := TFloat (float_of 300)\<rparr>))
     = (Inl AssertionError, test_world (waterbox_parameters\<lparr>temperature := TFloat (float_of 300)\<rparr>))
   \<and> fst (PropagationProtocol_perform_stability_test test_engine 0 (test_world waterbox_parameters))
       \<noteq> Inl AssertionError"
  using propagation_accepts_only_int
          [of "test_world (waterbox_parameters\<lparr>temperature := TFloat (float_of 300)\<rparr>)" 0 test_engine]
        propagation_accepts_only_int [of "test_world waterbox_parameters" 0 test_engine]
  by (simp add: test_world_def waterbox_parameters_def)

section \<open>The caller's parameters object\<close>

text \<open>
  Claim C7, as stated, fails: PropagationProtocol.perform\_stability\_test assigns the suffixed
  name to \<^verbatim>\<open>parms.log_file_name\<close>, which is the caller's own object. On the waterbox
  parameters at 300 the caller's log file name is \<^verbatim>\<open>waterbox_5A_NVT_300K_300\<close> afterwards.
\<close>

theorem propagation_mutates_caller_parameters:
  "params_heap (snd (PropagationProtocol_perform_stability_test test_engine 0
       (test_world waterbox_parameters))) 0 \<noteq> params_heap (test_world waterbox_parameters) 0
   \<and> log_file_name (params_heap (snd (PropagationProtocol_perform_stability_test test_engine 0
       (test_world waterbox_parameters))) 0) = ''waterbox_5A_NVT_300K_300''
   \<and> log_file_name (params_heap (test_world waterbox_parameters) 0) = ''waterbox_5A_NVT_300K''"
  by (simp add: propagation_params_after test_world_def waterbox_parameters_def
      vacuum_parameters_def str_int_300)


text \<open>
  Claim C7, amended. MultiTemperatureProtocol.perform\_stability\_test leaves every parameters
  object that existed before the call unchanged, the caller's included, whatever the
  outcome: the temperature and the suffixed log file name are written to the copies only.
  PropagationProtocol.perform\_stability\_test with an int temperature \<open>t\<close> overwrites the
  log file name of the caller's object with the name suffixed by \<open>_t\<close>, changes no other
  attribute of it, and changes no other parameters object.
\<close>

theorem parameters_mutation:
  "(parms < next_ref w \<longrightarrow>
      (\<forall>r < next_ref w.
         params_heap (snd (MultiTemperatureProtocol_perform_stability_test eng parms w)) r
           = params_heap w r))
   \<and> (\<forall>t. temperature (params_heap w parms) = TInt t \<longrightarrow>
        params_heap (snd (PropagationProtocol_perform_stability_test eng parms w)) parms
          = (params_heap w parms)\<lparr>log_file_name := log_file_name (params_heap w parms) @ ''_'' @ str_int t\<rparr>)
   \<and> (\<forall>r. r \<noteq> parms \<longrightarrow>
        params_heap (snd (PropagationProtocol_perform_stability_test eng parms w)) r = params_heap w r)"
proof (intro conjI allI impI)
  fix r assume "r < next_ref w"
  then show "params_heap (snd (MultiTemperatureProtocol_perform_stability_test eng parms w)) r
           = params_heap w r"
    by (cases "temperature (params_heap w parms)")
       (simp_all add: MultiTemperatureProtocol_perform_stability_test_def multi_temperature_loop_frame)
next
  fix t assume "temperature (params_heap w parms) = TInt t"
  then show "params_heap (snd (PropagationProtocol_perform_stability_test eng parms w)) parms
          = (params_heap w parms)\<lparr>log_file_name := log_file_name (params_heap w parms) @ ''_'' @ str_int t\<rparr>"
    by (simp add: propagation_params_after)
next
  fix r assume "r \<noteq> parms"
  then show "params_heap (snd (PropagationProtocol_perform_stability_test eng parms w)) r = params_heap w r"
    by (cases "temperature (params_heap w parms)") (simp_all add: propagation_params_after)
qed


theorem parameters_mutation_witness:
  "params_heap (snd (MultiTemperatureProtocol_perform_stability_test test_engine 0
       (test_world vacuum_parameters))) 0 = vacuum_parameters
   \<and> params_heap (snd (PropagationProtocol_perform_stability_test test_engine 0
       (test_world waterbox_parameters))) 0
       = waterbox_parameters\<lparr>log_file_name := ''waterbox_5A_NVT_300K_300''\<rparr>
   \<and> params_heap (snd (PropagationProtocol_perform_stability_test test_engine 0
       (test_world waterbox_parameters))) 1 = waterbox_parameters"
  using parameters_mutation [of 0 "test_world vacuum_parameters" test_engine]
        parameters_mutation [of 0 "test_world waterbox_parameters" test_engine]
  by (simp add: test_world_def waterbox_parameters_def str_int_300)


section \<open>Set-up with simulated annealing\<close>

text \<open>
  Claim C4 (the code departs from it in the npt ensemble). With simulated annealing enabled
  and any ensemble other than \<^verbatim>\<open>npt\<close>, \<^verbatim>\<open>_setup_simulation\<close> returns the simulation after
  ten stages, each of 100 steps followed by setting the integrator to the stage temperature;
  for an int temperature \<open>t\<close> the stage temperatures are those of \<^verbatim>\<open>np.linspace(0, t, 10)\<close>:
  \<open>i * (t / 9)\<close> for \<open>i\<close> from 0 to 8, the quotient and the product rounded in binary64, and
  \<open>t\<close> itself in the tenth stage.
  With the ensemble \<^verbatim>\<open>npt\<close> it raises NameError in the first stage: after the set-up events
  it has taken 100 steps and set the integrator to the first stage temperature, and nothing
  more, so stages two to ten never run. In no case is the barostat updated.
\<close>

theorem annealing_stages:
  assumes "anneals (params_heap w pr)"
  shows "(ensemble (params_heap w pr) \<noteq> Some ''npt'' \<longrightarrow>
           fst (setup_simulation eng pr tol m w) = Inr (next_ref w)
         \<and> events (snd (setup_simulation eng pr tol m w)) =
             events w @ setup_events (params_heap w pr) (next_ref w) tol m
               @ concat (map (\<lambda>temp. [Step (next_ref w) 100, SetIntegratorTemperature (next_ref w) temp])
                   (annealing_temperatures (temperature (params_heap w pr))))
         \<and> length (annealing_temperatures (temperature (params_heap w pr))) = 10
         \<and> (\<forall>t. temperature (params_heap w pr) = TInt t \<longrightarrow>
               annealing_temperatures (temperature (params_heap w pr))
                 = map (\<lambda>i. Kelvin (if i = 9 then float_of (of_int t)
                                     else float_of (of_nat i) * (float_of (of_int t) / float_of 9)))
                     [0..<10]))
    \<and> (ensemble (params_heap w pr) = Some ''npt'' \<longrightarrow>
           fst (setup_simulation eng pr tol m w) = Inl NameError
         \<and> events (snd (setup_simulation eng pr tol m w)) =
             events w @ setup_events (params_heap w pr) (next_ref w) tol m
               @ [Step (next_ref w) 100,
                  SetIntegratorTemperature (next_ref w)
                    (hd (annealing_temperatures (temperature (params_heap w pr))))])
    \<and> filter is_barostat_update (new_events w (snd (setup_simulation eng pr tol m w))) = []"
proof (cases "ensemble (params_heap w pr) = Some ''npt''")
  case True
  show ?thesis
    using True setup_simulation_npt[OF assms True, of eng tol m]
    by (simp add: new_events_def stage_events_def)
next
  case False
  have s: "(\<lambda>temp. [Step (next_ref w) 100, SetIntegratorTemperature (next_ref w) temp])
             = stage_events (next_ref w)"
    by (simp add: stage_events_def fun_eq_iff)
  show ?thesis
    using False setup_simulation_anneal[OF assms False, of eng tol m]
    by (simp add: new_events_def s annealing_temperatures_int)
qed


theorem annealing_stages_witness:
  "fst (setup_simulation test_engine 0 1 True (test_world annealing_npt_parameters)) = Inl NameError
   \<and> events (snd (setup_simulation test_engine 0 1 True (test_world annealing_npt_parameters))) =
       [CreateSimulation 1
          \<lparr>spec_system = 0, spec_topology = 0, spec_platform = 0, spec_temperature = TInt 300,
           spec_env = ''solution'', spec_device_index = 0, spec_ensemble = Some ''npt''\<rparr>,
        SetPositions 1 test_positions,
        MinimizeEnergy 1 1 1000,
        Step 1 100,
        SetIntegratorTemperature 1 (Kelvin 0)]
   \<and> fst (setup_simulation test_engine 0 1 True (test_world annealing_nvt_parameters)) = Inr 1
   \<and> filter is_Step (events (snd (setup_simulation test_engine 0 1 True
                                      (test_world annealing_nvt_parameters))))
       = replicate 10 (Step 1 100)
   \<and> last (events (snd (setup_simulation test_engine 0 1 True (test_world annealing_nvt_parameters))))
       = SetIntegratorTemperature 1 (Kelvin (float_of 300))"
proof -
  have a: "anneals (params_heap (test_world annealing_npt_parameters) 0)"
    by (simp add: annealing_npt_parameters_def anneals_def)
  have b: "anneals (params_heap (test_world annealing_nvt_parameters) 0)"
    by (simp add: annealing_nvt_parameters_def anneals_def)
  have npt: "ensemble annealing_npt_parameters = Some ''npt''"
    by (simp add: annealing_npt_parameters_def)
  have nvt: "ensemble annealing_nvt_parameters \<noteq> Some ''npt''"
    by (simp add: annealing_nvt_parameters_def waterbox_parameters_def vacuum_parameters_def)
  have t: "temperature annealing_nvt_parameters = TInt 300"
    by (simp add: annealing_nvt_parameters_def waterbox_parameters_def)
  note n = annealing_stages [OF a, of test_engine 1 True]
  note v = annealing_stages [OF b, of test_engine 1 True]
  have 1: "fst (setup_simulation test_engine 0 1 True (test_world annealing_npt_parameters)) = Inl NameError"
    using n npt by simp
  have 2: "events (snd (setup_simulation test_engine 0 1 True (test_world annealing_npt_parameters))) =
       [CreateSimulation 1
          \<lparr>spec_system = 0, spec_topology = 0, spec_platform = 0, spec_temperature = TInt 300,
           spec_env = ''solution'', spec_device_index = 0, spec_ensemble = Some ''npt''\<rparr>,
        SetPositions 1 test_positions,
        MinimizeEnergy 1 1 1000,
        Step 1 100,
        SetIntegratorTemperature 1 (Kelvin 0)]"
    using n npt
    by (simp add: annealing_npt_parameters_def waterbox_parameters_def vacuum_parameters_def
        setup_events_def)
  have 3: "fst (setup_simulation test_engine 0 1 True (test_world annealing_nvt_parameters)) = Inr 1"
    using v nvt by simp
  have ev: "events (snd (setup_simulation test_engine 0 1 True (test_world annealing_nvt_parameters)))
      = setup_events annealing_nvt_parameters 1 1 True
          @ concat (map (stage_events 1)
              (map (\<lambda>i. Kelvin (if i = 9 then float_of (of_int 300)
                                 else float_of (of_nat i) * (float_of (of_int 300) / float_of 9))) [0..<10]))"
    using v nvt t by (simp add: stage_events_lambda annealing_temperatures_int del: upt_Suc)
  have 4: "filter is_Step (events (snd (setup_simulation test_engine 0 1 True
                                      (test_world annealing_nvt_parameters))))
       = replicate 10 (Step 1 100)"
    unfolding ev
    using filter_Step_stages[of 1 "map (\<lambda>i. Kelvin (if i = 9 then float_of (of_int 300)
                                 else float_of (of_nat i) * (float_of (of_int 300) / float_of 9))) [0..<10]"]
    by (simp add: map_replicate_const del: upt_Suc)
  have 5: "last (events (snd (setup_simulation test_engine 0 1 True (test_world annealing_nvt_parameters))))
       = SetIntegratorTemperature 1 (Kelvin (float_of 300))"
    unfolding ev by (simp add: stage_events_def upt_conv_Cons setup_events_def)
  show ?thesis using 1 2 3 4 5 by (intro conjI)
qed
section \<open>The minimization protocol\<close>

text \<open>
  Claim C8 (the code departs from it on two inputs). Let \<open>p\<close> be the parameters object of a
  call of MinimizationProtocol.perform\_stability\_test, with \<open>minimize\<close> true or false.

  With annealing enabled and the ensemble \<^verbatim>\<open>npt\<close> the call raises NameError in the first
  annealing stage (the defect of C4): no state is read or returned and no snapshot is
  written.

  Otherwise set-up completes. The method then reads the state of the simulation and opens
  \<^verbatim>\<open>{output_folder}/{log_file_name}.pdb\<close>. It does not create the output folder, which
  \<^verbatim>\<open>_run_simulation\<close> does for the other protocols: when the folder does not exist the call
  raises FileNotFoundError after the state was read, and again no snapshot is written and
  nothing is returned.

  When the folder exists the call returns the state that the engine reported: the positions
  are those the engine produced from the positions of the testsystem by the minimization
  (when \<open>minimize\<close> is true) and the annealing stages (when enabled), the energy is the
  potential energy the engine reports for these positions, and the last event is the snapshot
  of these positions. The set-up contains no integration step other than the ten times 100
  steps of the annealing path, and one minimization when \<open>minimize\<close> is true and none
  otherwise; without minimization and annealing the positions are those of the testsystem.
\<close>

theorem minimization_protocol_result:
  assumes "params_heap w parms = p"
  shows "(anneals p \<and> ensemble p = Some ''npt'' \<longrightarrow>
            fst (MinimizationProtocol_perform_stability_test eng parms minimize w) = Inl NameError
          \<and> new_events w (snd (MinimizationProtocol_perform_stability_test eng parms minimize w))
              = setup_events p (next_ref w) (convergence_criteria p) minimize
                @ [Step (next_ref w) 100,
                   SetIntegratorTemperature (next_ref w) (hd (annealing_temperatures (temperature p)))])
    \<and> (\<not> (anneals p \<and> ensemble p = Some ''npt'') \<and> output_folder p \<notin> folders w \<longrightarrow>
            fst (MinimizationProtocol_perform_stability_test eng parms minimize w) = Inl FileNotFoundError
          \<and> new_events w (snd (MinimizationProtocol_perform_stability_test eng parms minimize w))
              = minimization_events p (next_ref w) minimize @ [GetState (next_ref w) True True])
    \<and> (\<not> (anneals p \<and> ensemble p = Some ''npt'') \<and> output_folder p \<in> folders w \<longrightarrow>
          (\<exists>ps. ps = replay eng (events w) (minimization_events p (next_ref w) minimize) []
             \<and> fst (MinimizationProtocol_perform_stability_test eng parms minimize w)
                 = Inr \<lparr>state_positions = Some ps,
                        state_energy = Some (potential_energy eng
                          (events w @ minimization_events p (next_ref w) minimize) ps)\<rparr>
             \<and> new_events w (snd (MinimizationProtocol_perform_stability_test eng parms minimize w))
                 = minimization_events p (next_ref w) minimize
                   @ [GetState (next_ref w) True True,
                      WritePDB (output_folder p @ ''/'' @ log_file_name p @ ''.pdb'')
                        (topology (testsystem p)) ps]
             \<and> (\<not> minimize \<and> \<not> anneals p \<longrightarrow> ps = positions (testsystem p))))
    \<and> filter is_Step (minimization_events p (next_ref w) minimize)
        = (if anneals p then replicate 10 (Step (next_ref w) 100) else [])
    \<and> filter is_MinimizeEnergy (minimization_events p (next_ref w) minimize)
        = (if minimize then [MinimizeEnergy (next_ref w) (convergence_criteria p) 1000] else [])"
proof (intro conjI impI)
  assume a: "anneals p \<and> ensemble p = Some ''npt''"
  then have a1: "anneals p" and a2: "ensemble p = Some ''npt''" by simp_all
  show "fst (MinimizationProtocol_perform_stability_test eng parms minimize w) = Inl NameError"
    by (rule minimization_npt(1)[OF a1 a2 assms])
  show "new_events w (snd (MinimizationProtocol_perform_stability_test eng parms minimize w))
              = setup_events p (next_ref w) (convergence_criteria p) minimize
                @ [Step (next_ref w) 100,
                   SetIntegratorTemperature (next_ref w) (hd (annealing_temperatures (temperature p)))]"
    unfolding new_events_def minimization_npt(2)[OF a1 a2 assms] by simp
next
  assume "\<not> (anneals p \<and> ensemble p = Some ''npt'') \<and> output_folder p \<notin> folders w"
  then have ok: "\<not> (anneals p \<and> ensemble p = Some ''npt'')" and no: "output_folder p \<notin> folders w"
    by simp_all
  note m = minimization_completes[OF ok assms, of eng minimize]
  show "fst (MinimizationProtocol_perform_stability_test eng parms minimize w) = Inl FileNotFoundError"
    unfolding m(1) using no by simp
  show "new_events w (snd (MinimizationProtocol_perform_stability_test eng parms minimize w))
              = minimization_events p (next_ref w) minimize @ [GetState (next_ref w) True True]"
    unfolding m(1) new_events_def using no m(2) by simp
next
  assume "\<not> (anneals p \<and> ensemble p = Some ''npt'') \<and> output_folder p \<in> folders w"
  then have ok: "\<not> (anneals p \<and> ensemble p = Some ''npt'')" and yes: "output_folder p \<in> folders w"
    by simp_all
  note m = minimization_completes[OF ok assms, of eng minimize]
  let ?tr = "minimization_events p (next_ref w) minimize"
  let ?ps = "replay eng (events w) ?tr []"
  have 1: "fst (MinimizationProtocol_perform_stability_test eng parms minimize w)
        = Inr \<lparr>state_positions = Some ?ps,
               state_energy = Some (potential_energy eng (events w @ ?tr) ?ps)\<rparr>"
    unfolding m(1) using yes by simp
  have 2: "new_events w (snd (MinimizationProtocol_perform_stability_test eng parms minimize w))
        = ?tr @ [GetState (next_ref w) True True,
                 WritePDB (output_folder p @ ''/'' @ log_file_name p @ ''.pdb'')
                   (topology (testsystem p)) ?ps]"
    unfolding m(1) new_events_def using yes m(2) by simp
  have 3: "\<not> minimize \<and> \<not> anneals p \<longrightarrow> ?ps = positions (testsystem p)"
    by (simp add: minimization_events_def replay_setup_events)
  show "\<exists>ps. ps = replay eng (events w) (minimization_events p (next_ref w) minimize) []
             \<and> fst (MinimizationProtocol_perform_stability_test eng parms minimize w)
                 = Inr \<lparr>state_positions = Some ps,
                        state_energy = Some (potential_energy eng
                          (events w @ minimization_events p (next_ref w) minimize) ps)\<rparr>
             \<and> new_events w (snd (MinimizationProtocol_perform_stability_test eng parms minimize w))
                 = minimization_events p (next_ref w) minimize
                   @ [GetState (next_ref w) True True,
                      WritePDB (output_folder p @ ''/'' @ log_file_name p @ ''.pdb'')
                        (topology (testsystem p)) ps]
             \<and> (\<not> minimize \<and> \<not> anneals p \<longrightarrow> ps = positions (testsystem p))"
    using 1 2 3 by (intro exI[of _ ?ps] conjI) simp_all
next
  show "filter is_Step (minimization_events p (next_ref w) minimize)
        = (if anneals p then replicate 10 (Step (next_ref w) 100) else [])"
    by (rule filter_Step_minimization_events)
  show "filter is_MinimizeEnergy (minimization_events p (next_ref w) minimize)
        = (if minimize then [MinimizeEnergy (next_ref w) (convergence_criteria p) 1000] else [])"
    by (rule filter_Minimize_minimization_events)
qed

theorem minimization_protocol_result_witness:
  "fst (MinimizationProtocol_perform_stability_test test_engine 0 True
          (test_world annealing_npt_parameters)) = Inl NameError
   \<and> concat (map written_pdb
        (events (snd (MinimizationProtocol_perform_stability_test test_engine 0 True
                        (test_world annealing_npt_parameters))))) = []
   \<and> fst (MinimizationProtocol_perform_stability_test test_engine 0 False
            (test_world waterbox_parameters)) = Inl FileNotFoundError
   \<and> events (snd (MinimizationProtocol_perform_stability_test test_engine 0 False
                    (test_world waterbox_parameters)))
       = [CreateSimulation 1
            \<lparr>spec_system = 0, spec_topology = 0, spec_platform = 0, spec_temperature = TInt 300,
             spec_env = ''solution'', spec_device_index = 0, spec_ensemble = Some ''NVT''\<rparr>,
          SetPositions 1 test_positions,
          GetState 1 True True]
   \<and> fst (MinimizationProtocol_perform_stability_test test_engine 0 False
            ((test_world waterbox_parameters)\<lparr>folders := {''test_stability_protocol''}\<rparr>))
       = Inr \<lparr>state_positions = Some test_positions, state_energy = Some 0\<rparr>
   \<and> last (events (snd (MinimizationProtocol_perform_stability_test test_engine 0 False
            ((test_world waterbox_parameters)\<lparr>folders := {''test_stability_protocol''}\<rparr>))))
       = WritePDB ''test_stability_protocol/waterbox_5A_NVT_300K.pdb'' 0 test_positions"
proof -
  let ?wn = "test_world annealing_npt_parameters"
  let ?w0 = "test_world waterbox_parameters"
  let ?w1 = "(test_world waterbox_parameters)\<lparr>folders := {''test_stability_protocol''}\<rparr>"
  have pn: "params_heap ?wn 0 = annealing_npt_parameters"
    and p0: "params_heap ?w0 0 = waterbox_parameters"
    and p1: "params_heap ?w1 0 = waterbox_parameters"
    by simp_all
  have an: "anneals annealing_npt_parameters \<and> ensemble annealing_npt_parameters = Some ''npt''"
    by (simp add: anneals_def annealing_npt_parameters_def)
  have a0: "\<not> anneals waterbox_parameters"
    by (simp add: anneals_def waterbox_parameters_def vacuum_parameters_def)
  have f0: "output_folder waterbox_parameters \<notin> folders ?w0"
    by simp
  have f1: "output_folder waterbox_parameters \<in> folders ?w1"
    by (simp add: waterbox_parameters_def vacuum_parameters_def)
  have tr: "minimization_events waterbox_parameters (Suc 0) False
      = [CreateSimulation (Suc 0)
            \<lparr>spec_system = 0, spec_topology = 0, spec_platform = 0, spec_temperature = TInt 300,
             spec_env = ''solution'', spec_device_index = 0, spec_ensemble = Some ''NVT''\<rparr>,
          SetPositions (Suc 0) test_positions]"
    using a0 by (simp add: minimization_events_def setup_events_def waterbox_parameters_def
        vacuum_parameters_def)
  note n = minimization_protocol_result [OF pn, of test_engine True]
  note a = minimization_protocol_result [OF p0, of test_engine False]
  note b = minimization_protocol_result [OF p1, of test_engine False]
  have 1: "fst (MinimizationProtocol_perform_stability_test test_engine 0 True ?wn) = Inl NameError"
    using n an by simp
  have 2: "concat (map written_pdb
        (events (snd (MinimizationProtocol_perform_stability_test test_engine 0 True ?wn)))) = []"
    using n an by (simp add: new_events_def setup_events_def)
  have 3: "fst (MinimizationProtocol_perform_stability_test test_engine 0 False ?w0)
        = Inl FileNotFoundError"
    using a a0 f0 by simp
  have 4: "events (snd (MinimizationProtocol_perform_stability_test test_engine 0 False ?w0))
       = [CreateSimulation 1
            \<lparr>spec_system = 0, spec_topology = 0, spec_platform = 0, spec_temperature = TInt 300,
             spec_env = ''solution'', spec_device_index = 0, spec_ensemble = Some ''NVT''\<rparr>,
          SetPositions 1 test_positions,
          GetState 1 True True]"
    using a a0 f0 by (simp add: new_events_def tr)
  have ps: "replay test_engine [] (minimization_events waterbox_parameters (Suc 0) False) [] = test_positions"
    unfolding tr by simp
  have 5: "fst (MinimizationProtocol_perform_stability_test test_engine 0 False ?w1)
       = Inr \<lparr>state_positions = Some test_positions, state_energy = Some 0\<rparr>"
    using b a0 f1 ps by (simp add: test_engine_def)
  have 6: "last (events (snd (MinimizationProtocol_perform_stability_test test_engine 0 False ?w1)))
       = WritePDB ''test_stability_protocol/waterbox_5A_NVT_300K.pdb'' 0 test_positions"
    using b a0 f1 ps
    by (simp add: new_events_def tr waterbox_parameters_def vacuum_parameters_def)
  show ?thesis using 1 2 3 4 5 6 by (intro conjI)
qed

section \<open>The multi-temperature protocol\<close>

text \<open>
  Claim C3, as stated, fails in its uniqueness part: the output name is a function of the
  temperature alone, so a temperature that occurs twice in the list gives two runs with
  the same name. For the list 300, 300 both runs write
  \<^verbatim>\<open>vacuum_ZINC00107550_300K.pdb\<close>.
\<close>

theorem repeated_temperature_repeats_name:
  "concat (map written_pdb (new_events (test_world (vacuum_parameters\<lparr>temperature := TList [300, 300]\<rparr>))
      (snd (MultiTemperatureProtocol_perform_stability_test test_engine 0
              (test_world (vacuum_parameters\<lparr>temperature := TList [300, 300]\<rparr>))))))
     = [''test_stability_protocol/vacuum_ZINC00107550_300K.pdb'',
        ''test_stability_protocol/vacuum_ZINC00107550_300K.pdb'']
   \<and> \<not> distinct (concat (map written_pdb
      (new_events (test_world (vacuum_parameters\<lparr>temperature := TList [300, 300]\<rparr>))
      (snd (MultiTemperatureProtocol_perform_stability_test test_engine 0
              (test_world (vacuum_parameters\<lparr>temperature := TList [300, 300]\<rparr>)))))))"
proof -
  let ?p = "vacuum_parameters\<lparr>temperature := TList [300, 300]\<rparr>"
  have a: "0 < next_ref (test_world ?p)" by simp
  have b: "params_heap (test_world ?p) 0 = ?p" by simp
  have c: "temperature ?p = TList [300, 300]" by simp
  have d: "\<not> (anneals ?p \<and> ensemble ?p = Some ''npt'')"
    by (simp add: anneals_def vacuum_parameters_def)
  show ?thesis
    unfolding multi_temperature_protocol_events(2)[OF a b c d]
    by (simp add: multi_events_project vacuum_parameters_def str_int_300)
qed


text \<open>
  Claim C3, amended. For a temperature list \<open>ts\<close>, and unless annealing is enabled together
  with the npt ensemble (the case of C4), MultiTemperatureProtocol.perform\_stability\_test
  returns after exactly one run per entry of \<open>ts\<close>, in list order: its trace is
  \<open>multi_events\<close>, so the simulations are created for the temperatures \<open>ts\<close> in order, each
  run on a simulation of its own, each with the parameters of a copy in which the temperature
  is substituted and the name suffixed by the temperature followed by K; no set-up
  minimizes. The names of the runs are pairwise distinct exactly when the temperatures are.
\<close>

theorem multi_temperature_runs:
  assumes "parms < next_ref w"
    and "params_heap w parms = p"
    and "temperature p = TList ts"
    and "\<not> (anneals p \<and> ensemble p = Some ''npt'')"
  shows "\<exists>w'. MultiTemperatureProtocol_perform_stability_test eng parms w = (Inr (), w')
    \<and> new_events w w'
        = multi_events p (rep_reportInterval (reporter_heap w (state_data_reporter p))) (next_ref w) ts
    \<and> concat (map created_temperature (new_events w w')) = map TInt ts
    \<and> concat (map created_simulation (new_events w w'))
        = map (\<lambda>i. next_ref w + 2 * i + 1) [0..<length ts]
    \<and> distinct (concat (map created_simulation (new_events w w')))
    \<and> concat (map written_pdb (new_events w w'))
        = map (\<lambda>t. output_folder p @ ''/'' @ log_file_name p @ ''_'' @ str_int t @ ''K'' @ ''.pdb'') ts
    \<and> filter is_MinimizeEnergy (new_events w w') = []
    \<and> (distinct (map (\<lambda>t. log_file_name p @ ''_'' @ str_int t @ ''K'') ts) \<longleftrightarrow> distinct ts)"
proof -
  let ?r = "MultiTemperatureProtocol_perform_stability_test eng parms w"
  have "?r = (Inr (), snd ?r)"
    using multi_temperature_protocol_events(1)[OF assms, of eng] by (simp add: prod_eq_iff)
  moreover note ev = multi_temperature_protocol_events(2)[OF assms, of eng]
  ultimately show ?thesis
    using ev distinct_names[of "log_file_name p" ts]
    by (intro exI[of _ "snd ?r"]) (simp add: multi_events_project distinct_map inj_on_def)
qed


theorem multi_temperature_runs_witness:
  "\<exists>w'. MultiTemperatureProtocol_perform_stability_test test_engine 0 (test_world vacuum_parameters)
          = (Inr (), w')
    \<and> concat (map created_temperature (new_events (test_world vacuum_parameters) w'))
        = [TInt 300, TInt 400]
    \<and> concat (map created_simulation (new_events (test_world vacuum_parameters) w')) = [2, 4]
    \<and> concat (map written_pdb (new_events (test_world vacuum_parameters) w'))
        = [''test_stability_protocol/vacuum_ZINC00107550_300K.pdb'',
           ''test_stability_protocol/vacuum_ZINC00107550_400K.pdb'']
    \<and> filter is_MinimizeEnergy (new_events (test_world vacuum_parameters) w') = []"
proof -
  have a: "0 < next_ref (test_world vacuum_parameters)" by simp
  have b: "params_heap (test_world vacuum_parameters) 0 = vacuum_parameters" by simp
  have c: "temperature vacuum_parameters = TList [300, 400]"
    by (simp add: vacuum_parameters_def)
  have d: "\<not> (anneals vacuum_parameters \<and> ensemble vacuum_parameters = Some ''npt'')"
    by (simp add: anneals_def vacuum_parameters_def)
  obtain w' where w': "MultiTemperatureProtocol_perform_stability_test test_engine 0 (test_world vacuum_parameters)
          = (Inr (), w')"
    and t: "concat (map created_temperature (new_events (test_world vacuum_parameters) w'))
        = map TInt [300, 400]"
    and s: "concat (map created_simulation (new_events (test_world vacuum_parameters) w'))
        = map (\<lambda>i. next_ref (test_world vacuum_parameters) + 2 * i + 1) [0..<length [300, 400 :: int]]"
    and f: "concat (map written_pdb (new_events (test_world vacuum_parameters) w'))
        = map (\<lambda>t. output_folder vacuum_parameters @ ''/'' @ log_file_name vacuum_parameters
                  @ ''_'' @ str_int t @ ''K'' @ ''.pdb'') [300, 400]"
    and m: "filter is_MinimizeEnergy (new_events (test_world vacuum_parameters) w') = []"
    using multi_temperature_runs [OF a b c d, of test_engine] by blast
  have s': "concat (map created_simulation (new_events (test_world vacuum_parameters) w')) = [2, 4]"
    unfolding s by (simp add: upt_conv_Cons)
  have f': "concat (map written_pdb (new_events (test_world vacuum_parameters) w'))
        = [''test_stability_protocol/vacuum_ZINC00107550_300K.pdb'',
           ''test_stability_protocol/vacuum_ZINC00107550_400K.pdb'']"
    unfolding f by (simp add: vacuum_parameters_def str_int_300 str_int_400)
  show ?thesis using w' t s' f' m by simp
qed

section \<open>The bond scan\<close>

text \<open>
  Claim C1, as stated, fails: the lengths are in non-decreasing order only for a maximum
  stretch that is not negative. perform\_DOF\_scan accepts a negative maximum, and the scan
  with the maximum \<open>-1\<close> starts at length 0 and ends at length \<open>-1\<close>.
\<close>

theorem bond_scan_lengths_decrease:
  "scan_lengths (fst (perform_DOF_scan test_engine 1 negative_scan (test_world waterbox_parameters))) ! 0
     = 0
   \<and> scan_lengths (fst (perform_DOF_scan test_engine 1 negative_scan (test_world waterbox_parameters))) ! 99
     = - 1
   \<and> \<not> sorted (scan_lengths
          (fst (perform_DOF_scan test_engine 1 negative_scan (test_world waterbox_parameters))))"
proof -
  let ?r = "fst (perform_DOF_scan test_engine 1 negative_scan (test_world waterbox_parameters))"
  have b: "bond negative_scan = [0, 3]"
    and ps: "positions (dof_testsystem negative_scan) = test_positions"
    and m: "bond_length_max negative_scan = - 1"
    by (simp_all add: negative_scan_def ethanol_scan_def)
  have l: "scan_lengths ?r = linspace 0 (- 1) 100"
    using perform_DOF_scan_eq(1)
      [OF b ps norm_index_4(1)[folded test_positions_sel(1)] norm_index_4(2)[folded test_positions_sel(1)]
          test_positions_sel(2) test_positions_sel(3) test_atoms_differ,
        of test_engine 1 "test_world waterbox_parameters"]
    by (simp add: m)
  have l0: "scan_lengths ?r ! 0 = 0" and l99: "scan_lengths ?r ! 99 = - 1"
    unfolding l by (simp_all add: linspace_100_nth)
  have neg: "\<not> (0 :: float64) \<le> - 1"
    by transfer simp
  have n: "length (scan_lengths ?r) = 100"
    unfolding l by simp
  have k: "99 < length (scan_lengths ?r)"
    unfolding n by simp
  have "\<not> sorted (scan_lengths ?r)"
  proof
    assume s: "sorted (scan_lengths ?r)"
    have "scan_lengths ?r ! 0 \<le> scan_lengths ?r ! 99"
      by (rule sorted_nth_mono[OF s _ k]) simp
    then show False unfolding l0 l99 using neg by simp
  qed
  then show ?thesis using l0 l99 by (intro conjI)
qed


text \<open>
  Claim C1, amended. For a bond whose two atom indices are in range and whose atoms are at
  different (finite) positions \<open>p1\<close> and \<open>p2\<close>, and a maximum stretch \<open>M\<close>, perform\_DOF\_scan
  returns 100 samples. Their lengths are those of \<^verbatim>\<open>np.linspace(0, M, 100)\<close>: 0 first, \<open>M\<close>
  itself last, and \<open>i * (M / 99)\<close> in between, the quotient and the product rounded in
  binary64. They are in non-decreasing order when \<open>M\<close> is not negative and in non-increasing
  order when \<open>M\<close> is not positive. In sample \<open>i\<close> the second atom of the bond is at
  \<open>p1 + u * L\<close>, where \<open>L\<close> is the length of the sample and \<open>u\<close> is the difference \<open>p2 - p1\<close>
  divided by its norm, computed in the positions the scan was given, every operation
  rounded; every other atom is where it was in those positions. The engine is called twice
  per sample, to set the positions and to read the state: it never minimizes and never steps.
  The conformations returned are the geometries that were set, and the energies are those
  the engine reports for them in turn.
\<close>

theorem bond_scan_samples:
  assumes "bond parameters = [atom1, atom2]"
    and "positions (dof_testsystem parameters) = ps"
    and "bond_length_max parameters = M"
    and "norm_index (length ps) atom1 = Inr k1"
    and "norm_index (length ps) atom2 = Inr k2"
    and "ps ! k1 = Some p1" and "ps ! k2 = Some p2" and "p1 \<noteq> p2"
  shows "\<exists>energies conformations lengths w'.
      perform_DOF_scan eng sim parameters w = (Inr (energies, conformations, lengths), w')
    \<and> length lengths = 100 \<and> length conformations = 100 \<and> length energies = 100
    \<and> (\<forall>i<100. lengths ! i = (if i = 99 then M else float_of (of_nat i) * (M / float_of 99)))
    \<and> lengths ! 0 = 0 \<and> lengths ! 99 = M
    \<and> (0 \<le> M \<longrightarrow> sorted lengths)
    \<and> (M \<le> 0 \<longrightarrow> sorted (rev lengths))
    \<and> direction p1 p2 = vdiv (vsub p2 p1) (vnorm (vsub p2 p1))
    \<and> 0 < vnorm (vsub p2 p1)
    \<and> (\<forall>i<100. conformations ! i ! k2 = Some (vadd p1 (vscale (direction p1 p2) (lengths ! i))))
    \<and> (\<forall>i<100. \<forall>k. k \<noteq> k2 \<longrightarrow> conformations ! i ! k = ps ! k)
    \<and> (\<forall>i<100. length (conformations ! i) = length ps)
    \<and> conformations = map (stretched ps k2 p1 (direction p1 p2)) lengths
    \<and> energies = scan_energies eng sim (stretched ps k2 p1 (direction p1 p2)) (events w) lengths
    \<and> new_events w w'
        = concat (map (\<lambda>len. [SetPositions sim (ps[k2 := Some (vadd p1 (vscale (direction p1 p2) len))]),
                               GetState sim True True]) lengths)
    \<and> filter is_MinimizeEnergy (new_events w w') = []
    \<and> filter is_Step (new_events w w') = []"
proof -
  let ?f = "stretched ps k2 p1 (direction p1 p2)"
  let ?ls = "linspace 0 M 100"
  let ?r = "perform_DOF_scan eng sim parameters w"
  note eq = perform_DOF_scan_eq[OF assms(1,2,4-8), where eng=eng and sim=sim and w=w, unfolded assms(3)]
  have res: "?r = (Inr (scan_energies eng sim ?f (events w) ?ls, map ?f ?ls, ?ls), snd ?r)"
    using eq(1) by (simp add: prod_eq_iff)
  have k2: "k2 < length ps"
    using assms(5) by (rule norm_index_less)
  have c2: "\<forall>i<100. map ?f ?ls ! i ! k2 = Some (vadd p1 (vscale (direction p1 p2) (?ls ! i)))"
    using k2 by (simp add: stretched_atom2)
  have co: "\<forall>i<100. \<forall>k. k \<noteq> k2 \<longrightarrow> map ?f ?ls ! i ! k = ps ! k"
    by (simp add: stretched_other)
  have cl: "\<forall>i<100. length (map ?f ?ls ! i) = length ps"
    by (simp add: stretched_def)
  have ev: "new_events w (snd ?r)
        = concat (map (\<lambda>len. [SetPositions sim (ps[k2 := Some (vadd p1 (vscale (direction p1 p2) len))]),
                               GetState sim True True]) ?ls)"
    using eq(2) by (simp add: sample_events_def stretched_def)
  have nm: "filter is_MinimizeEnergy (new_events w (snd ?r)) = []"
    and ns: "filter is_Step (new_events w (snd ?r)) = []"
    unfolding eq(2) by simp_all
  have ln: "\<forall>i<100. ?ls ! i = (if i = 99 then M else float_of (of_nat i) * (M / float_of 99))"
    by (simp add: linspace_100_nth)
  have l0: "?ls ! 0 = 0" and l99: "?ls ! 99 = M"
    by (simp_all add: linspace_100_nth)
  have up: "0 \<le> M \<longrightarrow> sorted ?ls" and down: "M \<le> 0 \<longrightarrow> sorted (rev ?ls)"
    by (simp_all add: linspace_100_sorted linspace_100_rev_sorted)
  have d: "direction p1 p2 = vdiv (vsub p2 p1) (vnorm (vsub p2 p1))"
    by (simp add: direction_def)
  have n: "0 < vnorm (vsub p2 p1)"
    using vnorm_pos[of "vsub p2 p1"] assms(8) by (simp add: vsub_eq_0_iff)
  have len: "length ?ls = 100" "length (map ?f ?ls) = 100"
    "length (scan_energies eng sim ?f (events w) ?ls) = 100"
    by simp_all
  show ?thesis
    by (intro exI[of _ "scan_energies eng sim ?f (events w) ?ls"] exI[of _ "map ?f ?ls"]
        exI[of _ ?ls] exI[of _ "snd ?r"] conjI)
       (fact res len ln l0 l99 up down d n c2 co cl ev nm ns | rule refl)+
qed

theorem bond_scan_samples_witness:
  "\<exists>energies conformations lengths w'.
      perform_DOF_scan test_engine 1 ethanol_scan (test_world waterbox_parameters)
        = (Inr (energies, conformations, lengths), w')
    \<and> length lengths = 100 \<and> lengths ! 0 = 0
    \<and> val (lengths ! 33) = 7505999378950827 / 2251799813685248
    \<and> lengths ! 99 = float_of 10
    \<and> sorted lengths
    \<and> conformations ! 33 ! 3 = Some (float_of 2, float_of (3002399751580331 / 1125899906842624), 0)
    \<and> conformations ! 99 ! 3 = Some (float_of 6, float_of 8, 0)
    \<and> conformations ! 99 ! 0 = Some (0, 0, 0)
    \<and> filter is_MinimizeEnergy (new_events (test_world waterbox_parameters) w') = []"
proof -
  have m: "(0 :: float64) \<le> float_of 10"
    by transfer simp
  obtain energies conformations lengths w' where
    r: "perform_DOF_scan test_engine 1 ethanol_scan (test_world waterbox_parameters)
        = (Inr (energies, conformations, lengths), w')"
    and n: "length lengths = 100"
    and l: "\<forall>i<100. lengths ! i
              = (if i = 99 then float_of 10 else float_of (of_nat i) * (float_of 10 / float_of 99))"
    and s: "0 \<le> float_of 10 \<longrightarrow> sorted lengths"
    and c: "\<forall>i<100. conformations ! i ! 3
              = Some (vadd (0, 0, 0)
                   (vscale (direction (0, 0, 0) (float_of 3, float_of 4, 0)) (lengths ! i)))"
    and o: "\<forall>i<100. \<forall>k. k \<noteq> 3 \<longrightarrow> conformations ! i ! k = test_positions ! k"
    and e: "filter is_MinimizeEnergy (new_events (test_world waterbox_parameters) w') = []"
    using bond_scan_samples
      [OF ethanol_scan_sel(1) ethanol_scan_sel(2) ethanol_scan_sel(3)
          norm_index_4(1)[folded test_positions_sel(1)] norm_index_4(2)[folded test_positions_sel(1)]
          test_positions_sel(2) test_positions_sel(3) test_atoms_differ,
        of test_engine 1 "test_world waterbox_parameters"]
    by blast
  have l0: "lengths ! 0 = 0" and l99: "lengths ! 99 = float_of 10"
    using l[rule_format, of 0] l[rule_format, of 99] by simp_all
  have l33: "lengths ! 33 = float_of 33 * (float_of 10 / float_of 99)"
    using l[rule_format, of 33] by simp
  have v33: "val (lengths ! 33) = 7505999378950827 / 2251799813685248"
    unfolding l33 by (rule sample_33)
  have c33: "conformations ! 33 ! 3
      = Some (float_of 2, float_of (3002399751580331 / 1125899906842624), 0)"
    using c[rule_format, of 33] unfolding l33 direction_test by (simp add: stretched_33)
  have c99: "conformations ! 99 ! 3 = Some (float_of 6, float_of 8, 0)"
    using c[rule_format, of 99] unfolding l99 direction_test by (simp add: stretched_99)
  have o99: "conformations ! 99 ! 0 = Some (0, 0, 0)"
    using o[rule_format, of 99 0] by simp
  have s': "sorted lengths" using s m by simp
  show ?thesis using r n l0 v33 l99 s' c33 c99 o99 e by blast
qed







section \<open>The minimization benchmark\<close>

text \<open>
  Claim C2, as stated, fails. The loop also ends when the file list is exhausted: with one
  file, 100 percent and a molecule of 21 heavy atoms the pipeline returns with the counter
  at 0, below the target 1. The target is compared only after a molecule has been scored:
  with one file and 10 percent the target is 0, and the pipeline scores the molecule and
  returns with the counter at 1. And the target is computed in double precision: for 100
  files and 29 percent the quotient 0.29 and the product are rounded, and the target is 28.
\<close>

theorem benchmark_halts_off_target:
  "fst (run_detect_minimum ani2x_elements \<lparr>total_number_of_systems = 1, inputs = [large_input]\<rparr> 100 20)
     = Inr []
   \<and> counter (snd (run_detect_minimum ani2x_elements
                      \<lparr>total_number_of_systems = 1, inputs = [large_input]\<rparr> 100 20)) = 0
   \<and> \<lfloor>(1 :: rat) * 100 / 100\<rfloor> = 1
   \<and> counter (snd (run_detect_minimum ani2x_elements
                      \<lparr>total_number_of_systems = 1, inputs = [methane_input]\<rparr> 10 20)) = 1
   \<and> \<lfloor>(1 :: rat) * 10 / 100\<rfloor> = 0
   \<and> nr_of_molecules_to_test 100 29 = 28
   \<and> \<lfloor>(100 :: rat) * 29 / 100\<rfloor> = 29"
proof -
  let ?a = "\<lparr>total_number_of_systems = 1, inputs = [large_input]\<rparr>"
  let ?b = "\<lparr>total_number_of_systems = 1, inputs = [methane_input]\<rparr>"
  have a: "inputs ?a = [large_input]" by simp
  have b: "inputs ?b = [methane_input]" by simp
  have t: "nr_of_molecules_to_test (total_number_of_systems ?b) 10 = 0"
    using targets(2) by simp
  have f: "\<lfloor>(1 :: rat) * 10 / 100\<rfloor> = 0"
    by (rule floor_unique) simp_all
  show ?thesis
    using run_one_skipped[OF a fixture_mol(1) fixture_scored(1), of 100]
          run_one_scored_zero_target[OF b fixture_scored(2) t]
          f targets(4)
    by simp
qed


text \<open>
  Claim C2, amended. Let the target be \<^verbatim>\<open>int(total_count * (percentage / 100))\<close> as the code
  computes it, and let it be at least 1; let a molecule be generated for every file. Then the
  pipeline returns the scores, and it stops at the first of two moments: right after the
  molecule whose scoring brings the success counter to the target (later files are not
  started on), or at the end of the file list with the counter below the target. The counter
  is the number of scored molecules among the files the loop started on, so a skipped
  molecule (too many heavy atoms, an unknown element, or a failed topology construction)
  never increments it.
\<close>

theorem benchmark_halting:
  assumes "list_all (\<lambda>f. mol f \<noteq> None) (inputs files)"
    and "nr_of_molecules_to_test (total_number_of_systems files) percentage = target"
    and "1 \<le> target"
  shows "\<exists>st. run_detect_minimum impl files percentage thr = (Inr (score st), st)
     \<and> visited st \<le> length (inputs files)
     \<and> counter st = int (length (filter (scored impl thr) (take (visited st) (inputs files))))
     \<and> counter st \<le> target
     \<and> (counter st < target \<longrightarrow> visited st = length (inputs files))
     \<and> (counter st = target \<longrightarrow> 0 < visited st \<and> scored impl thr (inputs files ! (visited st - 1)))"
  by (rule run_detect_minimum_halting[OF assms])


theorem benchmark_halting_witness:
  "\<exists>st. run_detect_minimum ani2x_elements benchmark_files 34 20 = (Inr (score st), st)
     \<and> counter st = 1 \<and> visited st = 2"
proof -
  have i: "inputs benchmark_files = [large_input, methane_input, water_input]"
    by (simp add: benchmark_files_def)
  have a: "list_all (\<lambda>f. mol f \<noteq> None) (inputs benchmark_files)"
    unfolding i by simp
  have b: "nr_of_molecules_to_test (total_number_of_systems benchmark_files) 34 = 1"
    using targets(3) by (simp add: benchmark_files_def)
  have c: "(1 :: int) \<le> 1" by simp
  obtain st where r: "run_detect_minimum ani2x_elements benchmark_files 34 20 = (Inr (score st), st)"
    and v: "visited st \<le> length (inputs benchmark_files)"
    and n: "counter st = int (length (filter (scored ani2x_elements 20) (take (visited st) (inputs benchmark_files))))"
    and le: "counter st \<le> 1"
    and ex: "counter st < 1 \<longrightarrow> visited st = length (inputs benchmark_files)"
    and hit: "counter st = 1 \<longrightarrow> 0 < visited st
                \<and> scored ani2x_elements 20 (inputs benchmark_files ! (visited st - 1))"
    using benchmark_halting [OF a b c, of ani2x_elements 20] by blast
  have "visited st \<le> 3" using v unfolding i by simp
  then consider "visited st = 0" | "visited st = 1" | "visited st = 2" | "visited st = 3"
    by linarith
  then have "counter st = 1 \<and> visited st = 2"
  proof cases
    case 1
    then have "counter st = 0" using n by simp
    then show ?thesis using ex 1 unfolding i by simp
  next
    case 2
    then have "counter st = 0" using n unfolding i by simp
    then show ?thesis using ex 2 unfolding i by simp
  next
    case 3
    then have "counter st = 1" using n unfolding i by (simp add: numeral_2_eq_2)
    then show ?thesis using 3 by simp
  next
    case 4
    then have "counter st = 2" using n unfolding i by simp
    then show ?thesis using le by simp
  qed
  with r show ?thesis by blast
qed

text \<open>
  Claim C6 (the code departs from it). When \<^verbatim>\<open>generate_molecule_from_sdf\<close> gives no molecule
  for a file, the code logs that at debug level and goes on to \<^verbatim>\<open>_above_threshold(mol)\<close>,
  which fails with AttributeError: the pipeline aborts with nothing scored, and the files that
  follow are never started on. Only the ValueError of the topology construction is caught
  and skipped (\<open>loop_skip\<close>).
\<close>

theorem missing_molecule_aborts:
  assumes "inputs files = f # fs" and "mol f = None"
  shows "fst (run_detect_minimum impl files percentage thr) = Inl AttributeError
    \<and> score (snd (run_detect_minimum impl files percentage thr)) = []
    \<and> visited (snd (run_detect_minimum impl files percentage thr)) = 1
    \<and> last (messages (snd (run_detect_minimum impl files percentage thr)))
        = DebugNoMolecule (sdf_file_of (start_file f))"
  by (simp add: run_detect_minimum_abort[OF assms] visited_def)

theorem missing_molecule_aborts_witness:
  "fst (run_detect_minimum ani2x_elements
          \<lparr>total_number_of_systems = 2, inputs = [no_molecule_input, methane_input]\<rparr> 100 20)
     = Inl AttributeError
   \<and> score (snd (run_detect_minimum ani2x_elements
          \<lparr>total_number_of_systems = 2, inputs = [no_molecule_input, methane_input]\<rparr> 100 20))
     = []
   \<and> visited (snd (run_detect_minimum ani2x_elements
          \<lparr>total_number_of_systems = 2, inputs = [no_molecule_input, methane_input]\<rparr> 100 20))
     = 1"
  using missing_molecule_aborts
    [of "\<lparr>total_number_of_systems = 2, inputs = [no_molecule_input, methane_input]\<rparr>"
        no_molecule_input "[methane_input]" ani2x_elements 100 20]
  by simp

end
